theory Spec2Isabelle
  imports Complex_Main
begin

section \<open>Conventions\<close>

text \<open>
  The program advances the two velocity components of the 2D Burgers equation on a
  structured grid. Every \<^verbatim>\<open>double\<close> of the source is a \<^typ>\<open>real\<close> here
  (exact arithmetic: rounding, overflow and NaN are outside this development), every
  \<^verbatim>\<open>double*\<close> buffer is a \<^typ>\<open>real list\<close> of the allocated length, and the
  extents, which the source holds in \<^verbatim>\<open>int\<close>s that are never negative, are
  \<^typ>\<open>nat\<close>s. Neighbour ranks stay \<^typ>\<open>int\<close>: the source tests them for
  \<^verbatim>\<open>< 0\<close>.

  A local field is stored column-major: the cell in column \<open>i\<close> (x-direction) and row
  \<open>j\<close> (y-direction) of an \<open>Nyr\<close>-row block is at index \<open>i * Nyr + j\<close>.
\<close>

section \<open>The linear-algebra primitives (BLAS)\<close>

text \<open>
  The source calls the reference BLAS routines \<^verbatim>\<open>dcopy\<close>, \<^verbatim>\<open>ddot\<close>,
  \<^verbatim>\<open>dsymm\<close> and \<^verbatim>\<open>dtrmm\<close> through \<^verbatim>\<open>F77NAME\<close>. They are an external
  library; each is written here with the meaning the reference BLAS gives to exactly the
  flag combination the source passes, on column-major buffers with leading dimensions.
\<close>

text \<open>\<^verbatim>\<open>dcopy(n, x, 1, y, 1)\<close>: the first \<open>n\<close> entries of \<open>x\<close>.\<close>

definition dcopy :: "nat \<Rightarrow> real list \<Rightarrow> real list" where
  "dcopy n x = map (\<lambda>k. x ! k) [0..<n]"

text \<open>\<^verbatim>\<open>ddot(n, x, 1, y, 1)\<close>: the dot product of the first \<open>n\<close> entries.\<close>

definition ddot :: "nat \<Rightarrow> real list \<Rightarrow> real list \<Rightarrow> real" where
  "ddot n x y = (\<Sum>k<n. x ! k * y ! k)"

text \<open>
  Entry \<open>(r, s)\<close> of the symmetric matrix that \<^verbatim>\<open>dsymm\<close> reads from the buffer \<open>A\<close>
  with \<^verbatim>\<open>UPLO = 'U'\<close>: only the upper triangle of the buffer is referenced.
\<close>

definition symm_U :: "real list \<Rightarrow> nat \<Rightarrow> nat \<Rightarrow> nat \<Rightarrow> real" where
  "symm_U A lda r s = (if r \<le> s then A ! (s * lda + r) else A ! (r * lda + s))"

text \<open>
  \<^verbatim>\<open>dsymm('R', 'U', M, N, alpha, A, lda, B, ldb, 0.0, C, M)\<close>:
  \<open>C := alpha * B * A\<close> with \<open>A\<close> symmetric \<open>N \<times> N\<close>, \<open>B\<close> and \<open>C\<close> of \<open>M\<close> rows and
  \<open>N\<close> columns. With \<^verbatim>\<open>beta = 0\<close> the old contents of \<open>C\<close> are not read.
\<close>

definition dsymm_R_U ::
  "nat \<Rightarrow> nat \<Rightarrow> real \<Rightarrow> real list \<Rightarrow> nat \<Rightarrow> real list \<Rightarrow> nat \<Rightarrow> real list" where
  "dsymm_R_U M N alpha A lda B ldb =
     map (\<lambda>k. alpha * (\<Sum>l<N. B ! (l * ldb + k mod M) * symm_U A lda l (k div M)))
       [0..<N * M]"

text \<open>
  \<^verbatim>\<open>dsymm('L', 'U', M, N, alpha, A, lda, B, ldb, 0.0, C, M)\<close>:
  \<open>C := alpha * A * B\<close> with \<open>A\<close> symmetric \<open>M \<times> M\<close>.
\<close>

definition dsymm_L_U ::
  "nat \<Rightarrow> nat \<Rightarrow> real \<Rightarrow> real list \<Rightarrow> nat \<Rightarrow> real list \<Rightarrow> nat \<Rightarrow> real list" where
  "dsymm_L_U M N alpha A lda B ldb =
     map (\<lambda>k. alpha * (\<Sum>l<M. symm_U A lda (k mod M) l * B ! ((k div M) * ldb + l)))
       [0..<N * M]"

text \<open>
  \<^verbatim>\<open>dtrmm('R', 'U', 'N', 'N', M, N, alpha, A, lda, B, M)\<close>:
  \<open>B := alpha * B * A\<close> with \<open>A\<close> upper triangular \<open>N \<times> N\<close>, non-unit diagonal; the
  strictly lower triangle of the buffer is not referenced.
\<close>

definition dtrmm_R_U_N_N ::
  "nat \<Rightarrow> nat \<Rightarrow> real \<Rightarrow> real list \<Rightarrow> nat \<Rightarrow> real list \<Rightarrow> real list" where
  "dtrmm_R_U_N_N M N alpha A lda B =
     map (\<lambda>k. alpha * (\<Sum>l<Suc (k div M). B ! (l * M + k mod M) * A ! ((k div M) * lda + l)))
       [0..<N * M]"

text \<open>
  \<^verbatim>\<open>dtrmm('L', 'L', 'N', 'N', M, N, alpha, A, lda, B, M)\<close>:
  \<open>B := alpha * A * B\<close> with \<open>A\<close> lower triangular \<open>M \<times> M\<close>, non-unit diagonal; the
  strictly upper triangle of the buffer is not referenced.
\<close>

definition dtrmm_L_L_N_N ::
  "nat \<Rightarrow> nat \<Rightarrow> real \<Rightarrow> real list \<Rightarrow> nat \<Rightarrow> real list \<Rightarrow> real list" where
  "dtrmm_L_L_N_N M N alpha A lda B =
     map (\<lambda>k. alpha * (\<Sum>l<Suc (k mod M). A ! (l * lda + k mod M) * B ! ((k div M) * M + l)))
       [0..<N * M]"

section \<open>The helpers of Helpers.h\<close>

text \<open>
  Modelled from the spec: \<^verbatim>\<open>GenSymm\<close> is declared in Helpers.h and its body is not
  among the sources. Section 4.1 of the specification: a symmetric \<open>n \<times> n\<close> operator with
  \<open>M[k][k] = alpha\<close>, \<open>M[k][k\<plusminus>1] = beta\<close>, zero elsewhere; the call passes
  \<open>alpha = -2c/h\<^sup>2\<close> and \<open>beta = c/h\<^sup>2\<close>. Entry \<open>(r, s)\<close> is at index
  \<open>s * Nyr + r\<close>.
\<close>

definition GenSymm :: "real \<Rightarrow> real \<Rightarrow> nat \<Rightarrow> nat \<Rightarrow> real list" where
  "GenSymm alpha beta Nyr Nxr =
     map (\<lambda>k. let r = k mod Nyr; s = k div Nyr in
            if r = s then alpha else if r + 1 = s \<or> s + 1 = r then beta else 0)
       [0..<Nxr * Nyr]"

text \<open>
  Modelled from the spec: \<^verbatim>\<open>GenTrmm\<close> is declared in Helpers.h and its body is not
  among the sources. Section 4.1 of the specification: a triangular \<open>n \<times> n\<close> operator of
  the backward first difference, \<open>alpha\<close> on the diagonal and \<open>beta\<close> on the
  super-diagonal (\<open>UPPER\<close>, applied as a right-multiply) or on the sub-diagonal
  (otherwise, applied as a left-multiply).
\<close>

definition GenTrmm :: "real \<Rightarrow> real \<Rightarrow> nat \<Rightarrow> nat \<Rightarrow> bool \<Rightarrow> real list" where
  "GenTrmm alpha beta Nyr Nxr UPPER =
     map (\<lambda>k. let r = k mod Nyr; s = k div Nyr in
            if r = s then alpha
            else if UPPER then (if r + 1 = s then beta else 0)
            else (if s + 1 = r then beta else 0))
       [0..<Nxr * Nyr]"

text \<open>
  Modelled from the spec: \<^verbatim>\<open>MatMul\<close> is declared in Helpers.h and its body is not
  among the sources. Step 5 of section 4.3 of the specification: the elementwise product
  \<open>p * Ui[k] * Vi[k]\<close>, where \<open>offset_i\<close> makes the first factor the sample one column
  before (\<open>k - 1\<close> in the x-direction) and \<open>offset_j\<close> the sample one row before
  (\<open>k - 1\<close> in the y-direction), and the result is zero at that direction's first
  column or row. The inline loop of serSrc/Burgers.cpp (\<^verbatim>\<open>SetLinearTerms\<close>) computes
  the same four products.
\<close>

definition MatMul ::
  "real list \<Rightarrow> real list \<Rightarrow> nat \<Rightarrow> nat \<Rightarrow> bool \<Rightarrow> bool \<Rightarrow> real \<Rightarrow> real list" where
  "MatMul Ui Vi Ny Nx offset_i offset_j p =
     map (\<lambda>k. let i = k div Ny; j = k mod Ny in
            if (offset_i \<and> i = 0) \<or> (offset_j \<and> j = 0) then 0
            else p * Ui ! ((i - (if offset_i then 1 else 0)) * Ny
                           + (j - (if offset_j then 1 else 0))) * Vi ! k)
       [0..<Nx * Ny]"

text \<open>
  Modelled from the spec: \<^verbatim>\<open>SetZeroes\<close> is called by \<^verbatim>\<open>SetCaches\<close> and its body
  is not among the sources. Section 4.2 of the specification: the receive buffer is
  filled with zeros.
\<close>

definition SetZeroes :: "real list \<Rightarrow> nat \<Rightarrow> real list" where
  "SetZeroes buf n = replicate n 0 @ drop n buf"

section \<open>The partitioned engine: parSrc/Burgers2P.cpp\<close>

text \<open>
  What \<^verbatim>\<open>Burgers2P\<close> reads from its \<^verbatim>\<open>Model\<close> through getters. The class itself
  (Model2P.h) is not among the sources, so its values are parameters.
\<close>

record model =
  LocNxr :: nat
  LocNyr :: nat
  Nt :: nat
  X0 :: real
  Y0 :: real
  Dx :: real
  Dy :: real
  Dt :: real
  Ax :: real
  Ay :: real
  B :: real
  C :: real
  DisplX :: nat
  DisplY :: nat
  Up :: int
  Down :: int
  Left :: int
  Right :: int

text \<open>The instance variables of \<^verbatim>\<open>Burgers2P\<close>, as Burgers2P.cpp uses them.\<close>

record burgers2p =
  U :: "real list"
  V :: "real list"
  E :: real
  dVel_dx_2_coeffs :: "real list"
  dVel_dy_2_coeffs :: "real list"
  dVel_dx_coeffs :: "real list"
  dVel_dy_coeffs :: "real list"
  upVel :: "real list"
  downVel :: "real list"
  leftVel :: "real list"
  rightVel :: "real list"

text \<open>\<^verbatim>\<open>Burgers2P::SetMatrixCoefficients\<close>.\<close>

definition SetMatrixCoefficients :: "model \<Rightarrow> burgers2p \<Rightarrow> burgers2p" where
  "SetMatrixCoefficients m st =
     (let Nyr = LocNyr m; Nxr = LocNxr m;
          dx = Dx m; dy = Dy m; ax = Ax m; ay = Ay m; c = C m
      in st\<lparr> dVel_dx_2_coeffs := GenSymm ((- 2 * c) / dx ^ 2) (c / dx ^ 2) Nxr Nxr,
              dVel_dy_2_coeffs := GenSymm ((- 2 * c) / dy ^ 2) (c / dy ^ 2) Nyr Nyr,
              dVel_dx_coeffs := GenTrmm (ax / dx) (- ax / dx) Nxr Nxr True,
              dVel_dy_coeffs := GenTrmm (ay / dy) (- ay / dy) Nyr Nyr False \<rparr>)"

text \<open>\<^verbatim>\<open>Burgers2P::ComputeR\<close>: \<^verbatim>\<open>pow(x*x+y*y, 0.5)\<close>.\<close>

definition ComputeR :: "real \<Rightarrow> real \<Rightarrow> real" where
  "ComputeR x y = sqrt (x * x + y * y)"

text \<open>
  \<^verbatim>\<open>Burgers2P::SetInitialVelocity\<close>: the two nested loops, each iteration writing
  one entry of \<open>U\<close> and then the same entry of \<open>V\<close>.
\<close>

definition SetInitialVelocity :: "model \<Rightarrow> burgers2p \<Rightarrow> burgers2p" where
  "SetInitialVelocity m st =
     (let x0 = X0 m; y0 = Y0 m; dx = Dx m; dy = Dy m;
          Nyr = LocNyr m; Nxr = LocNxr m; displ_x = DisplX m; displ_y = DisplY m;
          loc_x0 = x0 + real (displ_x + 1) * dx;
          loc_y0 = y0 - real (displ_y + 1) * dy
      in fold (\<lambda>i. fold (\<lambda>j st.
                 let x = loc_x0 + real i * dx;
                     y = loc_y0 - real j * dy;
                     r = ComputeR x y;
                     st = st\<lparr> U := (U st)[i * Nyr + j :=
                             (if r \<le> 1 then 2 * (1 - r) ^ 4 * (4 * r + 1) else 0)] \<rparr>;
                     st = st\<lparr> V := (V st)[i * Nyr + j :=
                             (if r \<le> 1 then 2 * (1 - r) ^ 4 * (4 * r + 1) else 0)] \<rparr>
                 in st)
               [0..<Nyr]) [0..<Nxr] st)"

subsection \<open>Halo exchange\<close>

text \<open>
  The four messages a worker receives in one call of \<^verbatim>\<open>SetCaches\<close>, named by the
  neighbour that sent them. What the neighbours send is outside the worker: it is an
  argument of the worker's functions.
\<close>

record halo =
  from_up :: "real list"
  from_down :: "real list"
  from_left :: "real list"
  from_right :: "real list"

text \<open>
  The receiving half of \<^verbatim>\<open>MPI_Sendrecv(_, _, _, _, _, recvbuf, n, MPI_DOUBLE, source, ...)\<close>:
  a negative \<open>source\<close> is the no-neighbour rank (\<^verbatim>\<open>MPI_PROC_NULL\<close>), from which
  nothing is received and the buffer stays as it was; otherwise at most \<open>n\<close> values of
  the message overwrite the head of the buffer.
\<close>

definition MPI_Sendrecv_recv :: "real list \<Rightarrow> nat \<Rightarrow> int \<Rightarrow> real list \<Rightarrow> real list" where
  "MPI_Sendrecv_recv recvbuf n source msg =
     (if source < 0 then recvbuf
      else take n msg @ drop (length (take n msg)) recvbuf)"

text \<open>
  The four buffers \<^verbatim>\<open>SetCaches\<close> fills from the worker's own field and sends: the
  first and last row, the first and last column.
\<close>

definition myUpVel :: "model \<Rightarrow> real list \<Rightarrow> real list" where
  "myUpVel m Vel = map (\<lambda>i. Vel ! (i * LocNyr m)) [0..<LocNxr m]"

definition myDownVel :: "model \<Rightarrow> real list \<Rightarrow> real list" where
  "myDownVel m Vel = map (\<lambda>i. Vel ! (i * LocNyr m + (LocNyr m - 1))) [0..<LocNxr m]"

definition myLeftVel :: "model \<Rightarrow> real list \<Rightarrow> real list" where
  "myLeftVel m Vel = map (\<lambda>j. Vel ! j) [0..<LocNyr m]"

definition myRightVel :: "model \<Rightarrow> real list \<Rightarrow> real list" where
  "myRightVel m Vel = map (\<lambda>j. Vel ! ((LocNxr m - 1) * LocNyr m + j)) [0..<LocNyr m]"

text \<open>
  \<^verbatim>\<open>Burgers2P::SetCaches\<close>, the receiving side: the four exchanges in the source's
  order, then the zero fill towards every missing neighbour.
\<close>

definition SetCaches :: "model \<Rightarrow> burgers2p \<Rightarrow> real list \<Rightarrow> halo \<Rightarrow> burgers2p" where
  "SetCaches m st Vel inc =
     (let Nyr = LocNyr m; Nxr = LocNxr m;
          up = Up m; down = Down m; left = Left m; right = Right m;
          st = st\<lparr> upVel := MPI_Sendrecv_recv (upVel st) Nxr up (from_up inc) \<rparr>;
          st = st\<lparr> downVel := MPI_Sendrecv_recv (downVel st) Nxr down (from_down inc) \<rparr>;
          st = st\<lparr> leftVel := MPI_Sendrecv_recv (leftVel st) Nyr left (from_left inc) \<rparr>;
          st = st\<lparr> rightVel := MPI_Sendrecv_recv (rightVel st) Nyr right (from_right inc) \<rparr>;
          st = (if up < 0 then st\<lparr> upVel := SetZeroes (upVel st) Nxr \<rparr> else st);
          st = (if down < 0 then st\<lparr> downVel := SetZeroes (downVel st) Nxr \<rparr> else st);
          st = (if left < 0 then st\<lparr> leftVel := SetZeroes (leftVel st) Nyr \<rparr> else st);
          st = (if right < 0 then st\<lparr> rightVel := SetZeroes (rightVel st) Nyr \<rparr> else st)
      in st)"

subsection \<open>One velocity update\<close>

text \<open>The eight term arrays that \<^verbatim>\<open>NextVelocityState\<close> allocates and combines.\<close>

record terms =
  dVel_dx_2 :: "real list"
  dVel_dy_2 :: "real list"
  dVel_dx :: "real list"
  dVel_dy :: "real list"
  Vel_Vel :: "real list"
  Vel_Other :: "real list"
  Vel_Vel_Minus_1 :: "real list"
  Vel_Other_Minus_1 :: "real list"

text \<open>\<^verbatim>\<open>Burgers2P::UpdateBoundsLinear\<close>: two loops of in-place updates.\<close>

definition UpdateBoundsLinear :: "model \<Rightarrow> burgers2p \<Rightarrow> terms \<Rightarrow> terms" where
  "UpdateBoundsLinear m st t =
     (let Nyr = LocNyr m; Nxr = LocNxr m;
          dx = Dx m; dy = Dy m; ax = Ax m; ay = Ay m; c = C m;
          t = fold (\<lambda>j t.
                let t = t\<lparr> dVel_dx_2 := (dVel_dx_2 t)[j :=
                              dVel_dx_2 t ! j + c / dx ^ 2 * leftVel st ! j] \<rparr>;
                    t = t\<lparr> dVel_dx := (dVel_dx t)[j :=
                              dVel_dx t ! j - ax / dx * leftVel st ! j] \<rparr>;
                    t = t\<lparr> dVel_dx_2 := (dVel_dx_2 t)[(Nxr - 1) * Nyr + j :=
                              dVel_dx_2 t ! ((Nxr - 1) * Nyr + j) + c / dx ^ 2 * rightVel st ! j] \<rparr>
                in t) [0..<Nyr] t;
          t = fold (\<lambda>i t.
                let t = t\<lparr> dVel_dy_2 := (dVel_dy_2 t)[i * Nyr :=
                              dVel_dy_2 t ! (i * Nyr) + c / dy ^ 2 * upVel st ! i] \<rparr>;
                    t = t\<lparr> dVel_dy := (dVel_dy t)[i * Nyr :=
                              dVel_dy t ! (i * Nyr) - ay / dy * upVel st ! i] \<rparr>;
                    t = t\<lparr> dVel_dy_2 := (dVel_dy_2 t)[i * Nyr + (Nyr - 1) :=
                              dVel_dy_2 t ! (i * Nyr + (Nyr - 1)) + c / dy ^ 2 * downVel st ! i] \<rparr>
                in t) [0..<Nxr] t
      in t)"

text \<open>\<^verbatim>\<open>Burgers2P::UpdateBoundsNonLinear\<close>.\<close>

definition UpdateBoundsNonLinear ::
  "model \<Rightarrow> burgers2p \<Rightarrow> real list \<Rightarrow> real list \<Rightarrow> bool \<Rightarrow> terms \<Rightarrow> terms" where
  "UpdateBoundsNonLinear m st Vel Other SELECT_U t =
     (let Nyr = LocNyr m; Nxr = LocNxr m; dx = Dx m; dy = Dy m; b = B m
      in if SELECT_U then
           (let t = fold (\<lambda>i t. t\<lparr> Vel_Other_Minus_1 := (Vel_Other_Minus_1 t)[i * Nyr :=
                              b / dy * upVel st ! i * Other ! (i * Nyr)] \<rparr>) [0..<Nxr] t;
                t = fold (\<lambda>j t. t\<lparr> Vel_Vel_Minus_1 := (Vel_Vel_Minus_1 t)[j :=
                              b / dx * leftVel st ! j * Vel ! j] \<rparr>) [0..<Nyr] t
            in t)
         else
           (let t = fold (\<lambda>i t. t\<lparr> Vel_Vel_Minus_1 := (Vel_Vel_Minus_1 t)[i * Nyr :=
                              b / dy * upVel st ! i * Vel ! (i * Nyr)] \<rparr>) [0..<Nxr] t;
                t = fold (\<lambda>j t. t\<lparr> Vel_Other_Minus_1 := (Vel_Other_Minus_1 t)[j :=
                              b / dx * leftVel st ! j * Other ! j] \<rparr>) [0..<Nyr] t
            in t))"

text \<open>
  \<^verbatim>\<open>Burgers2P::NextVelocityState\<close> up to the two boundary corrections: the halo
  refresh, the four BLAS products, the four \<^verbatim>\<open>MatMul\<close> products and the corrections.
  The result is the state with its refreshed halo buffers and the eight term arrays as
  they stand when the combining loop starts.
\<close>

definition NextVelocityState_terms ::
  "model \<Rightarrow> burgers2p \<Rightarrow> real list \<Rightarrow> real list \<Rightarrow> bool \<Rightarrow> halo \<Rightarrow> burgers2p \<times> terms" where
  "NextVelocityState_terms m st Ui Vi SELECT_U inc =
     (let Nyr = LocNyr m; Nxr = LocNxr m; dx = Dx m; dy = Dy m; b = B m;
          Vel = (if SELECT_U then Ui else Vi);
          Other = (if SELECT_U then Vi else Ui);
          st = SetCaches m st Vel inc;
          dVel_dx_2 = dsymm_R_U Nyr Nxr 1 (dVel_dx_2_coeffs st) Nxr Vel Nyr;
          dVel_dy_2 = dsymm_L_U Nyr Nxr 1 (dVel_dy_2_coeffs st) Nyr Vel Nyr;
          dVel_dx = dcopy (Nyr * Nxr) Vel;
          dVel_dy = dcopy (Nyr * Nxr) Vel;
          dVel_dx = dtrmm_R_U_N_N Nyr Nxr 1 (dVel_dx_coeffs st) Nxr dVel_dx;
          dVel_dy = dtrmm_L_L_N_N Nyr Nxr 1 (dVel_dy_coeffs st) Nyr dVel_dy;
          t = (if SELECT_U then
                 \<lparr> dVel_dx_2 = dVel_dx_2, dVel_dy_2 = dVel_dy_2,
                   dVel_dx = dVel_dx, dVel_dy = dVel_dy,
                   Vel_Vel = MatMul Vel Vel Nyr Nxr False False (b / dx),
                   Vel_Other = MatMul Vel Other Nyr Nxr False False (b / dy),
                   Vel_Vel_Minus_1 = MatMul Vel Vel Nyr Nxr True False (b / dx),
                   Vel_Other_Minus_1 = MatMul Vel Other Nyr Nxr False True (b / dy) \<rparr>
               else
                 \<lparr> dVel_dx_2 = dVel_dx_2, dVel_dy_2 = dVel_dy_2,
                   dVel_dx = dVel_dx, dVel_dy = dVel_dy,
                   Vel_Vel = MatMul Vel Vel Nyr Nxr False False (b / dy),
                   Vel_Other = MatMul Vel Other Nyr Nxr False False (b / dx),
                   Vel_Vel_Minus_1 = MatMul Vel Vel Nyr Nxr False True (b / dy),
                   Vel_Other_Minus_1 = MatMul Vel Other Nyr Nxr True False (b / dx) \<rparr>);
          t = UpdateBoundsLinear m st t;
          t = UpdateBoundsNonLinear m st Vel Other SELECT_U t
      in (st, t))"

text \<open>
  The combining loop of \<^verbatim>\<open>NextVelocityState\<close>: three statements per cell, on the
  buffer \<open>NextVel\<close>.
\<close>

definition combine_terms :: "nat \<Rightarrow> real \<Rightarrow> real list \<Rightarrow> terms \<Rightarrow> real list \<Rightarrow> real list" where
  "combine_terms n dt Vel t NextVel =
     fold (\<lambda>i NextVel.
        let NextVel = NextVel[i :=
              dVel_dx_2 t ! i + dVel_dy_2 t ! i - dVel_dx t ! i - dVel_dy t ! i
              - (Vel_Vel t ! i + Vel_Other t ! i - Vel_Vel_Minus_1 t ! i - Vel_Other_Minus_1 t ! i)];
            NextVel = NextVel[i := NextVel ! i * dt];
            NextVel = NextVel[i := NextVel ! i + Vel ! i]
        in NextVel) [0..<n] NextVel"

text \<open>
  \<^verbatim>\<open>Burgers2P::NextVelocityState\<close>. The buffer \<open>NextVel\<close> is fresh
  (\<^verbatim>\<open>new double[Nyr*Nxr]\<close>, contents indeterminate); the loop overwrites every entry
  of it, so it starts here from zeros. The function returns the new buffer; the halo
  buffers of the instance have changed.
\<close>

definition NextVelocityState ::
  "model \<Rightarrow> burgers2p \<Rightarrow> real list \<Rightarrow> real list \<Rightarrow> bool \<Rightarrow> halo \<Rightarrow> real list \<times> burgers2p" where
  "NextVelocityState m st Ui Vi SELECT_U inc =
     (let Nyr = LocNyr m; Nxr = LocNxr m; dt = Dt m;
          Vel = (if SELECT_U then Ui else Vi);
          (st, t) = NextVelocityState_terms m st Ui Vi SELECT_U inc;
          NextVel = combine_terms (Nyr * Nxr) dt Vel t (replicate (Nyr * Nxr) 0)
      in (NextVel, st))"

text \<open>\<^verbatim>\<open>Burgers2P::CopyAndDelete\<close>.\<close>

definition CopyAndDelete :: "model \<Rightarrow> burgers2p \<Rightarrow> real list \<Rightarrow> real list \<Rightarrow> burgers2p" where
  "CopyAndDelete m st NextU NextV =
     (let Nyr = LocNyr m; Nxr = LocNxr m
      in fold (\<lambda>i st.
           let st = st\<lparr> U := (U st)[i := NextU ! i] \<rparr>;
               st = st\<lparr> V := (V st)[i := NextV ! i] \<rparr>
           in st) [0..<Nyr * Nxr] st)"

text \<open>
  One iteration of the loop of \<^verbatim>\<open>Burgers2P::SetIntegratedVelocity\<close>. Each call of
  \<^verbatim>\<open>NextVelocityState\<close> is handed the members \<open>U\<close> and \<open>V\<close> as they are when the
  call is made. \<open>incU\<close> and \<open>incV\<close> are the messages of the two halo exchanges of the
  step.
\<close>

definition velocity_step :: "model \<Rightarrow> halo \<Rightarrow> halo \<Rightarrow> burgers2p \<Rightarrow> burgers2p" where
  "velocity_step m incU incV st =
     (let (NextU, st) = NextVelocityState m st (U st) (V st) True incU;
          (NextV, st) = NextVelocityState m st (U st) (V st) False incV
      in CopyAndDelete m st NextU NextV)"

text \<open>
  \<^verbatim>\<open>Burgers2P::SetIntegratedVelocity\<close>: \<open>Nt - 1\<close> steps; \<open>inc k\<close> gives the messages
  that arrive in step \<open>k\<close>.
\<close>

definition SetIntegratedVelocity :: "model \<Rightarrow> (nat \<Rightarrow> halo \<times> halo) \<Rightarrow> burgers2p \<Rightarrow> burgers2p" where
  "SetIntegratedVelocity m inc st =
     (let st = SetMatrixCoefficients m st
      in fold (\<lambda>k st. velocity_step m (fst (inc k)) (snd (inc k)) st) [0..<Nt m - 1] st)"

subsection \<open>The energy\<close>

text \<open>
  \<^verbatim>\<open>Burgers2P::CalculateEnergyState\<close> up to the collective call: the value this worker
  contributes to the reduction.
\<close>

definition NextLocalEnergyState :: "model \<Rightarrow> real list \<Rightarrow> real list \<Rightarrow> real" where
  "NextLocalEnergyState m Ui Vi =
     (let Nyr = LocNyr m; Nxr = LocNxr m; dx = Dx m; dy = Dy m;
          loc_ddotU = ddot (Nyr * Nxr) Ui Ui;
          loc_ddotV = ddot (Nyr * Nxr) Vi Vi
      in 0.5 * (loc_ddotU + loc_ddotV) * dx * dy)"

text \<open>
  \<^verbatim>\<open>MPI_Allreduce(_, _, 1, MPI_DOUBLE, MPI_SUM, comm)\<close>: from the contributions of all
  ranks of the communicator, the value every rank receives.
\<close>

definition MPI_Allreduce_SUM :: "real list \<Rightarrow> real" where
  "MPI_Allreduce_SUM contributions = sum_list contributions"

text \<open>
  \<^verbatim>\<open>Burgers2P::CalculateEnergyState\<close> and \<^verbatim>\<open>Burgers2P::SetEnergy\<close> on the worker of
  rank \<open>rank\<close>; \<open>others\<close> holds what the ranks of the communicator contribute, and the
  worker's own entry of it is replaced by its own contribution.
\<close>

definition CalculateEnergyState :: "model \<Rightarrow> real list \<Rightarrow> real list \<Rightarrow> nat \<Rightarrow> real list \<Rightarrow> real" where
  "CalculateEnergyState m Ui Vi rank others =
     (let NextLocalEnergyState = NextLocalEnergyState m Ui Vi;
          NextGlobalEnergyState = MPI_Allreduce_SUM (others[rank := NextLocalEnergyState])
      in NextGlobalEnergyState)"

definition SetEnergy :: "model \<Rightarrow> nat \<Rightarrow> real list \<Rightarrow> burgers2p \<Rightarrow> burgers2p" where
  "SetEnergy m rank others st = st\<lparr> E := CalculateEnergyState m (U st) (V st) rank others \<rparr>"

text \<open>
  All workers of a run call \<^verbatim>\<open>SetEnergy\<close> together: worker \<open>r\<close> of the list has rank
  \<open>r\<close>, and the contributions are those of the workers themselves.
\<close>

definition SetEnergy_all :: "(model \<times> burgers2p) list \<Rightarrow> (model \<times> burgers2p) list" where
  "SetEnergy_all ws =
     (let contributions = map (\<lambda>(m, st). NextLocalEnergyState m (U st) (V st)) ws
      in map (\<lambda>r. (fst (ws ! r), SetEnergy (fst (ws ! r)) r contributions (snd (ws ! r))))
           [0..<length ws])"

subsection \<open>The process mesh\<close>

text \<open>
  Modelled from the spec: the decomposition service (\<^verbatim>\<open>Model2P\<close>, GridTopology of
  section 2) is not among the sources. Workers sit on a \<open>Px \<times> Py\<close> mesh, worker \<open>(p, q)\<close>
  in mesh column \<open>p\<close> and mesh row \<open>q\<close>; its rank is a number that is never negative.
\<close>

definition rank_of :: "nat \<Rightarrow> nat \<Rightarrow> nat \<Rightarrow> int" where
  "rank_of Py p q = int (p * Py + q)"

text \<open>
  Modelled from the spec: the \<^verbatim>\<open>Model\<close> of worker \<open>(p, q)\<close>. All workers share the run
  parameters and the local extents of \<open>g\<close> (the mesh divides the grid evenly, section 8);
  the worker's sub-block starts at \<open>(p * Nxr, q * Nyr)\<close> of the global interior grid, and a
  neighbour across a physical edge is the negative no-neighbour rank. The up neighbour
  owns the rows above (smaller row index), the left neighbour the columns before.
\<close>

definition worker_model :: "model \<Rightarrow> nat \<Rightarrow> nat \<Rightarrow> nat \<Rightarrow> nat \<Rightarrow> model" where
  "worker_model g Px Py p q =
     g\<lparr> DisplX := p * LocNxr g, DisplY := q * LocNyr g,
        Up := (if q = 0 then - 1 else rank_of Py p (q - 1)),
        Down := (if q + 1 = Py then - 1 else rank_of Py p (q + 1)),
        Left := (if p = 0 then - 1 else rank_of Py (p - 1) q),
        Right := (if p + 1 = Px then - 1 else rank_of Py (p + 1) q) \<rparr>"

text \<open>
  Modelled from the spec: the halo exchange as a copy (sections 4.2 and 9). Worker
  \<open>(p, q)\<close> receives from each neighbour that exists the boundary row or column that
  this neighbour's \<^verbatim>\<open>SetCaches\<close> sends towards it: the last row of the worker above,
  the first row of the worker below, the last column of the worker to the left and the
  first column of the worker to the right. \<open>F p q\<close> is the field worker \<open>(p, q)\<close>
  exchanges.
\<close>

definition halo_exchange ::
  "model \<Rightarrow> nat \<Rightarrow> nat \<Rightarrow> (nat \<Rightarrow> nat \<Rightarrow> real list) \<Rightarrow> nat \<Rightarrow> nat \<Rightarrow> halo" where
  "halo_exchange g Px Py F p q =
     \<lparr> from_up = (if q = 0 then []
                   else myDownVel (worker_model g Px Py p (q - 1)) (F p (q - 1))),
       from_down = (if q + 1 = Py then []
                   else myUpVel (worker_model g Px Py p (q + 1)) (F p (q + 1))),
       from_left = (if p = 0 then []
                   else myRightVel (worker_model g Px Py (p - 1) q) (F (p - 1) q)),
       from_right = (if p + 1 = Px then []
                   else myLeftVel (worker_model g Px Py (p + 1) q) (F (p + 1) q)) \<rparr>"

text \<open>
  Modelled from the spec: all workers take one time step in lockstep (section 5). The
  first exchange of the step carries the \<open>U\<close> fields and the second the \<open>V\<close> fields of
  the time level before the step, since every worker commits only after both.
\<close>

definition mesh_step ::
  "model \<Rightarrow> nat \<Rightarrow> nat \<Rightarrow> (nat \<Rightarrow> nat \<Rightarrow> burgers2p) \<Rightarrow> (nat \<Rightarrow> nat \<Rightarrow> burgers2p)" where
  "mesh_step g Px Py ws =
     (\<lambda>p q. velocity_step (worker_model g Px Py p q)
              (halo_exchange g Px Py (\<lambda>p q. U (ws p q)) p q)
              (halo_exchange g Px Py (\<lambda>p q. V (ws p q)) p q)
              (ws p q))"

definition mesh_run ::
  "model \<Rightarrow> nat \<Rightarrow> nat \<Rightarrow> nat \<Rightarrow> (nat \<Rightarrow> nat \<Rightarrow> burgers2p) \<Rightarrow> (nat \<Rightarrow> nat \<Rightarrow> burgers2p)" where
  "mesh_run g Px Py n ws = (mesh_step g Px Py ^^ n) ws"

text \<open>
  The single worker that owns the whole grid of a \<open>Px \<times> Py\<close> mesh of \<open>g\<close>: as worker
  \<open>(0, 0)\<close> of a \<open>1 \<times> 1\<close> mesh it has no neighbour.
\<close>

definition single_worker :: "model \<Rightarrow> nat \<Rightarrow> nat \<Rightarrow> model" where
  "single_worker g Px Py = g\<lparr> LocNxr := Px * LocNxr g, LocNyr := Py * LocNyr g \<rparr>"

section \<open>The single-process variants\<close>

text \<open>
  What the single-process programs read from their \<^verbatim>\<open>Model\<close> through getters
  (\<^verbatim>\<open>GetAx()\<close> ... \<^verbatim>\<open>GetY0()\<close>); Model.cpp holds the members behind them.
\<close>

record Model =
  GetAx :: real
  GetAy :: real
  GetB :: real
  GetC :: real
  GetLx :: real
  GetLy :: real
  GetT :: real
  GetNx :: int
  GetNy :: int
  GetNt :: int
  GetDx :: real
  GetDy :: real
  GetDt :: real
  GetX0 :: real
  GetY0 :: real

subsection \<open>serSrc/Burgers.cpp\<close>

text \<open>The buffers of the member \<^verbatim>\<open>local\<close> and the energy.\<close>

record burgers_ser =
  local_U :: "real list"
  local_V :: "real list"
  local_NextU :: "real list"
  local_NextV :: "real list"
  E_ser :: real

text \<open>
  \<^verbatim>\<open>Burgers::SetInitialVelocity\<close> of serSrc/Burgers.cpp. The loops run only when
  \<open>Nx - 2\<close> and \<open>Ny - 2\<close> are positive, so the reduced extents are the naturals
  \<open>nat (Nx - 2)\<close> and \<open>nat (Ny - 2)\<close>.
\<close>

definition SetInitialVelocity_ser :: "Model \<Rightarrow> burgers_ser \<Rightarrow> burgers_ser" where
  "SetInitialVelocity_ser model st =
     (let Ny = GetNy model; Nx = GetNx model;
          x0 = GetX0 model; y0 = GetY0 model; dx = GetDx model; dy = GetDy model;
          Nyr = nat (Ny - 2); Nxr = nat (Nx - 2)
      in fold (\<lambda>i. fold (\<lambda>j st.
                 let y = y0 - real (j + 1) * dy;
                     x = x0 + real (i + 1) * dx;
                     r = sqrt (x * x + y * y);
                     st = st\<lparr> local_U := (local_U st)[i * Nyr + j :=
                             (if r \<le> 1 then 2 * (1 - r) ^ 4 * (4 * r + 1) else 0)] \<rparr>;
                     st = st\<lparr> local_V := (local_V st)[i * Nyr + j :=
                             (if r \<le> 1 then 2 * (1 - r) ^ 4 * (4 * r + 1) else 0)] \<rparr>
                 in st)
               [0..<Nyr]) [0..<Nxr] st)"

text \<open>\<^verbatim>\<open>Burgers::SetEnergy\<close> of serSrc/Burgers.cpp.\<close>

definition SetEnergy_ser :: "Model \<Rightarrow> burgers_ser \<Rightarrow> burgers_ser" where
  "SetEnergy_ser model st =
     (let Ny = GetNy model; Nx = GetNx model; dx = GetDx model; dy = GetDy model;
          Nyr = nat (Ny - 2); Nxr = nat (Nx - 2);
          ddotU = ddot (Nyr * Nxr) (local_U st) (local_U st);
          ddotV = ddot (Nyr * Nxr) (local_V st) (local_V st)
      in st\<lparr> E_ser := 0.5 * (ddotU + ddotV) * dx * dy \<rparr>)"

text \<open>
  \<^verbatim>\<open>Burgers::SetLinearTerms\<close> of serSrc/Burgers.cpp reads further getters of its
  \<^verbatim>\<open>Model\<close>: the four coefficient pairs of the linear terms and \<^verbatim>\<open>GetBDx()\<close>,
  \<^verbatim>\<open>GetBDy()\<close>. The class behind them is not among the sources; what they return are
  fields here.
\<close>

record Model_ser = Model +
  GetAlphaDx_2 :: real
  GetBetaDx_2 :: real
  GetAlphaDy_2 :: real
  GetBetaDy_2 :: real
  GetAlphaDx_1 :: real
  GetBetaDx_1 :: real
  GetAlphaDy_1 :: real
  GetBetaDy_1 :: real
  GetBDx :: real
  GetBDy :: real

text \<open>
  The body of the innermost loop of \<^verbatim>\<open>SetLinearTerms\<close> for column \<open>i\<close> and row \<open>k\<close>:
  six statements accumulate the linear terms into \<^verbatim>\<open>NextVel[curr]\<close>, then the
  \<^verbatim>\<open>switch\<close> on \<^verbatim>\<open>SELECT_U\<close> subtracts the nonlinear terms, scales by \<open>dt\<close> and adds
  \<^verbatim>\<open>Vel[curr]\<close>. \<^verbatim>\<open>Vel_iMinus\<close> and \<^verbatim>\<open>Vel_iPlus\<close> point at the neighbouring columns and are
  read only where the source has set them.
\<close>

definition SetLinearTerms_cell ::
  "Model_ser \<Rightarrow> real list \<Rightarrow> real list \<Rightarrow> bool \<Rightarrow> nat \<Rightarrow> nat \<Rightarrow> real list \<Rightarrow> real list" where
  "SetLinearTerms_cell model Vel Other SELECT_U i k NextVel =
     (let Nxr = nat (GetNx model - 2); Nyr = nat (GetNy model - 2);
          alpha_dx_2 = GetAlphaDx_2 model; beta_dx_2 = GetBetaDx_2 model;
          alpha_dy_2 = GetAlphaDy_2 model; beta_dy_2 = GetBetaDy_2 model;
          alpha_dx_1 = GetAlphaDx_1 model; beta_dx_1 = GetBetaDx_1 model;
          alpha_dy_1 = GetAlphaDy_1 model; beta_dy_1 = GetBetaDy_1 model;
          dt = GetDt model; bdx = GetBDx model; bdy = GetBDy model;
          Vel_iMinus = (\<lambda>k. Vel ! ((i - 1) * Nyr + k));
          Vel_iPlus = (\<lambda>k. Vel ! ((i + 1) * Nyr + k));
          start = i * Nyr;
          curr = start + k;
          NextVel = NextVel[curr :=
            (if i > 0 then alpha_dx_1 * Vel ! curr + beta_dx_1 * Vel_iMinus k
             else alpha_dx_1 * Vel ! curr)];
          NextVel = NextVel[curr :=
            (if i > 0 then NextVel ! curr + alpha_dx_2 * Vel ! curr + beta_dx_2 * Vel_iMinus k
             else NextVel ! curr + alpha_dx_2 * Vel ! curr)];
          NextVel = NextVel[curr :=
            (if i < Nxr - 1 then NextVel ! curr + beta_dx_2 * Vel_iPlus k else NextVel ! curr)];
          NextVel = NextVel[curr :=
            (if k > 0 then NextVel ! curr + alpha_dy_1 * Vel ! curr + beta_dy_1 * Vel ! (curr - 1)
             else NextVel ! curr + alpha_dy_1 * Vel ! curr)];
          NextVel = NextVel[curr :=
            (if k > 0 then NextVel ! curr + alpha_dy_2 * Vel ! curr + beta_dy_2 * Vel ! (curr - 1)
             else NextVel ! curr + alpha_dy_2 * Vel ! curr)];
          NextVel = NextVel[curr :=
            (if k < Nyr - 1 then NextVel ! curr + beta_dy_2 * Vel ! (curr + 1) else NextVel ! curr)]
      in if SELECT_U then
           (let Vel_Vel = bdx * Vel ! curr * Vel ! curr;
                Vel_Other = bdy * Vel ! curr * Other ! curr;
                Vel_Vel_Minus_1 = (if i = 0 then 0 else bdx * Vel_iMinus k * Vel ! curr);
                Vel_Other_Minus_1 = (if k = 0 then 0 else bdy * Vel ! (curr - 1) * Other ! curr);
                NextVel = NextVel[curr :=
                  NextVel ! curr - (Vel_Vel + Vel_Other - Vel_Vel_Minus_1 - Vel_Other_Minus_1)];
                NextVel = NextVel[curr := NextVel ! curr * dt];
                NextVel = NextVel[curr := NextVel ! curr + Vel ! curr]
            in NextVel)
         else
           (let Vel_Vel = bdy * Vel ! curr * Vel ! curr;
                Vel_Other = bdx * Vel ! curr * Other ! curr;
                Vel_Vel_Minus_1 = (if k = 0 then 0 else bdy * Vel ! (curr - 1) * Vel ! curr);
                Vel_Other_Minus_1 = (if i = 0 then 0 else bdx * Vel_iMinus k * Other ! curr);
                NextVel = NextVel[curr :=
                  NextVel ! curr - (Vel_Vel + Vel_Other - Vel_Vel_Minus_1 - Vel_Other_Minus_1)];
                NextVel = NextVel[curr := NextVel ! curr * dt];
                NextVel = NextVel[curr := NextVel ! curr + Vel ! curr]
            in NextVel))"

text \<open>
  \<^verbatim>\<open>Burgers::SetLinearTerms\<close>: the loop over the columns, the loop over the blocks
  \<open>j = 0, 8, 16, \<dots>\<close> of a column and the loop over the rows \<open>k\<close> of a block.
\<close>

definition SetLinearTerms ::
  "Model_ser \<Rightarrow> real list \<Rightarrow> real list \<Rightarrow> real list \<Rightarrow> bool \<Rightarrow> real list" where
  "SetLinearTerms model Vel Other NextVel SELECT_U =
     (let Nxr = nat (GetNx model - 2); Nyr = nat (GetNy model - 2);
          blocksize = 8
      in fold (\<lambda>i.
           fold (\<lambda>j.
             fold (\<lambda>k. SetLinearTerms_cell model Vel Other SELECT_U i k)
               [j..<min Nyr (j + blocksize)])
             (map (\<lambda>q. q * blocksize) [0..<(Nyr + blocksize - 1) div blocksize]))
           [0..<Nxr] NextVel)"

subsection \<open>Model.cpp\<close>

text \<open>
  The exception that \<^verbatim>\<open>ParseParameters\<close> throws. ParseException.h is not among the
  sources: the text that \<^verbatim>\<open>what()\<close> returns is a parameter of the constructor.
\<close>

datatype exception = IllegalArgumentException

text \<open>
  \<^verbatim>\<open>Model::ParseParameters\<close>. \<open>argc\<close> is the length of \<open>argv\<close>; \<open>atof\<close> is the C library
  function, a parameter here. The result is the exception, or the line written to
  \<^verbatim>\<open>cout\<close> and the members after the seven assignments.
\<close>

definition ParseParameters ::
  "(string \<Rightarrow> real) \<Rightarrow> string list \<Rightarrow> Model \<Rightarrow> exception + string list \<times> Model" where
  "ParseParameters atof argv model =
     (if length argv = 8 then
        Inr ([''Parameters saved successfully.''],
             model\<lparr> GetAx := atof (argv ! 1), GetAy := atof (argv ! 2), GetB := atof (argv ! 3),
                    GetC := atof (argv ! 4), GetLx := atof (argv ! 5), GetLy := atof (argv ! 6),
                    GetT := atof (argv ! 7) \<rparr>)
      else Inl IllegalArgumentException)"

text \<open>\<^verbatim>\<open>Model::IsValid\<close>.\<close>

definition IsValid :: "Model \<Rightarrow> bool" where
  "IsValid model \<longleftrightarrow>
     GetAx model \<ge> 0 \<and> GetAy model \<ge> 0 \<and> GetB model \<ge> 0 \<and> GetC model \<ge> 0
   \<and> GetLx model \<ge> 0 \<and> GetLy model \<ge> 0 \<and> GetT model \<ge> 0"

text \<open>\<^verbatim>\<open>Model::SetNumerics\<close>.\<close>

definition SetNumerics :: "Model \<Rightarrow> Model" where
  "SetNumerics model =
     (let model = model\<lparr> GetNx := 10 \<rparr>;
          model = model\<lparr> GetNy := 10 \<rparr>;
          model = model\<lparr> GetNt := 10 \<rparr>;
          model = model\<lparr> GetDx := GetLx model / real_of_int (GetNx model) \<rparr>;
          model = model\<lparr> GetDy := GetLy model / real_of_int (GetNy model) \<rparr>;
          model = model\<lparr> GetDt := GetT model / real_of_int (GetNt model) \<rparr>;
          model = model\<lparr> GetX0 := - GetLx model / 2 \<rparr>;
          model = model\<lparr> GetY0 := GetLy model / 2 \<rparr>
      in model)"

text \<open>\<^verbatim>\<open>Model::ValidateParameters\<close>: the line written to \<^verbatim>\<open>cout\<close>, if any, and the members.\<close>

definition ValidateParameters :: "Model \<Rightarrow> string list \<times> Model" where
  "ValidateParameters model =
     (if \<not> IsValid model then ([''WARN: Parameter values have to be (>=0)''], model)
      else ([], SetNumerics model))"

text \<open>
  \<^verbatim>\<open>Model::Model\<close>. The members are not initialised before \<^verbatim>\<open>ParseParameters\<close> runs:
  \<open>uninitialised\<close> stands for whatever they hold. The result is the exception that leaves
  the constructor, or the lines written to \<^verbatim>\<open>cout\<close> and the constructed object.
\<close>

definition Model_ctor ::
  "(string \<Rightarrow> real) \<Rightarrow> string \<Rightarrow> Model \<Rightarrow> string list \<Rightarrow> exception + string list \<times> Model" where
  "Model_ctor atof what uninitialised argv =
     (let (out, model) =
            (case ParseParameters atof argv uninitialised of
               Inr r \<Rightarrow> r
             | Inl IllegalArgumentException \<Rightarrow> ([what], uninitialised));
          (out', model) = ValidateParameters model
      in Inr (out @ out', model))"

text \<open>
  The decimal fragment of \<^verbatim>\<open>atof\<close>: leading blanks, an optional sign, digits, an
  optional fraction; the value is zero when no digit is found. (Exponents, hexadecimal
  notation, infinities and NaN are outside the fragment.)
\<close>

definition is_digit :: "char \<Rightarrow> bool" where
  "is_digit c \<longleftrightarrow> (48::nat) \<le> of_char c \<and> of_char c \<le> (57::nat)"

definition digit_value :: "char \<Rightarrow> real" where
  "digit_value c = real (of_char c - (48::nat))"

fun atof_integer :: "real \<Rightarrow> string \<Rightarrow> real \<times> string" where
  "atof_integer acc [] = (acc, [])"
| "atof_integer acc (c # cs) =
     (if is_digit c then atof_integer (acc * 10 + digit_value c) cs else (acc, c # cs))"

fun atof_fraction :: "real \<Rightarrow> string \<Rightarrow> real" where
  "atof_fraction scale [] = 0"
| "atof_fraction scale (c # cs) =
     (if is_digit c then digit_value c * scale + atof_fraction (scale / 10) cs else 0)"

definition atof_decimal :: "string \<Rightarrow> real" where
  "atof_decimal s =
     (let s = dropWhile (\<lambda>c. c = CHR '' '') s;
          (sign, s) = (case s of
                         c # cs \<Rightarrow> if c = CHR ''-'' then (- 1, cs)
                                    else if c = CHR ''+'' then (1, cs) else (1, s)
                       | [] \<Rightarrow> (1, s));
          (whole, s) = atof_integer 0 s;
          fraction = (case s of
                        c # cs \<Rightarrow> if c = CHR ''.'' then atof_fraction (1 / 10) cs else 0
                      | [] \<Rightarrow> 0)
      in sign * (whole + fraction))"

subsection \<open>src/Burgers.cpp\<close>

text \<open>
  An access outside an allocated buffer is undefined behaviour in the source; here it
  ends the function with the offending index.
\<close>

datatype fault = OutOfBounds int

definition write_at :: "real list \<Rightarrow> int \<Rightarrow> real \<Rightarrow> fault + real list" where
  "write_at buf idx v =
     (if 0 \<le> idx \<and> idx < int (length buf) then Inr (buf[nat idx := v])
      else Inl (OutOfBounds idx))"

text \<open>
  \<^verbatim>\<open>Burgers::SetInitialVelocity\<close> of src/Burgers.cpp: \<open>U0\<close> is allocated with
  \<open>Nyr * Nxr\<close> entries, the loops run over \<open>Nx\<close> and \<open>Ny\<close>, and the entry written is
  \<open>(i - 1) * Nyr + (j - 1)\<close>.
\<close>

definition SetInitialVelocity_root :: "Model \<Rightarrow> fault + real list" where
  "SetInitialVelocity_root model =
     (let Ny = GetNy model; Nx = GetNx model;
          x0 = GetX0 model; y0 = GetY0 model; dx = GetDx model; dy = GetDy model;
          Nyr = Ny - 2; Nxr = Nx - 2;
          U0 = replicate (nat (Nyr * Nxr)) 0
      in fold (\<lambda>i. fold (\<lambda>j U0.
                 case U0 of
                   Inl f \<Rightarrow> Inl f
                 | Inr U0 \<Rightarrow>
                     (let y = y0 - real j * dy;
                          x = x0 + real i * dx;
                          r = ComputeR x y
                      in write_at U0 ((int i - 1) * Nyr + (int j - 1))
                           (if r \<le> 1 then (2 * (1 - r)) ^ 4 * (4 * r + 1) else 0)))
               [0..<nat Ny]) [0..<nat Nx] (Inr U0))"

text \<open>
  \<^verbatim>\<open>Burgers::SetEnergy\<close> of src/Burgers.cpp: one energy per time level \<open>k < Nt\<close>, from the
  fields \<open>U[k]\<close> and \<open>V[k]\<close>.
\<close>

definition SetEnergy_root :: "Model \<Rightarrow> real list list \<Rightarrow> real list list \<Rightarrow> real list" where
  "SetEnergy_root model Us Vs =
     (let Nt = GetNt model; Ny = GetNy model; Nx = GetNx model;
          Nyr = nat (Ny - 2); Nxr = nat (Nx - 2)
      in map (\<lambda>k. let ddotU = ddot (Nyr * Nxr) (Us ! k) (Us ! k);
                       ddotV = ddot (Nyr * Nxr) (Vs ! k) (Vs ! k)
                   in 0.5 * (ddotU + ddotV)) [0..<nat Nt])"

text \<open>
  The four operator buffers of \<^verbatim>\<open>Burgers\<close> in src/Burgers.cpp, which
  \<^verbatim>\<open>Burgers::SetMatrixCoefficients\<close> fills from the whole grid less its boundary.
\<close>

record burgers_root =
  dVel_dx_2_coeffs_root :: "real list"
  dVel_dy_2_coeffs_root :: "real list"
  dVel_dx_coeffs_root :: "real list"
  dVel_dy_coeffs_root :: "real list"

definition SetMatrixCoefficients_root :: "Model \<Rightarrow> burgers_root" where
  "SetMatrixCoefficients_root model =
     (let Ny = GetNy model; Nx = GetNx model; dx = GetDx model; dy = GetDy model;
          ax = GetAx model; ay = GetAy model; c = GetC model;
          Nyr = nat (Ny - 2); Nxr = nat (Nx - 2)
      in \<lparr> dVel_dx_2_coeffs_root = GenSymm ((- 2 * c) / dx ^ 2) (c / dx ^ 2) Nxr Nxr,
           dVel_dy_2_coeffs_root = GenSymm ((- 2 * c) / dy ^ 2) (c / dy ^ 2) Nyr Nyr,
           dVel_dx_coeffs_root = GenTrmm (ax / dx) (- ax / dx) Nxr Nxr True,
           dVel_dy_coeffs_root = GenTrmm (ay / dy) (- ay / dy) Nyr Nyr False \<rparr>)"

text \<open>
  \<^verbatim>\<open>Burgers::NextVelocityState\<close> of src/Burgers.cpp up to its combining loop. The BLAS
  calls pass \<open>Nxr\<close> as the leading dimension of the field buffers, which have \<open>Nyr\<close>
  rows and \<open>Nyr * Nxr\<close> entries: with \<open>Nxr < Nyr\<close> BLAS rejects the argument, with
  \<open>Nxr > Nyr\<close> it writes behind the result buffer. Both end the function here;
  \<^verbatim>\<open>Model::SetNumerics\<close> sets \<open>Nx = Ny\<close>. The first-derivative products are taken with
  \<open>alpha = -1\<close>, and there is no halo and no boundary correction.
\<close>

datatype blas_fault = LeadingDimension

definition NextVelocityState_terms_root ::
  "Model \<Rightarrow> burgers_root \<Rightarrow> real list \<Rightarrow> real list \<Rightarrow> bool \<Rightarrow> blas_fault + terms" where
  "NextVelocityState_terms_root model st Ui Vi U_OR_V =
     (let Ny = GetNy model; Nx = GetNx model;
          dx = GetDx model; dy = GetDy model; b = GetB model;
          Nyr = nat (Ny - 2); Nxr = nat (Nx - 2);
          Vel = (if U_OR_V then Ui else Vi);
          Other = (if U_OR_V then Vi else Ui)
      in if Nxr \<noteq> Nyr then Inl LeadingDimension
         else
           (let dVel_dx_2 = dsymm_R_U Nyr Nxr 1 (dVel_dx_2_coeffs_root st) Nxr Vel Nxr;
                dVel_dy_2 = dsymm_L_U Nyr Nxr 1 (dVel_dy_2_coeffs_root st) Nyr Vel Nxr;
                dVel_dx = dcopy (Nyr * Nxr) Vel;
                dVel_dy = dcopy (Nyr * Nxr) Vel;
                dVel_dx = dtrmm_R_U_N_N Nyr Nxr (- 1) (dVel_dx_coeffs_root st) Nxr dVel_dx;
                dVel_dy = dtrmm_L_L_N_N Nyr Nxr (- 1) (dVel_dy_coeffs_root st) Nyr dVel_dy
            in Inr (if U_OR_V = True then
                       \<lparr> dVel_dx_2 = dVel_dx_2, dVel_dy_2 = dVel_dy_2,
                         dVel_dx = dVel_dx, dVel_dy = dVel_dy,
                         Vel_Vel = MatMul Vel Vel Nyr Nxr False False (b / dx),
                         Vel_Other = MatMul Vel Other Nyr Nxr False False (b / dy),
                         Vel_Vel_Minus_1 = MatMul Vel Vel Nyr Nxr True False (b / dx),
                         Vel_Other_Minus_1 = MatMul Vel Other Nyr Nxr False True (b / dy) \<rparr>
                     else
                       \<lparr> dVel_dx_2 = dVel_dx_2, dVel_dy_2 = dVel_dy_2,
                         dVel_dx = dVel_dx, dVel_dy = dVel_dy,
                         Vel_Vel = MatMul Vel Vel Nyr Nxr False False (b / dy),
                         Vel_Other = MatMul Vel Other Nyr Nxr False False (b / dx),
                         Vel_Vel_Minus_1 = MatMul Vel Vel Nyr Nxr False True (b / dy),
                         Vel_Other_Minus_1 = MatMul Vel Other Nyr Nxr True False (b / dx) \<rparr>)))"

text \<open>
  The combining loop of src/Burgers.cpp: the two first-derivative arrays are added.
\<close>

definition combine_terms_root :: "nat \<Rightarrow> real \<Rightarrow> real list \<Rightarrow> terms \<Rightarrow> real list \<Rightarrow> real list" where
  "combine_terms_root n dt Vel t NextVel =
     fold (\<lambda>i NextVel.
        let NextVel = NextVel[i :=
              dVel_dx_2 t ! i + dVel_dy_2 t ! i + dVel_dx t ! i + dVel_dy t ! i
              - (Vel_Vel t ! i + Vel_Other t ! i - Vel_Vel_Minus_1 t ! i - Vel_Other_Minus_1 t ! i)];
            NextVel = NextVel[i := NextVel ! i * dt];
            NextVel = NextVel[i := NextVel ! i + Vel ! i]
        in NextVel) [0..<n] NextVel"

definition NextVelocityState_root ::
  "Model \<Rightarrow> burgers_root \<Rightarrow> real list \<Rightarrow> real list \<Rightarrow> bool \<Rightarrow> blas_fault + real list" where
  "NextVelocityState_root model st Ui Vi U_OR_V =
     (let Ny = GetNy model; Nx = GetNx model; dt = GetDt model;
          Nyr = nat (Ny - 2); Nxr = nat (Nx - 2);
          Vel = (if U_OR_V then Ui else Vi)
      in case NextVelocityState_terms_root model st Ui Vi U_OR_V of
           Inl f \<Rightarrow> Inl f
         | Inr t \<Rightarrow> Inr (combine_terms_root (Nyr * Nxr) dt Vel t (replicate (Nyr * Nxr) 0)))"

section \<open>Example instances\<close>

text \<open>
  \<^verbatim>\<open>Burgers2P::Burgers2P\<close> allocates every buffer and leaves its contents
  indeterminate; \<open>Burgers2P_zero\<close> is the instance whose buffers all hold zeros, one of
  the states the constructor can leave.
\<close>

definition Burgers2P_zero :: "model \<Rightarrow> burgers2p" where
  "Burgers2P_zero m =
     \<lparr> U = replicate (LocNyr m * LocNxr m) 0, V = replicate (LocNyr m * LocNxr m) 0, E = 0,
       dVel_dx_2_coeffs = replicate (LocNxr m * LocNxr m) 0,
       dVel_dy_2_coeffs = replicate (LocNyr m * LocNyr m) 0,
       dVel_dx_coeffs = replicate (LocNxr m * LocNxr m) 0,
       dVel_dy_coeffs = replicate (LocNyr m * LocNyr m) 0,
       upVel = replicate (LocNxr m) 0, downVel = replicate (LocNxr m) 0,
       leftVel = replicate (LocNyr m) 0, rightVel = replicate (LocNyr m) 0 \<rparr>"

text \<open>A single worker that owns a \<open>2 \<times> 2\<close> block and has no neighbour.\<close>

definition model_2x2 :: model where
  "model_2x2 =
     \<lparr> LocNxr = 2, LocNyr = 2, Nt = 10, X0 = - 1, Y0 = 2, Dx = 1, Dy = 2, Dt = 1 / 2,
       Ax = 1, Ay = 2, B = 2, C = 4, DisplX = 0, DisplY = 0,
       Up = - 1, Down = - 1, Left = - 1, Right = - 1 \<rparr>"

text \<open>A single-process model of a \<open>4 \<times> 4\<close> grid, whose interior is \<open>2 \<times> 2\<close>.\<close>

definition Model_4x4 :: Model where
  "Model_4x4 =
     \<lparr> GetAx = 1, GetAy = 1, GetB = 1, GetC = 1, GetLx = 4, GetLy = 4, GetT = 1,
       GetNx = 4, GetNy = 4, GetNt = 2, GetDx = 1, GetDy = 1, GetDt = 1 / 2,
       GetX0 = - 2, GetY0 = 2 \<rparr>"

text \<open>
  A serSrc model of a \<open>4 \<times> 4\<close> grid with \<open>dx = 1\<close>, \<open>dy = 1/3\<close> and unit
  coefficients, so that \<open>b/dx = 1\<close> and \<open>b/dy = 3\<close>.
\<close>

definition Model_ser_4x4 :: Model_ser where
  "Model_ser_4x4 =
     \<lparr> GetAx = 1, GetAy = 1, GetB = 1, GetC = 1, GetLx = 3, GetLy = 1, GetT = 1,
       GetNx = 4, GetNy = 4, GetNt = 3, GetDx = 1, GetDy = 1 / 3, GetDt = 1 / 2,
       GetX0 = - 3 / 2, GetY0 = 1 / 2,
       GetAlphaDx_2 = - 2, GetBetaDx_2 = 1, GetAlphaDy_2 = - 18, GetBetaDy_2 = 9,
       GetAlphaDx_1 = - 1, GetBetaDx_1 = 1, GetAlphaDy_1 = - 3, GetBetaDy_1 = 3,
       GetBDx = 1, GetBDy = 3 \<rparr>"


definition burgers_ser_zero :: "Model \<Rightarrow> burgers_ser" where
  "burgers_ser_zero model =
     \<lparr> local_U = replicate (nat (GetNy model - 2) * nat (GetNx model - 2)) 0,
       local_V = replicate (nat (GetNy model - 2) * nat (GetNx model - 2)) 0,
       local_NextU = replicate (nat (GetNy model - 2) * nat (GetNx model - 2)) 0,
       local_NextV = replicate (nat (GetNy model - 2) * nat (GetNx model - 2)) 0,
       E_ser = 0 \<rparr>"

text \<open>Members of a \<^verbatim>\<open>Model\<close> before its constructor has assigned any: here all zero.\<close>

definition Model_uninitialised :: Model where
  "Model_uninitialised =
     \<lparr> GetAx = 0, GetAy = 0, GetB = 0, GetC = 0, GetLx = 0, GetLy = 0, GetT = 0,
       GetNx = 0, GetNy = 0, GetNt = 0, GetDx = 0, GetDy = 0, GetDt = 0,
       GetX0 = 0, GetY0 = 0 \<rparr>"

text \<open>
  The \<^verbatim>\<open>Model\<close> that the constructor builds from the arguments
  \<^verbatim>\<open>0 0 0 0 20 20 1\<close>: a \<open>10 \<times> 10\<close> grid of spacing \<open>2\<close>.
\<close>

definition Model_20 :: Model where
  "Model_20 =
     \<lparr> GetAx = 0, GetAy = 0, GetB = 0, GetC = 0, GetLx = 20, GetLy = 20, GetT = 1,
       GetNx = 10, GetNy = 10, GetNt = 10, GetDx = 2, GetDy = 2, GetDt = 1 / 10,
       GetX0 = - 10, GetY0 = 10 \<rparr>"

text \<open>A state of the \<open>2 \<times> 2\<close> worker with non-zero fields and halo buffers.\<close>

definition state_2x2 :: burgers2p where
  "state_2x2 =
     \<lparr> U = [1, 2, 3, 4], V = [5, 6, 7, 8], E = 0,
       dVel_dx_2_coeffs = replicate 4 0, dVel_dy_2_coeffs = replicate 4 0,
       dVel_dx_coeffs = replicate 4 0, dVel_dy_coeffs = replicate 4 0,
       upVel = [9, 9], downVel = [9, 9], leftVel = [9, 9], rightVel = [9, 9] \<rparr>"

text \<open>The same state once \<^verbatim>\<open>SetMatrixCoefficients\<close> has run.\<close>

definition state_2x2_ready :: burgers2p where
  "state_2x2_ready = SetMatrixCoefficients model_2x2 state_2x2"

definition halo_2x2 :: halo where
  "halo_2x2 = \<lparr> from_up = [7, 7], from_down = [7, 7], from_left = [7, 7], from_right = [7, 7] \<rparr>"

text \<open>
  The same \<open>2 \<times> 2\<close> worker inside a mesh, with a neighbour on every side, and the
  four messages it receives from them.
\<close>

definition model_2x2_inner :: model where
  "model_2x2_inner = model_2x2\<lparr> Up := 3, Down := 5, Left := 1, Right := 7 \<rparr>"

definition halo_inner :: halo where
  "halo_inner =
     \<lparr> from_up = [10, 20], from_down = [30, 40], from_left = [50, 60], from_right = [70, 80] \<rparr>"


text \<open>
  Two workers side by side, each owning one column of the \<open>2 \<times> 2\<close> grid, with the
  fields of \<open>state_2x2\<close> split between them.
\<close>

definition model_1x2 :: model where
  "model_1x2 = model_2x2\<lparr> LocNxr := 1 \<rparr>"

definition mesh_2x1 :: "nat \<Rightarrow> nat \<Rightarrow> burgers2p" where
  "mesh_2x1 p q =
     SetMatrixCoefficients (worker_model model_1x2 2 1 p q)
       \<lparr> U = (if p = 0 then [1, 2] else [3, 4]), V = (if p = 0 then [5, 6] else [7, 8]), E = 0,
         dVel_dx_2_coeffs = [0], dVel_dy_2_coeffs = [0, 0, 0, 0],
         dVel_dx_coeffs = [0], dVel_dy_coeffs = [0, 0, 0, 0],
         upVel = [9], downVel = [9], leftVel = [9, 9], rightVel = [9, 9] \<rparr>"

section \<open>The reading of the claims\<close>

text \<open>The radial profile of the initial field, truncated at \<open>r = 1\<close>.\<close>

definition radial_bump :: "real \<Rightarrow> real" where
  "radial_bump r = (if r \<le> 1 then 2 * (1 - r) ^ 4 * (4 * r + 1) else 0)"

text \<open>
  The four operator buffers hold what \<^verbatim>\<open>SetMatrixCoefficients\<close> writes into them.
\<close>

definition coefficients_set :: "model \<Rightarrow> burgers2p \<Rightarrow> bool" where
  "coefficients_set m st \<longleftrightarrow>
     dVel_dx_2_coeffs st = GenSymm ((- 2 * C m) / (Dx m) ^ 2) (C m / (Dx m) ^ 2) (LocNxr m) (LocNxr m)
   \<and> dVel_dy_2_coeffs st = GenSymm ((- 2 * C m) / (Dy m) ^ 2) (C m / (Dy m) ^ 2) (LocNyr m) (LocNyr m)
   \<and> dVel_dx_coeffs st = GenTrmm (Ax m / Dx m) (- Ax m / Dx m) (LocNxr m) (LocNxr m) True
   \<and> dVel_dy_coeffs st = GenTrmm (Ay m / Dy m) (- Ay m / Dy m) (LocNyr m) (LocNyr m) False"

text \<open>
  The four neighbours of the cell in column \<open>i\<close> and row \<open>j\<close> of a local field \<open>Vel\<close>:
  the sample of \<open>Vel\<close> one column or one row away, and across an edge of the block the
  entry of the halo buffer of that edge.
\<close>

definition west :: "model \<Rightarrow> burgers2p \<Rightarrow> real list \<Rightarrow> nat \<Rightarrow> nat \<Rightarrow> real" where
  "west m st Vel i j = (if i = 0 then leftVel st ! j else Vel ! ((i - 1) * LocNyr m + j))"

definition east :: "model \<Rightarrow> burgers2p \<Rightarrow> real list \<Rightarrow> nat \<Rightarrow> nat \<Rightarrow> real" where
  "east m st Vel i j = (if i + 1 = LocNxr m then rightVel st ! j else Vel ! ((i + 1) * LocNyr m + j))"

definition north :: "model \<Rightarrow> burgers2p \<Rightarrow> real list \<Rightarrow> nat \<Rightarrow> nat \<Rightarrow> real" where
  "north m st Vel i j = (if j = 0 then upVel st ! i else Vel ! (i * LocNyr m + (j - 1)))"

definition south :: "model \<Rightarrow> burgers2p \<Rightarrow> real list \<Rightarrow> nat \<Rightarrow> nat \<Rightarrow> real" where
  "south m st Vel i j = (if j + 1 = LocNyr m then downVel st ! i else Vel ! (i * LocNyr m + (j + 1)))"

text \<open>
  The eight term arrays of \<^verbatim>\<open>NextVelocityState\<close> as the BLAS calls and
  \<^verbatim>\<open>MatMul\<close> leave them, before the two boundary corrections; the two branches of the
  source differ in the coefficients and in the offset flags only.
\<close>

definition terms_before_correction ::
  "model \<Rightarrow> burgers2p \<Rightarrow> real list \<Rightarrow> real list \<Rightarrow> bool \<Rightarrow> terms" where
  "terms_before_correction m st Vel Other SELECT_U =
     \<lparr> dVel_dx_2 = dsymm_R_U (LocNyr m) (LocNxr m) 1 (dVel_dx_2_coeffs st) (LocNxr m) Vel (LocNyr m),
       dVel_dy_2 = dsymm_L_U (LocNyr m) (LocNxr m) 1 (dVel_dy_2_coeffs st) (LocNyr m) Vel (LocNyr m),
       dVel_dx = dtrmm_R_U_N_N (LocNyr m) (LocNxr m) 1 (dVel_dx_coeffs st) (LocNxr m)
                   (dcopy (LocNyr m * LocNxr m) Vel),
       dVel_dy = dtrmm_L_L_N_N (LocNyr m) (LocNxr m) 1 (dVel_dy_coeffs st) (LocNyr m)
                   (dcopy (LocNyr m * LocNxr m) Vel),
       Vel_Vel = MatMul Vel Vel (LocNyr m) (LocNxr m) False False
                   (if SELECT_U then B m / Dx m else B m / Dy m),
       Vel_Other = MatMul Vel Other (LocNyr m) (LocNxr m) False False
                   (if SELECT_U then B m / Dy m else B m / Dx m),
       Vel_Vel_Minus_1 = MatMul Vel Vel (LocNyr m) (LocNxr m) SELECT_U (\<not> SELECT_U)
                   (if SELECT_U then B m / Dx m else B m / Dy m),
       Vel_Other_Minus_1 = MatMul Vel Other (LocNyr m) (LocNxr m) (\<not> SELECT_U) SELECT_U
                   (if SELECT_U then B m / Dy m else B m / Dx m) \<rparr>"

text \<open>Every buffer of the instance has the length the constructor allocates.\<close>

definition allocated :: "model \<Rightarrow> burgers2p \<Rightarrow> bool" where
  "allocated m st \<longleftrightarrow>
     length (U st) = LocNyr m * LocNxr m \<and> length (V st) = LocNyr m * LocNxr m
   \<and> length (dVel_dx_2_coeffs st) = LocNxr m * LocNxr m
   \<and> length (dVel_dy_2_coeffs st) = LocNyr m * LocNyr m
   \<and> length (dVel_dx_coeffs st) = LocNxr m * LocNxr m
   \<and> length (dVel_dy_coeffs st) = LocNyr m * LocNyr m
   \<and> length (upVel st) = LocNxr m \<and> length (downVel st) = LocNxr m
   \<and> length (leftVel st) = LocNyr m \<and> length (rightVel st) = LocNyr m"

text \<open>
  Every neighbour that exists sends a whole boundary row or column: the message from it
  has the length of the halo buffer it is received into.
\<close>

definition halo_complete :: "model \<Rightarrow> halo \<Rightarrow> bool" where
  "halo_complete m inc \<longleftrightarrow>
     (Up m < 0 \<or> length (from_up inc) = LocNxr m)
   \<and> (Down m < 0 \<or> length (from_down inc) = LocNxr m)
   \<and> (Left m < 0 \<or> length (from_left inc) = LocNyr m)
   \<and> (Right m < 0 \<or> length (from_right inc) = LocNyr m)"

text \<open>
  The buffers \<^verbatim>\<open>Burgers::NextVelocityState\<close> of src/Burgers.cpp reads have the extents
  the constructor and \<^verbatim>\<open>SetMatrixCoefficients\<close> allocate, on a square grid.
\<close>

definition allocated_root :: "Model \<Rightarrow> burgers_root \<Rightarrow> real list \<Rightarrow> real list \<Rightarrow> bool" where
  "allocated_root model st Ui Vi \<longleftrightarrow>
     GetNx model = GetNy model
   \<and> length Ui = nat (GetNy model - 2) * nat (GetNx model - 2)
   \<and> length Vi = nat (GetNy model - 2) * nat (GetNx model - 2)
   \<and> length (dVel_dx_2_coeffs_root st) = nat (GetNx model - 2) * nat (GetNx model - 2)
   \<and> length (dVel_dy_2_coeffs_root st) = nat (GetNy model - 2) * nat (GetNy model - 2)
   \<and> length (dVel_dx_coeffs_root st) = nat (GetNx model - 2) * nat (GetNx model - 2)
   \<and> length (dVel_dy_coeffs_root st) = nat (GetNy model - 2) * nat (GetNy model - 2)"

text \<open>
  What the six linear statements of \<^verbatim>\<open>SetLinearTerms\<close> of serSrc/Burgers.cpp add up to
  at column \<open>i\<close> and row \<open>k\<close>, and the value the loop body leaves there.
\<close>

definition linear_terms_ser :: "Model_ser \<Rightarrow> real list \<Rightarrow> nat \<Rightarrow> nat \<Rightarrow> real" where
  "linear_terms_ser model Vel i k =
     (let Nxr = nat (GetNx model - 2); Nyr = nat (GetNy model - 2);
          v = Vel ! (i * Nyr + k)
      in (GetAlphaDx_1 model + GetAlphaDx_2 model + GetAlphaDy_1 model + GetAlphaDy_2 model) * v
         + (if i > 0 then (GetBetaDx_1 model + GetBetaDx_2 model) * Vel ! ((i - 1) * Nyr + k) else 0)
         + (if i < Nxr - 1 then GetBetaDx_2 model * Vel ! ((i + 1) * Nyr + k) else 0)
         + (if k > 0 then (GetBetaDy_1 model + GetBetaDy_2 model) * Vel ! (i * Nyr + k - 1) else 0)
         + (if k < Nyr - 1 then GetBetaDy_2 model * Vel ! (i * Nyr + k + 1) else 0))"

definition cell_value_ser ::
  "Model_ser \<Rightarrow> real list \<Rightarrow> real list \<Rightarrow> bool \<Rightarrow> nat \<Rightarrow> nat \<Rightarrow> real" where
  "cell_value_ser model Vel Other SELECT_U i k =
     (let Nyr = nat (GetNy model - 2); c = i * Nyr + k
      in Vel ! c + GetDt model *
           (linear_terms_ser model Vel i k
            - (if SELECT_U then
                 GetBDx model * Vel ! c * Vel ! c + GetBDy model * Vel ! c * Other ! c
                 - (if i = 0 then 0 else GetBDx model * Vel ! ((i - 1) * Nyr + k) * Vel ! c)
                 - (if k = 0 then 0 else GetBDy model * Vel ! (c - 1) * Other ! c)
               else
                 GetBDy model * Vel ! c * Vel ! c + GetBDx model * Vel ! c * Other ! c
                 - (if k = 0 then 0 else GetBDy model * Vel ! (c - 1) * Vel ! c)
                 - (if i = 0 then 0 else GetBDx model * Vel ! ((i - 1) * Nyr + k) * Other ! c))))"

text \<open>
  The explicit Euler update of one cell from its own value \<open>v\<close>, the companion
  component \<open>ot\<close> at the same cell and the values \<open>w\<close>, \<open>e\<close>, \<open>n\<close>, \<open>s\<close> of its
  four neighbours: central second differences, backward first differences and the
  upwind nonlinear terms, with the coefficient pair \<open>(b/dx, b/dy)\<close> for \<open>u\<close> and
  \<open>(b/dy, b/dx)\<close> for \<open>v\<close>.
\<close>

definition stencil :: "model \<Rightarrow> bool \<Rightarrow> real \<Rightarrow> real \<Rightarrow> real \<Rightarrow> real \<Rightarrow> real \<Rightarrow> real \<Rightarrow> real" where
  "stencil m SELECT_U v ot w e n s =
     v + Dt m *
       (C m / (Dx m)\<^sup>2 * (w - 2 * v + e) + C m / (Dy m)\<^sup>2 * (n - 2 * v + s)
        - Ax m / Dx m * (v - w) - Ay m / Dy m * (v - n)
        - (if SELECT_U
           then B m / Dx m * v * v + B m / Dy m * v * ot
                - B m / Dx m * w * v - B m / Dy m * n * ot
           else B m / Dy m * v * v + B m / Dx m * v * ot
                - B m / Dy m * n * v - B m / Dx m * w * ot))"

text \<open>
  The local fields \<open>F p q\<close> of the workers of a mesh tile the global field \<open>G\<close>: cell
  \<open>(i, j)\<close> of worker \<open>(p, q)\<close> is cell \<open>(p * Nxr + i, q * Nyr + j)\<close> of the global
  interior grid, which is stored column-major with \<open>Py * Nyr\<close> rows.
\<close>

definition tiles :: "model \<Rightarrow> nat \<Rightarrow> nat \<Rightarrow> (nat \<Rightarrow> nat \<Rightarrow> real list) \<Rightarrow> real list \<Rightarrow> bool" where
  "tiles g Px Py F G \<longleftrightarrow>
     (\<forall>p<Px. \<forall>q<Py. \<forall>i<LocNxr g. \<forall>j<LocNyr g.
        F p q ! (i * LocNyr g + j) =
        G ! ((p * LocNxr g + i) * (Py * LocNyr g) + (q * LocNyr g + j)))"

text \<open>Every worker of the mesh is constructed and has its operators set.\<close>

definition ready :: "model \<Rightarrow> nat \<Rightarrow> nat \<Rightarrow> (nat \<Rightarrow> nat \<Rightarrow> burgers2p) \<Rightarrow> bool" where
  "ready g Px Py ws \<longleftrightarrow>
     (\<forall>p<Px. \<forall>q<Py. allocated (worker_model g Px Py p q) (ws p q)
                    \<and> coefficients_set (worker_model g Px Py p q) (ws p q))"

text \<open>
  One explicit Euler step of one component on the whole interior grid, cell by cell,
  with zero beyond the physical edges; and one step of the pair.
\<close>

definition global_update :: "model \<Rightarrow> nat \<Rightarrow> nat \<Rightarrow> bool \<Rightarrow> real list \<Rightarrow> real list \<Rightarrow> real list" where
  "global_update g GX GY SELECT_U Vel Other =
     map (\<lambda>K. let x = K div GY; y = K mod GY in
            stencil g SELECT_U (Vel ! K) (Other ! K)
              (if x = 0 then 0 else Vel ! ((x - 1) * GY + y))
              (if x + 1 = GX then 0 else Vel ! ((x + 1) * GY + y))
              (if y = 0 then 0 else Vel ! (x * GY + (y - 1)))
              (if y + 1 = GY then 0 else Vel ! (x * GY + (y + 1))))
       [0..<GX * GY]"

definition global_step :: "model \<Rightarrow> nat \<Rightarrow> nat \<Rightarrow> real list \<times> real list \<Rightarrow> real list \<times> real list" where
  "global_step g GX GY = (\<lambda>(GU, GV).
     (global_update g GX GY True GU GV, global_update g GX GY False GV GU))"

section \<open>Facts about the helpers\<close>

lemma div_mod_index: "r < n \<Longrightarrow> (s * n + r) div n = s \<and> (s * n + r) mod n = (r::nat)"
  by simp

lemma index_bound: "s < m \<Longrightarrow> r < n \<Longrightarrow> s * n + r < m * (n::nat)"
proof -
  assume a: "s < m" "r < n"
  have "s * n + r < s * n + n" using a by simp
  also have "\<dots> = Suc s * n" by simp
  also have "\<dots> \<le> m * n" using a by (intro mult_le_mono1) simp
  finally show ?thesis .
qed

lemma length_GenSymm [simp]: "length (GenSymm alpha beta Nyr Nxr) = Nxr * Nyr"
  by (simp add: GenSymm_def)

lemma nth_GenSymm:
  assumes "r < Nyr" "s < Nxr"
  shows "GenSymm alpha beta Nyr Nxr ! (s * Nyr + r) =
           (if r = s then alpha else if r + 1 = s \<or> s + 1 = r then beta else 0)"
proof -
  have "s * Nyr + r < Nxr * Nyr" using assms by (simp add: index_bound)
  then show ?thesis
    using assms by (simp add: GenSymm_def div_mod_index Let_def del: upt_Suc)
qed

section \<open>The second-derivative operator\<close>

text \<open>
  Claim C8. For an extent \<open>n > 0\<close>, a spacing \<open>h > 0\<close> and a diffusion coefficient \<open>c\<close>,
  the second-derivative operators that \<^verbatim>\<open>SetMatrixCoefficients\<close> builds (\<open>n = Nxr\<close>,
  \<open>h = dx\<close> for the x-direction and \<open>n = Nyr\<close>, \<open>h = dy\<close> for the y-direction) are
  \<open>n \<times> n\<close> buffers whose entry \<open>(r, s)\<close> is \<open>-2c/h\<^sup>2\<close> on the diagonal, \<open>c/h\<^sup>2\<close> on
  the two first off-diagonals and zero elsewhere, and equals entry \<open>(s, r)\<close>.
\<close>

theorem SetMatrixCoefficients_second_derivative:
  assumes "0 < Dx m" "0 < Dy m"
    and "r < LocNxr m" "s < LocNxr m" "r' < LocNyr m" "s' < LocNyr m"
  shows "length (dVel_dx_2_coeffs (SetMatrixCoefficients m st)) = LocNxr m * LocNxr m
       \<and> dVel_dx_2_coeffs (SetMatrixCoefficients m st) ! (s * LocNxr m + r) =
           (if r = s then - 2 * C m / (Dx m)\<^sup>2
            else if r + 1 = s \<or> s + 1 = r then C m / (Dx m)\<^sup>2 else 0)
       \<and> dVel_dx_2_coeffs (SetMatrixCoefficients m st) ! (s * LocNxr m + r) =
           dVel_dx_2_coeffs (SetMatrixCoefficients m st) ! (r * LocNxr m + s)
       \<and> length (dVel_dy_2_coeffs (SetMatrixCoefficients m st)) = LocNyr m * LocNyr m
       \<and> dVel_dy_2_coeffs (SetMatrixCoefficients m st) ! (s' * LocNyr m + r') =
           (if r' = s' then - 2 * C m / (Dy m)\<^sup>2
            else if r' + 1 = s' \<or> s' + 1 = r' then C m / (Dy m)\<^sup>2 else 0)
       \<and> dVel_dy_2_coeffs (SetMatrixCoefficients m st) ! (s' * LocNyr m + r') =
           dVel_dy_2_coeffs (SetMatrixCoefficients m st) ! (r' * LocNyr m + s')"
  using assms by (auto simp add: SetMatrixCoefficients_def Let_def nth_GenSymm)

theorem SetMatrixCoefficients_second_derivative_witness:
  "length (dVel_dx_2_coeffs (SetMatrixCoefficients model_2x2 (Burgers2P_zero model_2x2))) = 4
   \<and> dVel_dx_2_coeffs (SetMatrixCoefficients model_2x2 (Burgers2P_zero model_2x2)) ! 2 = 4
   \<and> dVel_dx_2_coeffs (SetMatrixCoefficients model_2x2 (Burgers2P_zero model_2x2)) ! 2 =
       dVel_dx_2_coeffs (SetMatrixCoefficients model_2x2 (Burgers2P_zero model_2x2)) ! 1
   \<and> dVel_dy_2_coeffs (SetMatrixCoefficients model_2x2 (Burgers2P_zero model_2x2)) ! 3 = - 2"
  using SetMatrixCoefficients_second_derivative
    [of model_2x2 0 1 1 1 "Burgers2P_zero model_2x2"]
  by (simp add: model_2x2_def)

section \<open>Loops that fill a buffer\<close>

lemma fold_proj:
  assumes "\<And>x s. P (f x s) = g x (P s)"
  shows "P (fold f xs s) = fold g xs (P s)"
  by (induction xs arbitrary: s) (simp_all add: assms)

lemma length_fold_update:
  "length (fold (\<lambda>j xs. xs[a + j := g j]) [0..<n] xs) = length xs"
  by (induction n) simp_all

lemma nth_fold_update:
  "k < length xs \<Longrightarrow>
   fold (\<lambda>j xs. xs[a + j := g j]) [0..<n] xs ! k =
     (if a \<le> k \<and> k < a + n then g (k - a) else xs ! k)"
proof (induction n)
  case 0
  then show ?case by auto
next
  case (Suc n)
  show ?case
  proof (cases "k = a + n")
    case True
    with Suc.prems show ?thesis by (simp add: length_fold_update)
  next
    case False
    with Suc show ?thesis by (auto simp add: length_fold_update)
  qed
qed

lemma length_fold_fold_update:
  "length (fold (\<lambda>i. fold (\<lambda>j xs. xs[i * N + j := g i j]) [0..<N]) [0..<n] xs) = length xs"
  by (induction n) (simp_all add: length_fold_update)

lemma nth_fold_fold_update:
  "k < length xs \<Longrightarrow>
   fold (\<lambda>i. fold (\<lambda>j xs. xs[i * N + j := g i j]) [0..<N]) [0..<n] xs ! k =
     (if k < n * N then g (k div N) (k mod N) else xs ! k)"
proof (induction n)
  case 0
  then show ?case by simp
next
  case (Suc n)
  have *: "n * N \<le> k \<Longrightarrow> k < n * N + N \<Longrightarrow> k div N = n \<and> k mod N = k - n * N"
    by (metis add.commute div_mod_index le_add_diff_inverse less_diff_conv2)
  from Suc show ?case
    by (auto simp add: nth_fold_update length_fold_fold_update *)
qed

section \<open>The initial field\<close>

lemma SetInitialVelocity_U:
  "U (SetInitialVelocity m st) =
     fold (\<lambda>i. fold (\<lambda>j xs. xs[i * LocNyr m + j :=
        radial_bump (ComputeR (X0 m + real (DisplX m + 1) * Dx m + real i * Dx m)
                              (Y0 m - real (DisplY m + 1) * Dy m - real j * Dy m))])
        [0..<LocNyr m]) [0..<LocNxr m] (U st)"
  unfolding SetInitialVelocity_def Let_def
  by (intro fold_proj) (simp add: radial_bump_def)

lemma SetInitialVelocity_V:
  "V (SetInitialVelocity m st) =
     fold (\<lambda>i. fold (\<lambda>j xs. xs[i * LocNyr m + j :=
        radial_bump (ComputeR (X0 m + real (DisplX m + 1) * Dx m + real i * Dx m)
                              (Y0 m - real (DisplY m + 1) * Dy m - real j * Dy m))])
        [0..<LocNyr m]) [0..<LocNxr m] (V st)"
  unfolding SetInitialVelocity_def Let_def
  by (intro fold_proj) (simp add: radial_bump_def)

lemma SetInitialVelocity_ser_U:
  "local_U (SetInitialVelocity_ser model st) =
     fold (\<lambda>i. fold (\<lambda>j xs. xs[i * nat (GetNy model - 2) + j :=
        radial_bump (sqrt ((GetX0 model + real (i + 1) * GetDx model)
                             * (GetX0 model + real (i + 1) * GetDx model)
                           + (GetY0 model - real (j + 1) * GetDy model)
                             * (GetY0 model - real (j + 1) * GetDy model)))])
        [0..<nat (GetNy model - 2)]) [0..<nat (GetNx model - 2)] (local_U st)"
  unfolding SetInitialVelocity_ser_def Let_def
  by (intro fold_proj) (simp add: radial_bump_def)

lemma SetInitialVelocity_ser_V:
  "local_V (SetInitialVelocity_ser model st) =
     fold (\<lambda>i. fold (\<lambda>j xs. xs[i * nat (GetNy model - 2) + j :=
        radial_bump (sqrt ((GetX0 model + real (i + 1) * GetDx model)
                             * (GetX0 model + real (i + 1) * GetDx model)
                           + (GetY0 model - real (j + 1) * GetDy model)
                             * (GetY0 model - real (j + 1) * GetDy model)))])
        [0..<nat (GetNy model - 2)]) [0..<nat (GetNx model - 2)] (local_V st)"
  unfolding SetInitialVelocity_ser_def Let_def
  by (intro fold_proj) (simp add: radial_bump_def)

text \<open>
  Claim C9. After \<^verbatim>\<open>SetInitialVelocity\<close> the two component arrays agree at every local
  cell index \<open>k\<close>, and the common value is the radial bump \<open>2(1-r)\<^sup>4(4r+1)\<close> for
  \<open>r \<le> 1\<close> and zero elsewhere, \<open>r\<close> being the distance of the cell from the origin. This
  holds for the partitioned engine and for serSrc/Burgers.cpp, on buffers of the
  allocated length.
\<close>

theorem SetInitialVelocity_U_equals_V:
  assumes "length (U st) = LocNyr m * LocNxr m" "length (V st) = LocNyr m * LocNxr m"
    and "k < LocNyr m * LocNxr m"
    and "length (local_U st') = nat (GetNy model - 2) * nat (GetNx model - 2)"
    and "length (local_V st') = nat (GetNy model - 2) * nat (GetNx model - 2)"
    and "k' < nat (GetNy model - 2) * nat (GetNx model - 2)"
  shows "U (SetInitialVelocity m st) ! k = V (SetInitialVelocity m st) ! k
       \<and> U (SetInitialVelocity m st) ! k =
           radial_bump (ComputeR
             (X0 m + real (DisplX m + 1) * Dx m + real (k div LocNyr m) * Dx m)
             (Y0 m - real (DisplY m + 1) * Dy m - real (k mod LocNyr m) * Dy m))
       \<and> local_U (SetInitialVelocity_ser model st') ! k' =
           local_V (SetInitialVelocity_ser model st') ! k'
       \<and> local_U (SetInitialVelocity_ser model st') ! k' =
           radial_bump (ComputeR
             (GetX0 model + real (k' div nat (GetNy model - 2) + 1) * GetDx model)
             (GetY0 model - real (k' mod nat (GetNy model - 2) + 1) * GetDy model))"
  using assms
  by (simp add: SetInitialVelocity_U SetInitialVelocity_V SetInitialVelocity_ser_U
      SetInitialVelocity_ser_V nth_fold_fold_update mult.commute ComputeR_def)

theorem SetInitialVelocity_U_equals_V_witness:
  "U (SetInitialVelocity model_2x2 state_2x2) ! 0 = V (SetInitialVelocity model_2x2 state_2x2) ! 0
   \<and> U (SetInitialVelocity model_2x2 state_2x2) ! 0 = 2
   \<and> local_U (SetInitialVelocity_ser Model_4x4 (burgers_ser_zero Model_4x4)) ! 3 =
       local_V (SetInitialVelocity_ser Model_4x4 (burgers_ser_zero Model_4x4)) ! 3
   \<and> local_U (SetInitialVelocity_ser Model_4x4 (burgers_ser_zero Model_4x4)) ! 3 = 2"
  using SetInitialVelocity_U_equals_V
    [of state_2x2 model_2x2 0 "burgers_ser_zero Model_4x4" Model_4x4 3]
  by (simp add: model_2x2_def state_2x2_def Model_4x4_def burgers_ser_zero_def
      radial_bump_def ComputeR_def)

section \<open>The halo buffers\<close>

text \<open>
  Claim C5. After \<^verbatim>\<open>SetCaches\<close>, for every direction whose neighbour rank is the
  no-neighbour sentinel (a negative rank), the halo buffer of that direction is all
  zeros, whatever the worker's own field \<open>Vel\<close>, the previous contents of the buffers
  and the incoming messages are.
\<close>

theorem SetCaches_zero_fill:
  assumes "length (upVel st) = LocNxr m" "length (downVel st) = LocNxr m"
    and "length (leftVel st) = LocNyr m" "length (rightVel st) = LocNyr m"
  shows "(Up m < 0 \<longrightarrow> upVel (SetCaches m st Vel inc) = replicate (LocNxr m) 0)
       \<and> (Down m < 0 \<longrightarrow> downVel (SetCaches m st Vel inc) = replicate (LocNxr m) 0)
       \<and> (Left m < 0 \<longrightarrow> leftVel (SetCaches m st Vel inc) = replicate (LocNyr m) 0)
       \<and> (Right m < 0 \<longrightarrow> rightVel (SetCaches m st Vel inc) = replicate (LocNyr m) 0)"
  using assms
  by (simp add: SetCaches_def Let_def MPI_Sendrecv_recv_def SetZeroes_def)

theorem SetCaches_zero_fill_witness:
  "upVel (SetCaches model_2x2 state_2x2 [1, 2, 3, 4] halo_2x2) = [0, 0]
   \<and> downVel (SetCaches model_2x2 state_2x2 [1, 2, 3, 4] halo_2x2) = [0, 0]
   \<and> leftVel (SetCaches model_2x2 state_2x2 [1, 2, 3, 4] halo_2x2) = [0, 0]
   \<and> rightVel (SetCaches model_2x2 state_2x2 [1, 2, 3, 4] halo_2x2) = [0, 0]"
  using SetCaches_zero_fill [of state_2x2 model_2x2 "[1, 2, 3, 4]" halo_2x2]
  by (simp add: model_2x2_def state_2x2_def numeral_2_eq_2)

section \<open>Sums that a banded operator collapses\<close>

lemma sum_delta_lessThan:
  "(\<Sum>l<n. if l = i then g l else 0) = (if i < (n::nat) then g i else (0::real))"
  by (simp add: sum.delta)

lemma sum_tridiag:
  assumes "i < (n::nat)"
  shows "(\<Sum>l<n. f l * (if l = i then a else if l + 1 = i \<or> i + 1 = l then b else 0)) =
           a * f i + (if 0 < i then b * f (i - 1) else 0)
                   + (if i + 1 < n then b * f (i + 1) else (0::real))"
proof -
  have "(\<Sum>l<n. f l * (if l = i then a else if l + 1 = i \<or> i + 1 = l then b else 0)) =
        (\<Sum>l<n. (if l = i then a * f l else 0)
              + ((if l = i - 1 then (if 0 < i then b * f l else 0) else 0)
              + (if l = i + 1 then b * f l else 0)))"
    by (intro sum.cong) auto
  also have "\<dots> = (if i < n then a * f i else 0)
              + ((if i - 1 < n then (if 0 < i then b * f (i - 1) else 0) else 0)
              + (if i + 1 < n then b * f (i + 1) else 0))"
    by (simp only: sum.distrib sum_delta_lessThan)
  also have "\<dots> = a * f i + (if 0 < i then b * f (i - 1) else 0)
                   + (if i + 1 < n then b * f (i + 1) else 0)"
    using assms by auto
  finally show ?thesis .
qed

lemma sum_bidiag:
  "(\<Sum>l<Suc i. f l * (if l = i then a else if l + 1 = i then b else 0)) =
           a * f (i::nat) + (if 0 < i then b * f (i - 1) else (0::real))"
proof -
  have "(\<Sum>l<Suc i. f l * (if l = i then a else if l + 1 = i then b else 0)) =
        (\<Sum>l<Suc i. (if l = i then a * f l else 0)
              + (if l = i - 1 then (if 0 < i then b * f l else 0) else 0))"
    by (intro sum.cong) auto
  also have "\<dots> = (if i < Suc i then a * f i else 0)
              + (if i - 1 < Suc i then (if 0 < i then b * f (i - 1) else 0) else 0)"
    by (simp only: sum.distrib sum_delta_lessThan)
  also have "\<dots> = a * f i + (if 0 < i then b * f (i - 1) else 0)"
    by auto
  finally show ?thesis .
qed

section \<open>The BLAS products with the operators of SetMatrixCoefficients\<close>

lemma length_GenTrmm [simp]: "length (GenTrmm alpha beta Nyr Nxr UPPER) = Nxr * Nyr"
  by (simp add: GenTrmm_def)

lemma nth_GenTrmm:
  assumes "r < Nyr" "s < Nxr"
  shows "GenTrmm alpha beta Nyr Nxr UPPER ! (s * Nyr + r) =
           (if r = s then alpha
            else if UPPER then (if r + 1 = s then beta else 0)
            else (if s + 1 = r then beta else 0))"
proof -
  have "s * Nyr + r < Nxr * Nyr" using assms by (simp add: index_bound)
  then show ?thesis
    using assms by (simp add: GenTrmm_def div_mod_index Let_def del: upt_Suc)
qed

lemma symm_U_GenSymm:
  assumes "l < n" "i < n"
  shows "symm_U (GenSymm a b n n) n l i =
           (if l = i then a else if l + 1 = i \<or> i + 1 = l then b else 0)"
  using assms by (auto simp add: symm_U_def nth_GenSymm)

lemma nth_dsymm_R_U_GenSymm:
  assumes "i < Nxr" "j < Nyr"
  shows "dsymm_R_U Nyr Nxr 1 (GenSymm a b Nxr Nxr) Nxr Vel Nyr ! (i * Nyr + j) =
           a * Vel ! (i * Nyr + j)
           + (if 0 < i then b * Vel ! ((i - 1) * Nyr + j) else 0)
           + (if i + 1 < Nxr then b * Vel ! ((i + 1) * Nyr + j) else 0)"
proof -
  have k: "i * Nyr + j < Nxr * Nyr" using assms by (simp add: index_bound)
  have "dsymm_R_U Nyr Nxr 1 (GenSymm a b Nxr Nxr) Nxr Vel Nyr ! (i * Nyr + j) =
          (\<Sum>l<Nxr. Vel ! (l * Nyr + j) * symm_U (GenSymm a b Nxr Nxr) Nxr l i)"
    using k assms by (simp add: dsymm_R_U_def div_mod_index del: upt_Suc)
  also have "\<dots> = (\<Sum>l<Nxr. Vel ! (l * Nyr + j)
                      * (if l = i then a else if l + 1 = i \<or> i + 1 = l then b else 0))"
    using assms by (intro sum.cong refl) (simp add: symm_U_GenSymm)
  also have "\<dots> = a * Vel ! (i * Nyr + j)
           + (if 0 < i then b * Vel ! ((i - 1) * Nyr + j) else 0)
           + (if i + 1 < Nxr then b * Vel ! ((i + 1) * Nyr + j) else 0)"
    using assms by (simp only: sum_tridiag)
  finally show ?thesis .
qed

lemma nth_dsymm_L_U_GenSymm:
  assumes "i < Nxr" "j < Nyr"
  shows "dsymm_L_U Nyr Nxr 1 (GenSymm a b Nyr Nyr) Nyr Vel Nyr ! (i * Nyr + j) =
           a * Vel ! (i * Nyr + j)
           + (if 0 < j then b * Vel ! (i * Nyr + (j - 1)) else 0)
           + (if j + 1 < Nyr then b * Vel ! (i * Nyr + (j + 1)) else 0)"
proof -
  have k: "i * Nyr + j < Nxr * Nyr" using assms by (simp add: index_bound)
  have "dsymm_L_U Nyr Nxr 1 (GenSymm a b Nyr Nyr) Nyr Vel Nyr ! (i * Nyr + j) =
          (\<Sum>l<Nyr. symm_U (GenSymm a b Nyr Nyr) Nyr j l * Vel ! (i * Nyr + l))"
    using k assms by (simp add: dsymm_L_U_def div_mod_index del: upt_Suc)
  also have "\<dots> = (\<Sum>l<Nyr. Vel ! (i * Nyr + l)
                      * (if l = j then a else if l + 1 = j \<or> j + 1 = l then b else 0))"
    using assms by (intro sum.cong refl) (auto simp add: symm_U_GenSymm)
  also have "\<dots> = a * Vel ! (i * Nyr + j)
           + (if 0 < j then b * Vel ! (i * Nyr + (j - 1)) else 0)
           + (if j + 1 < Nyr then b * Vel ! (i * Nyr + (j + 1)) else 0)"
    using assms by (simp only: sum_tridiag)
  finally show ?thesis .
qed

lemma nth_dcopy: "k < n \<Longrightarrow> dcopy n x ! k = x ! k"
  by (simp add: dcopy_def del: upt_Suc)

lemma length_dcopy [simp]: "length (dcopy n x) = n"
  by (simp add: dcopy_def)

lemma nth_dtrmm_R_U_GenTrmm:
  assumes "i < Nxr" "j < Nyr"
  shows "dtrmm_R_U_N_N Nyr Nxr 1 (GenTrmm a b Nxr Nxr True) Nxr (dcopy (Nyr * Nxr) Vel)
           ! (i * Nyr + j) =
           a * Vel ! (i * Nyr + j)
           + (if 0 < i then b * Vel ! ((i - 1) * Nyr + j) else 0)"
proof -
  have k: "i * Nyr + j < Nxr * Nyr" using assms by (simp add: index_bound)
  have "dtrmm_R_U_N_N Nyr Nxr 1 (GenTrmm a b Nxr Nxr True) Nxr (dcopy (Nyr * Nxr) Vel)
           ! (i * Nyr + j) =
          (\<Sum>l<Suc i. dcopy (Nyr * Nxr) Vel ! (l * Nyr + j)
                       * GenTrmm a b Nxr Nxr True ! (i * Nxr + l))"
    using k assms by (simp add: dtrmm_R_U_N_N_def div_mod_index del: upt_Suc sum.lessThan_Suc)
  also have "\<dots> = (\<Sum>l<Suc i. Vel ! (l * Nyr + j)
                      * (if l = i then a else if l + 1 = i then b else 0))"
  proof (intro sum.cong refl)
    fix l assume "l \<in> {..<Suc i}"
    then have l: "l < Nxr" using assms by simp
    then have "l * Nyr + j < Nyr * Nxr"
      using assms index_bound [of l Nxr j Nyr] by (simp add: mult.commute)
    then show "dcopy (Nyr * Nxr) Vel ! (l * Nyr + j) * GenTrmm a b Nxr Nxr True ! (i * Nxr + l)
        = Vel ! (l * Nyr + j) * (if l = i then a else if l + 1 = i then b else 0)"
      using l assms by (simp add: nth_dcopy nth_GenTrmm)
  qed
  also have "\<dots> = a * Vel ! (i * Nyr + j)
           + (if 0 < i then b * Vel ! ((i - 1) * Nyr + j) else 0)"
    by (simp only: sum_bidiag)
  finally show ?thesis .
qed

lemma nth_dtrmm_L_L_GenTrmm:
  assumes "i < Nxr" "j < Nyr"
  shows "dtrmm_L_L_N_N Nyr Nxr 1 (GenTrmm a b Nyr Nyr False) Nyr (dcopy (Nyr * Nxr) Vel)
           ! (i * Nyr + j) =
           a * Vel ! (i * Nyr + j)
           + (if 0 < j then b * Vel ! (i * Nyr + (j - 1)) else 0)"
proof -
  have k: "i * Nyr + j < Nxr * Nyr" using assms by (simp add: index_bound)
  have "dtrmm_L_L_N_N Nyr Nxr 1 (GenTrmm a b Nyr Nyr False) Nyr (dcopy (Nyr * Nxr) Vel)
           ! (i * Nyr + j) =
          (\<Sum>l<Suc j. GenTrmm a b Nyr Nyr False ! (l * Nyr + j)
                       * dcopy (Nyr * Nxr) Vel ! (i * Nyr + l))"
    using k assms by (simp add: dtrmm_L_L_N_N_def div_mod_index del: upt_Suc sum.lessThan_Suc)
  also have "\<dots> = (\<Sum>l<Suc j. Vel ! (i * Nyr + l)
                      * (if l = j then a else if l + 1 = j then b else 0))"
  proof (intro sum.cong refl)
    fix l assume "l \<in> {..<Suc j}"
    then have l: "l < Nyr" using assms by simp
    then have "i * Nyr + l < Nyr * Nxr"
      using assms index_bound [of i Nxr l Nyr] by (simp add: mult.commute)
    then show "GenTrmm a b Nyr Nyr False ! (l * Nyr + j) * dcopy (Nyr * Nxr) Vel ! (i * Nyr + l)
        = Vel ! (i * Nyr + l) * (if l = j then a else if l + 1 = j then b else 0)"
      using l assms by (auto simp add: nth_dcopy nth_GenTrmm)
  qed
  also have "\<dots> = a * Vel ! (i * Nyr + j)
           + (if 0 < j then b * Vel ! (i * Nyr + (j - 1)) else 0)"
    by (simp only: sum_bidiag)
  finally show ?thesis .
qed

section \<open>Loops that update a buffer in place\<close>

lemma fold_proj_id:
  assumes "\<And>x s. P (f x s) = P s"
  shows "P (fold f xs s) = P s"
  by (induction xs arbitrary: s) (simp_all add: assms)

lemma index_eq:
  assumes "r < n" "r' < n"
  shows "(s * n + r = s' * n + r') = (s = s' \<and> r = (r'::nat))"
proof
  assume e: "s * n + r = s' * n + r'"
  have "(s * n + r) div n = s" "(s * n + r) mod n = r"
    using assms by (simp_all add: div_mod_index)
  moreover have "(s' * n + r') div n = s'" "(s' * n + r') mod n = r'"
    using assms by (simp_all add: div_mod_index)
  ultimately show "s = s' \<and> r = r'" using e by simp
qed simp

lemma length_fold_add2:
  "length (fold (\<lambda>j xs. (xs[f j := xs ! f j + d j])
                  [g j := (xs[f j := xs ! f j + d j]) ! g j + e j]) [0..<n] xs) = length xs"
  by (induction n) simp_all

lemma nth_fold_add2:
  fixes xs :: "real list"
  assumes "k < length xs"
  shows "fold (\<lambda>j xs. (xs[f j := xs ! f j + d j])
                  [g j := (xs[f j := xs ! f j + d j]) ! g j + e j]) [0..<n] xs ! k =
         xs ! k + (\<Sum>j<n. (if f j = k then d j else 0) + (if g j = k then e j else 0))"
  using assms
  by (induction n) (auto simp add: nth_list_update length_fold_add2)

lemma length_fold_sub1:
  "length (fold (\<lambda>j xs. xs[f j := xs ! f j - d j]) [0..<n] xs) = length xs"
  by (induction n) simp_all

lemma nth_fold_sub1:
  fixes xs :: "real list"
  assumes "k < length xs"
  shows "fold (\<lambda>j xs. xs[f j := xs ! f j - d j]) [0..<n] xs ! k =
         xs ! k - (\<Sum>j<n. if f j = k then d j else 0)"
  using assms
  by (induction n) (auto simp add: nth_list_update length_fold_sub1)

lemma length_fold_assign:
  "length (fold (\<lambda>j xs. xs[f j := v j]) [0..<n] xs) = length xs"
  by (induction n) simp_all

lemma nth_fold_assign_other:
  assumes "\<forall>j<n. f j \<noteq> k"
  shows "fold (\<lambda>j xs. xs[f j := v j]) [0..<n] xs ! k = xs ! k"
  using assms by (induction n) simp_all

lemma nth_fold_assign:
  assumes "j < n" "f j < length xs" "inj_on f {..<n}"
  shows "fold (\<lambda>j xs. xs[f j := v j]) [0..<n] xs ! f j = v j"
  using assms
proof (induction n)
  case 0
  then show ?case by simp
next
  case (Suc n)
  show ?case
  proof (cases "j = n")
    case True
    with Suc.prems show ?thesis by (simp add: length_fold_assign)
  next
    case False
    with Suc.prems have j: "j < n" by simp
    have "f j \<noteq> f n"
      using Suc.prems(3) j by (auto simp add: inj_on_def)
    moreover have "inj_on f {..<n}"
      using Suc.prems(3) by (auto simp add: inj_on_def)
    ultimately show ?thesis
      using Suc.IH [OF j Suc.prems(2)] by simp
  qed
qed

section \<open>The elementwise products\<close>

lemma nth_MatMul:
  assumes "i < Nx" "j < Ny"
  shows "MatMul Ui Vi Ny Nx offset_i offset_j p ! (i * Ny + j) =
           (if (offset_i \<and> i = 0) \<or> (offset_j \<and> j = 0) then 0
            else p * Ui ! ((i - (if offset_i then 1 else 0)) * Ny
                           + (j - (if offset_j then 1 else 0))) * Vi ! (i * Ny + j))"
proof -
  have "i * Ny + j < Nx * Ny" using assms by (simp add: index_bound)
  then show ?thesis
    using assms by (simp add: MatMul_def div_mod_index Let_def del: upt_Suc)
qed

lemma length_MatMul [simp]: "length (MatMul Ui Vi Ny Nx offset_i offset_j p) = Nx * Ny"
  by (simp add: MatMul_def)

lemma length_dsymm_R_U [simp]: "length (dsymm_R_U M N alpha A lda B' ldb) = N * M"
  by (simp add: dsymm_R_U_def)

lemma length_dsymm_L_U [simp]: "length (dsymm_L_U M N alpha A lda B' ldb) = N * M"
  by (simp add: dsymm_L_U_def)

lemma length_dtrmm_R_U_N_N [simp]: "length (dtrmm_R_U_N_N M N alpha A lda B') = N * M"
  by (simp add: dtrmm_R_U_N_N_def)

lemma length_dtrmm_L_L_N_N [simp]: "length (dtrmm_L_L_N_N M N alpha A lda B') = N * M"
  by (simp add: dtrmm_L_L_N_N_def)

section \<open>The boundary corrections\<close>

lemma UpdateBoundsLinear_dVel_dx_2:
  "dVel_dx_2 (UpdateBoundsLinear m st t) =
     fold (\<lambda>j xs. (xs[j := xs ! j + C m / (Dx m)\<^sup>2 * leftVel st ! j])
              [(LocNxr m - 1) * LocNyr m + j :=
                 (xs[j := xs ! j + C m / (Dx m)\<^sup>2 * leftVel st ! j])
                   ! ((LocNxr m - 1) * LocNyr m + j) + C m / (Dx m)\<^sup>2 * rightVel st ! j])
       [0..<LocNyr m] (dVel_dx_2 t)"
  unfolding UpdateBoundsLinear_def Let_def
  by (subst fold_proj_id, simp, rule fold_proj, simp)

lemma UpdateBoundsLinear_dVel_dx:
  "dVel_dx (UpdateBoundsLinear m st t) =
     fold (\<lambda>j xs. xs[j := xs ! j - Ax m / Dx m * leftVel st ! j]) [0..<LocNyr m] (dVel_dx t)"
  unfolding UpdateBoundsLinear_def Let_def
  by (subst fold_proj_id, simp, rule fold_proj, simp)

lemma UpdateBoundsLinear_dVel_dy_2:
  "dVel_dy_2 (UpdateBoundsLinear m st t) =
     fold (\<lambda>i xs. (xs[i * LocNyr m := xs ! (i * LocNyr m) + C m / (Dy m)\<^sup>2 * upVel st ! i])
              [i * LocNyr m + (LocNyr m - 1) :=
                 (xs[i * LocNyr m := xs ! (i * LocNyr m) + C m / (Dy m)\<^sup>2 * upVel st ! i])
                   ! (i * LocNyr m + (LocNyr m - 1)) + C m / (Dy m)\<^sup>2 * downVel st ! i])
       [0..<LocNxr m] (dVel_dy_2 t)"
  unfolding UpdateBoundsLinear_def Let_def
  by (subst fold_proj [where g = "\<lambda>i xs. (xs[i * LocNyr m := xs ! (i * LocNyr m) + C m / (Dy m)\<^sup>2 * upVel st ! i])
              [i * LocNyr m + (LocNyr m - 1) :=
                 (xs[i * LocNyr m := xs ! (i * LocNyr m) + C m / (Dy m)\<^sup>2 * upVel st ! i])
                   ! (i * LocNyr m + (LocNyr m - 1)) + C m / (Dy m)\<^sup>2 * downVel st ! i]"],
      simp, subst fold_proj_id, simp, rule refl)

lemma UpdateBoundsLinear_dVel_dy:
  "dVel_dy (UpdateBoundsLinear m st t) =
     fold (\<lambda>i xs. xs[i * LocNyr m := xs ! (i * LocNyr m) - Ay m / Dy m * upVel st ! i])
       [0..<LocNxr m] (dVel_dy t)"
  unfolding UpdateBoundsLinear_def Let_def
  by (subst fold_proj [where g = "\<lambda>i xs. xs[i * LocNyr m := xs ! (i * LocNyr m) - Ay m / Dy m * upVel st ! i]"],
      simp, subst fold_proj_id, simp, rule refl)

lemma UpdateBoundsLinear_others:
  "Vel_Vel (UpdateBoundsLinear m st t) = Vel_Vel t"
  "Vel_Other (UpdateBoundsLinear m st t) = Vel_Other t"
  "Vel_Vel_Minus_1 (UpdateBoundsLinear m st t) = Vel_Vel_Minus_1 t"
  "Vel_Other_Minus_1 (UpdateBoundsLinear m st t) = Vel_Other_Minus_1 t"
  unfolding UpdateBoundsLinear_def Let_def
  by (subst fold_proj_id, simp, subst fold_proj_id, simp, rule refl)+

lemma sum_row_index:
  fixes N :: nat
  assumes "j < N"
  shows "(\<Sum>j'<N. if s * N + j' = i * N + j then g j' else 0) = (if s = i then g j else (0::real))"
proof -
  have "(\<Sum>j'<N. if s * N + j' = i * N + j then g j' else 0)
      = (\<Sum>j'<N. if j' = j then (if s = i then g j' else 0) else 0)"
    using assms by (intro sum.cong refl) (auto simp add: index_eq)
  then show ?thesis using assms by (simp only: sum_delta_lessThan if_True)
qed

lemma sum_row_index0:
  fixes N :: nat
  assumes "j < N"
  shows "(\<Sum>j'<N. if j' = i * N + j then g j' else 0) = (if i = 0 then g j else (0::real))"
proof -
  have "(\<Sum>j'<N. if j' = i * N + j then g j' else 0)
      = (\<Sum>j'<N. if 0 * N + j' = i * N + j then g j' else 0)"
    by simp
  also have "\<dots> = (if 0 = i then g j else 0)"
    by (rule sum_row_index [OF assms])
  finally show ?thesis by (simp add: eq_commute [of 0 i])
qed

lemma sum_col_index:
  fixes N :: nat
  assumes "r < N" "j < N" "i < M"
  shows "(\<Sum>i'<M. if i' * N + r = i * N + j then g i' else 0) = (if r = j then g i else (0::real))"
proof -
  have "(\<Sum>i'<M. if i' * N + r = i * N + j then g i' else 0)
      = (\<Sum>i'<M. if i' = i then (if r = j then g i' else 0) else 0)"
    using assms by (intro sum.cong refl) (auto simp add: index_eq)
  then show ?thesis using assms by (simp only: sum_delta_lessThan if_True)
qed

lemma sum_col_index0:
  fixes N :: nat
  assumes "j < N" "i < M"
  shows "(\<Sum>i'<M. if i' * N = i * N + j then g i' else 0) = (if j = 0 then g i else (0::real))"
proof -
  have pos: "0 < N" using assms by simp
  have "(\<Sum>i'<M. if i' * N = i * N + j then g i' else 0)
      = (\<Sum>i'<M. if i' * N + 0 = i * N + j then g i' else 0)"
    by simp
  also have "\<dots> = (if 0 = j then g i else 0)"
    by (rule sum_col_index [OF pos assms])
  finally show ?thesis by (simp add: eq_commute [of 0 j])
qed

lemma nth_UpdateBoundsLinear_dVel_dx_2:
  assumes "i < LocNxr m" "j < LocNyr m" "length (dVel_dx_2 t) = LocNxr m * LocNyr m"
  shows "dVel_dx_2 (UpdateBoundsLinear m st t) ! (i * LocNyr m + j) =
           dVel_dx_2 t ! (i * LocNyr m + j)
           + (if i = 0 then C m / (Dx m)\<^sup>2 * leftVel st ! j else 0)
           + (if i + 1 = LocNxr m then C m / (Dx m)\<^sup>2 * rightVel st ! j else 0)"
proof -
  have k: "i * LocNyr m + j < length (dVel_dx_2 t)"
    using assms by (simp add: index_bound)
  have e: "(LocNxr m - 1 = i) = (i + 1 = LocNxr m)" using assms(1) by auto
  show ?thesis
    unfolding UpdateBoundsLinear_dVel_dx_2
    by (subst nth_fold_add2 [OF k])
       (simp only: sum.distrib sum_row_index0 [OF assms(2)] sum_row_index [OF assms(2)] e
          add.assoc)
qed

lemma nth_UpdateBoundsLinear_dVel_dx:
  assumes "i < LocNxr m" "j < LocNyr m" "length (dVel_dx t) = LocNxr m * LocNyr m"
  shows "dVel_dx (UpdateBoundsLinear m st t) ! (i * LocNyr m + j) =
           dVel_dx t ! (i * LocNyr m + j)
           - (if i = 0 then Ax m / Dx m * leftVel st ! j else 0)"
proof -
  have k: "i * LocNyr m + j < length (dVel_dx t)"
    using assms by (simp add: index_bound)
  show ?thesis
    unfolding UpdateBoundsLinear_dVel_dx
    by (subst nth_fold_sub1 [OF k]) (simp only: sum_row_index0 [OF assms(2)])
qed

lemma nth_UpdateBoundsLinear_dVel_dy_2:
  assumes "i < LocNxr m" "j < LocNyr m" "length (dVel_dy_2 t) = LocNxr m * LocNyr m"
  shows "dVel_dy_2 (UpdateBoundsLinear m st t) ! (i * LocNyr m + j) =
           dVel_dy_2 t ! (i * LocNyr m + j)
           + (if j = 0 then C m / (Dy m)\<^sup>2 * upVel st ! i else 0)
           + (if j + 1 = LocNyr m then C m / (Dy m)\<^sup>2 * downVel st ! i else 0)"
proof -
  have k: "i * LocNyr m + j < length (dVel_dy_2 t)"
    using assms by (simp add: index_bound)
  have r: "LocNyr m - 1 < LocNyr m" using assms(2) by simp
  have e: "(LocNyr m - 1 = j) = (j + 1 = LocNyr m)" using assms(2) by auto
  show ?thesis
    unfolding UpdateBoundsLinear_dVel_dy_2
    by (subst nth_fold_add2 [OF k])
       (simp only: sum.distrib sum_col_index0 [OF assms(2,1)] sum_col_index [OF r assms(2,1)] e
          add.assoc)
qed

lemma nth_UpdateBoundsLinear_dVel_dy:
  assumes "i < LocNxr m" "j < LocNyr m" "length (dVel_dy t) = LocNxr m * LocNyr m"
  shows "dVel_dy (UpdateBoundsLinear m st t) ! (i * LocNyr m + j) =
           dVel_dy t ! (i * LocNyr m + j)
           - (if j = 0 then Ay m / Dy m * upVel st ! i else 0)"
proof -
  have k: "i * LocNyr m + j < length (dVel_dy t)"
    using assms by (simp add: index_bound)
  show ?thesis
    unfolding UpdateBoundsLinear_dVel_dy
    by (subst nth_fold_sub1 [OF k]) (simp only: sum_col_index0 [OF assms(2,1)])
qed

lemma nth_fold_assign_col:
  fixes N :: nat
  assumes "i < M" "j < N" "length xs = M * N"
  shows "fold (\<lambda>i' xs. xs[i' * N := v i']) [0..<M] xs ! (i * N + j) =
           (if j = 0 then v i else xs ! (i * N + j))"
proof (cases "j = 0")
  case True
  have pos: "0 < N" using assms by simp
  have "inj_on (\<lambda>i'. i' * N) {..<M}" using pos by (simp add: inj_on_def)
  moreover have "i * N < length xs" using assms index_bound [of i M 0 N] pos by simp
  ultimately have "fold (\<lambda>i' xs. xs[i' * N := v i']) [0..<M] xs ! (i * N) = v i"
    using assms(1) nth_fold_assign [of i M "\<lambda>i'. i' * N" xs v] by simp
  with True show ?thesis by simp
next
  case False
  have pos: "0 < N" using assms by simp
  have "\<forall>i'<M. i' * N \<noteq> i * N + j"
    using index_eq [of 0 N j _ i] assms(2) pos False by auto
  then show ?thesis using False by (simp add: nth_fold_assign_other)
qed

lemma nth_fold_assign_row:
  fixes N :: nat
  assumes "i < M" "j < N" "length xs = M * N"
  shows "fold (\<lambda>j' xs. xs[j' := v j']) [0..<N] xs ! (i * N + j) =
           (if i = 0 then v j else xs ! (i * N + j))"
proof -
  have k: "i * N + j < length xs" using assms by (simp add: index_bound)
  have "fold (\<lambda>j' xs. xs[0 + j' := v j']) [0..<N] xs ! (i * N + j) =
          (if 0 \<le> i * N + j \<and> i * N + j < 0 + N then v (i * N + j - 0) else xs ! (i * N + j))"
    by (rule nth_fold_update [OF k])
  moreover have "(i * N + j < N) = (i = 0)" using assms(2) by (cases i) auto
  ultimately show ?thesis by auto
qed

lemma UpdateBoundsNonLinear_U:
  "Vel_Other_Minus_1 (UpdateBoundsNonLinear m st Vel Other True t) =
     fold (\<lambda>i xs. xs[i * LocNyr m := B m / Dy m * upVel st ! i * Other ! (i * LocNyr m)])
       [0..<LocNxr m] (Vel_Other_Minus_1 t)"
  "Vel_Vel_Minus_1 (UpdateBoundsNonLinear m st Vel Other True t) =
     fold (\<lambda>j xs. xs[j := B m / Dx m * leftVel st ! j * Vel ! j])
       [0..<LocNyr m] (Vel_Vel_Minus_1 t)"
  unfolding UpdateBoundsNonLinear_def Let_def if_True
   apply (subst fold_proj_id, simp, rule fold_proj, simp)
  apply (subst fold_proj [where g = "\<lambda>j xs. xs[j := B m / Dx m * leftVel st ! j * Vel ! j]"], simp)
  apply (subst fold_proj_id, simp, rule refl)
  done

lemma UpdateBoundsNonLinear_V:
  "Vel_Vel_Minus_1 (UpdateBoundsNonLinear m st Vel Other False t) =
     fold (\<lambda>i xs. xs[i * LocNyr m := B m / Dy m * upVel st ! i * Vel ! (i * LocNyr m)])
       [0..<LocNxr m] (Vel_Vel_Minus_1 t)"
  "Vel_Other_Minus_1 (UpdateBoundsNonLinear m st Vel Other False t) =
     fold (\<lambda>j xs. xs[j := B m / Dx m * leftVel st ! j * Other ! j])
       [0..<LocNyr m] (Vel_Other_Minus_1 t)"
  unfolding UpdateBoundsNonLinear_def Let_def if_False
   apply (subst fold_proj_id, simp, rule fold_proj, simp)
  apply (subst fold_proj [where g = "\<lambda>j xs. xs[j := B m / Dx m * leftVel st ! j * Other ! j]"], simp)
  apply (subst fold_proj_id, simp, rule refl)
  done

lemma UpdateBoundsNonLinear_others:
  "dVel_dx_2 (UpdateBoundsNonLinear m st Vel Other SELECT_U t) = dVel_dx_2 t"
  "dVel_dy_2 (UpdateBoundsNonLinear m st Vel Other SELECT_U t) = dVel_dy_2 t"
  "dVel_dx (UpdateBoundsNonLinear m st Vel Other SELECT_U t) = dVel_dx t"
  "dVel_dy (UpdateBoundsNonLinear m st Vel Other SELECT_U t) = dVel_dy t"
  "Vel_Vel (UpdateBoundsNonLinear m st Vel Other SELECT_U t) = Vel_Vel t"
  "Vel_Other (UpdateBoundsNonLinear m st Vel Other SELECT_U t) = Vel_Other t"
  unfolding UpdateBoundsNonLinear_def Let_def
  by (cases SELECT_U; simp; subst fold_proj_id, simp, subst fold_proj_id, simp, rule refl)+

section \<open>The term arrays of one update\<close>

lemma SetCaches_coeffs [simp]:
  "dVel_dx_2_coeffs (SetCaches m st Vel inc) = dVel_dx_2_coeffs st"
  "dVel_dy_2_coeffs (SetCaches m st Vel inc) = dVel_dy_2_coeffs st"
  "dVel_dx_coeffs (SetCaches m st Vel inc) = dVel_dx_coeffs st"
  "dVel_dy_coeffs (SetCaches m st Vel inc) = dVel_dy_coeffs st"
  by (simp_all add: SetCaches_def Let_def)

lemma SetCaches_fields [simp]:
  "U (SetCaches m st Vel inc) = U st"
  "V (SetCaches m st Vel inc) = V st"
  "E (SetCaches m st Vel inc) = E st"
  by (simp_all add: SetCaches_def Let_def)

lemma fst_NextVelocityState_terms:
  "fst (NextVelocityState_terms m st Ui Vi SELECT_U inc) =
     SetCaches m st (if SELECT_U then Ui else Vi) inc"
  by (simp add: NextVelocityState_terms_def Let_def)

lemma snd_NextVelocityState_terms:
  "snd (NextVelocityState_terms m st Ui Vi SELECT_U inc) =
     UpdateBoundsNonLinear m (SetCaches m st (if SELECT_U then Ui else Vi) inc)
       (if SELECT_U then Ui else Vi) (if SELECT_U then Vi else Ui) SELECT_U
       (UpdateBoundsLinear m (SetCaches m st (if SELECT_U then Ui else Vi) inc)
          (terms_before_correction m (SetCaches m st (if SELECT_U then Ui else Vi) inc)
             (if SELECT_U then Ui else Vi) (if SELECT_U then Vi else Ui) SELECT_U))"
  by (cases SELECT_U) (simp_all add: NextVelocityState_terms_def terms_before_correction_def Let_def)

lemma terms_dVel_dx_2:
  assumes "i < LocNxr m" "j < LocNyr m" "coefficients_set m st"
  shows "dVel_dx_2 (snd (NextVelocityState_terms m st Ui Vi SELECT_U inc)) ! (i * LocNyr m + j) =
           C m / (Dx m)\<^sup>2 *
             (west m (SetCaches m st (if SELECT_U then Ui else Vi) inc) (if SELECT_U then Ui else Vi) i j
              - 2 * (if SELECT_U then Ui else Vi) ! (i * LocNyr m + j)
              + east m (SetCaches m st (if SELECT_U then Ui else Vi) inc) (if SELECT_U then Ui else Vi) i j)"
proof -
  let ?Vel = "if SELECT_U then Ui else Vi" and ?Other = "if SELECT_U then Vi else Ui"
  let ?st = "SetCaches m st ?Vel inc"
  let ?t0 = "terms_before_correction m ?st ?Vel ?Other SELECT_U"
  let ?k = "i * LocNyr m + j"
  have len: "length (dVel_dx_2 ?t0) = LocNxr m * LocNyr m"
    by (simp add: terms_before_correction_def)
  have "dVel_dx_2 (snd (NextVelocityState_terms m st Ui Vi SELECT_U inc)) ! ?k =
          dVel_dx_2 (UpdateBoundsLinear m ?st ?t0) ! ?k"
    by (simp only: snd_NextVelocityState_terms UpdateBoundsNonLinear_others)
  also have "\<dots> = dVel_dx_2 ?t0 ! ?k
           + (if i = 0 then C m / (Dx m)\<^sup>2 * leftVel ?st ! j else 0)
           + (if i + 1 = LocNxr m then C m / (Dx m)\<^sup>2 * rightVel ?st ! j else 0)"
    by (rule nth_UpdateBoundsLinear_dVel_dx_2 [OF assms(1,2) len])
  also have "dVel_dx_2 ?t0 ! ?k =
           (- 2 * C m) / (Dx m)\<^sup>2 * ?Vel ! ?k
           + (if 0 < i then C m / (Dx m)\<^sup>2 * ?Vel ! ((i - 1) * LocNyr m + j) else 0)
           + (if i + 1 < LocNxr m then C m / (Dx m)\<^sup>2 * ?Vel ! ((i + 1) * LocNyr m + j) else 0)"
    using assms(3) nth_dsymm_R_U_GenSymm [OF assms(1,2)]
    by (simp add: terms_before_correction_def coefficients_set_def)
  finally show ?thesis
    using assms(1) by (auto simp add: west_def east_def algebra_simps)
qed

lemma terms_dVel_dy_2:
  assumes "i < LocNxr m" "j < LocNyr m" "coefficients_set m st"
  shows "dVel_dy_2 (snd (NextVelocityState_terms m st Ui Vi SELECT_U inc)) ! (i * LocNyr m + j) =
           C m / (Dy m)\<^sup>2 *
             (north m (SetCaches m st (if SELECT_U then Ui else Vi) inc) (if SELECT_U then Ui else Vi) i j
              - 2 * (if SELECT_U then Ui else Vi) ! (i * LocNyr m + j)
              + south m (SetCaches m st (if SELECT_U then Ui else Vi) inc) (if SELECT_U then Ui else Vi) i j)"
proof -
  let ?Vel = "if SELECT_U then Ui else Vi" and ?Other = "if SELECT_U then Vi else Ui"
  let ?st = "SetCaches m st ?Vel inc"
  let ?t0 = "terms_before_correction m ?st ?Vel ?Other SELECT_U"
  let ?k = "i * LocNyr m + j"
  have len: "length (dVel_dy_2 ?t0) = LocNxr m * LocNyr m"
    by (simp add: terms_before_correction_def)
  have "dVel_dy_2 (snd (NextVelocityState_terms m st Ui Vi SELECT_U inc)) ! ?k =
          dVel_dy_2 (UpdateBoundsLinear m ?st ?t0) ! ?k"
    by (simp only: snd_NextVelocityState_terms UpdateBoundsNonLinear_others)
  also have "\<dots> = dVel_dy_2 ?t0 ! ?k
           + (if j = 0 then C m / (Dy m)\<^sup>2 * upVel ?st ! i else 0)
           + (if j + 1 = LocNyr m then C m / (Dy m)\<^sup>2 * downVel ?st ! i else 0)"
    by (rule nth_UpdateBoundsLinear_dVel_dy_2 [OF assms(1,2) len])
  also have "dVel_dy_2 ?t0 ! ?k =
           (- 2 * C m) / (Dy m)\<^sup>2 * ?Vel ! ?k
           + (if 0 < j then C m / (Dy m)\<^sup>2 * ?Vel ! (i * LocNyr m + (j - 1)) else 0)
           + (if j + 1 < LocNyr m then C m / (Dy m)\<^sup>2 * ?Vel ! (i * LocNyr m + (j + 1)) else 0)"
    using assms(3) nth_dsymm_L_U_GenSymm [OF assms(1,2)]
    by (simp add: terms_before_correction_def coefficients_set_def)
  finally show ?thesis
    using assms(2) by (auto simp add: north_def south_def algebra_simps)
qed

lemma terms_dVel_dx:
  assumes "i < LocNxr m" "j < LocNyr m" "coefficients_set m st"
  shows "dVel_dx (snd (NextVelocityState_terms m st Ui Vi SELECT_U inc)) ! (i * LocNyr m + j) =
           Ax m / Dx m *
             ((if SELECT_U then Ui else Vi) ! (i * LocNyr m + j)
              - west m (SetCaches m st (if SELECT_U then Ui else Vi) inc) (if SELECT_U then Ui else Vi) i j)"
proof -
  let ?Vel = "if SELECT_U then Ui else Vi" and ?Other = "if SELECT_U then Vi else Ui"
  let ?st = "SetCaches m st ?Vel inc"
  let ?t0 = "terms_before_correction m ?st ?Vel ?Other SELECT_U"
  let ?k = "i * LocNyr m + j"
  have len: "length (dVel_dx ?t0) = LocNxr m * LocNyr m"
    by (simp add: terms_before_correction_def)
  have "dVel_dx (snd (NextVelocityState_terms m st Ui Vi SELECT_U inc)) ! ?k =
          dVel_dx (UpdateBoundsLinear m ?st ?t0) ! ?k"
    by (simp only: snd_NextVelocityState_terms UpdateBoundsNonLinear_others)
  also have "\<dots> = dVel_dx ?t0 ! ?k
           - (if i = 0 then Ax m / Dx m * leftVel ?st ! j else 0)"
    by (rule nth_UpdateBoundsLinear_dVel_dx [OF assms(1,2) len])
  also have "dVel_dx ?t0 ! ?k =
           Ax m / Dx m * ?Vel ! ?k
           + (if 0 < i then (- Ax m / Dx m) * ?Vel ! ((i - 1) * LocNyr m + j) else 0)"
    using assms(3) nth_dtrmm_R_U_GenTrmm [OF assms(1,2)]
    by (simp add: terms_before_correction_def coefficients_set_def)
  finally show ?thesis
    by (auto simp add: west_def algebra_simps)
qed

lemma terms_dVel_dy:
  assumes "i < LocNxr m" "j < LocNyr m" "coefficients_set m st"
  shows "dVel_dy (snd (NextVelocityState_terms m st Ui Vi SELECT_U inc)) ! (i * LocNyr m + j) =
           Ay m / Dy m *
             ((if SELECT_U then Ui else Vi) ! (i * LocNyr m + j)
              - north m (SetCaches m st (if SELECT_U then Ui else Vi) inc) (if SELECT_U then Ui else Vi) i j)"
proof -
  let ?Vel = "if SELECT_U then Ui else Vi" and ?Other = "if SELECT_U then Vi else Ui"
  let ?st = "SetCaches m st ?Vel inc"
  let ?t0 = "terms_before_correction m ?st ?Vel ?Other SELECT_U"
  let ?k = "i * LocNyr m + j"
  have len: "length (dVel_dy ?t0) = LocNxr m * LocNyr m"
    by (simp add: terms_before_correction_def)
  have "dVel_dy (snd (NextVelocityState_terms m st Ui Vi SELECT_U inc)) ! ?k =
          dVel_dy (UpdateBoundsLinear m ?st ?t0) ! ?k"
    by (simp only: snd_NextVelocityState_terms UpdateBoundsNonLinear_others)
  also have "\<dots> = dVel_dy ?t0 ! ?k
           - (if j = 0 then Ay m / Dy m * upVel ?st ! i else 0)"
    by (rule nth_UpdateBoundsLinear_dVel_dy [OF assms(1,2) len])
  also have "dVel_dy ?t0 ! ?k =
           Ay m / Dy m * ?Vel ! ?k
           + (if 0 < j then (- Ay m / Dy m) * ?Vel ! (i * LocNyr m + (j - 1)) else 0)"
    using assms(3) nth_dtrmm_L_L_GenTrmm [OF assms(1,2)]
    by (simp add: terms_before_correction_def coefficients_set_def)
  finally show ?thesis
    by (auto simp add: north_def algebra_simps)
qed

lemma terms_Vel_Vel:
  assumes "i < LocNxr m" "j < LocNyr m"
  shows "Vel_Vel (snd (NextVelocityState_terms m st Ui Vi SELECT_U inc)) ! (i * LocNyr m + j) =
           (if SELECT_U then B m / Dx m else B m / Dy m)
           * (if SELECT_U then Ui else Vi) ! (i * LocNyr m + j)
           * (if SELECT_U then Ui else Vi) ! (i * LocNyr m + j)"
  using assms
  by (simp only: snd_NextVelocityState_terms UpdateBoundsNonLinear_others UpdateBoundsLinear_others)
     (simp add: terms_before_correction_def nth_MatMul)

lemma terms_Vel_Other:
  assumes "i < LocNxr m" "j < LocNyr m"
  shows "Vel_Other (snd (NextVelocityState_terms m st Ui Vi SELECT_U inc)) ! (i * LocNyr m + j) =
           (if SELECT_U then B m / Dy m else B m / Dx m)
           * (if SELECT_U then Ui else Vi) ! (i * LocNyr m + j)
           * (if SELECT_U then Vi else Ui) ! (i * LocNyr m + j)"
  using assms
  by (simp only: snd_NextVelocityState_terms UpdateBoundsNonLinear_others UpdateBoundsLinear_others)
     (simp add: terms_before_correction_def nth_MatMul)

lemma terms_Minus_1_U:
  assumes "i < LocNxr m" "j < LocNyr m"
  shows "Vel_Vel_Minus_1 (snd (NextVelocityState_terms m st Ui Vi True inc)) ! (i * LocNyr m + j) =
           B m / Dx m * west m (SetCaches m st Ui inc) Ui i j * Ui ! (i * LocNyr m + j)"
    and "Vel_Other_Minus_1 (snd (NextVelocityState_terms m st Ui Vi True inc)) ! (i * LocNyr m + j) =
           B m / Dy m * north m (SetCaches m st Ui inc) Ui i j * Vi ! (i * LocNyr m + j)"
proof -
  let ?st = "SetCaches m st Ui inc"
  let ?t0 = "terms_before_correction m ?st Ui Vi True"
  have len: "length (Vel_Vel_Minus_1 ?t0) = LocNxr m * LocNyr m"
            "length (Vel_Other_Minus_1 ?t0) = LocNxr m * LocNyr m"
    by (simp_all add: terms_before_correction_def)
  show "Vel_Vel_Minus_1 (snd (NextVelocityState_terms m st Ui Vi True inc)) ! (i * LocNyr m + j) =
           B m / Dx m * west m ?st Ui i j * Ui ! (i * LocNyr m + j)"
    using assms len
    by (simp add: snd_NextVelocityState_terms UpdateBoundsNonLinear_U UpdateBoundsLinear_others
        nth_fold_assign_row west_def)
       (simp add: terms_before_correction_def nth_MatMul)
  show "Vel_Other_Minus_1 (snd (NextVelocityState_terms m st Ui Vi True inc)) ! (i * LocNyr m + j) =
           B m / Dy m * north m ?st Ui i j * Vi ! (i * LocNyr m + j)"
    using assms len
    by (simp add: snd_NextVelocityState_terms UpdateBoundsNonLinear_U UpdateBoundsLinear_others
        nth_fold_assign_col north_def)
       (simp add: terms_before_correction_def nth_MatMul)
qed

lemma terms_Minus_1_V:
  assumes "i < LocNxr m" "j < LocNyr m"
  shows "Vel_Vel_Minus_1 (snd (NextVelocityState_terms m st Ui Vi False inc)) ! (i * LocNyr m + j) =
           B m / Dy m * north m (SetCaches m st Vi inc) Vi i j * Vi ! (i * LocNyr m + j)"
    and "Vel_Other_Minus_1 (snd (NextVelocityState_terms m st Ui Vi False inc)) ! (i * LocNyr m + j) =
           B m / Dx m * west m (SetCaches m st Vi inc) Vi i j * Ui ! (i * LocNyr m + j)"
proof -
  let ?st = "SetCaches m st Vi inc"
  let ?t0 = "terms_before_correction m ?st Vi Ui False"
  have len: "length (Vel_Vel_Minus_1 ?t0) = LocNxr m * LocNyr m"
            "length (Vel_Other_Minus_1 ?t0) = LocNxr m * LocNyr m"
    by (simp_all add: terms_before_correction_def)
  show "Vel_Vel_Minus_1 (snd (NextVelocityState_terms m st Ui Vi False inc)) ! (i * LocNyr m + j) =
           B m / Dy m * north m ?st Vi i j * Vi ! (i * LocNyr m + j)"
    using assms len
    by (simp add: snd_NextVelocityState_terms UpdateBoundsNonLinear_V UpdateBoundsLinear_others
        nth_fold_assign_col north_def)
       (simp add: terms_before_correction_def nth_MatMul)
  show "Vel_Other_Minus_1 (snd (NextVelocityState_terms m st Ui Vi False inc)) ! (i * LocNyr m + j) =
           B m / Dx m * west m ?st Vi i j * Ui ! (i * LocNyr m + j)"
    using assms len
    by (simp add: snd_NextVelocityState_terms UpdateBoundsNonLinear_V UpdateBoundsLinear_others
        nth_fold_assign_row west_def)
       (simp add: terms_before_correction_def nth_MatMul)
qed

section \<open>The combining loop\<close>

lemma combine_terms_body:
  "fold (\<lambda>i NextVel.
        let NextVel = NextVel[i := e i];
            NextVel = NextVel[i := NextVel ! i * dt];
            NextVel = NextVel[i := NextVel ! i + Vel ! i]
        in NextVel) is buf =
   fold (\<lambda>i xs. xs[0 + i := e i * dt + Vel ! i]) is buf"
proof (induction "is" arbitrary: buf)
  case Nil
  then show ?case by simp
next
  case (Cons i "is")
  have "((buf[i := e i])[i := buf[i := e i] ! i * dt])
          [i := (buf[i := e i])[i := buf[i := e i] ! i * dt] ! i + Vel ! i]
        = buf[i := e i * dt + Vel ! i]"
    by (cases "i < length buf") (simp_all add: list_update_beyond)
  with Cons show ?case by (simp add: Let_def)
qed

lemma nth_combine_terms:
  assumes "k < n" "length buf = n"
  shows "combine_terms n dt Vel t buf ! k =
           (dVel_dx_2 t ! k + dVel_dy_2 t ! k - dVel_dx t ! k - dVel_dy t ! k
            - (Vel_Vel t ! k + Vel_Other t ! k - Vel_Vel_Minus_1 t ! k - Vel_Other_Minus_1 t ! k)) * dt
           + Vel ! k"
  using assms
  unfolding combine_terms_def
  by (simp only: combine_terms_body nth_fold_update) simp

lemma length_combine_terms [simp]: "length (combine_terms n dt Vel t buf) = length buf"
  unfolding combine_terms_def
  by (simp only: combine_terms_body length_fold_update)

lemma fst_NextVelocityState:
  "fst (NextVelocityState m st Ui Vi SELECT_U inc) =
     combine_terms (LocNyr m * LocNxr m) (Dt m) (if SELECT_U then Ui else Vi)
       (snd (NextVelocityState_terms m st Ui Vi SELECT_U inc))
       (replicate (LocNyr m * LocNxr m) 0)"
  by (simp add: NextVelocityState_def Let_def case_prod_beta)

lemma snd_NextVelocityState:
  "snd (NextVelocityState m st Ui Vi SELECT_U inc) =
     SetCaches m st (if SELECT_U then Ui else Vi) inc"
  by (simp add: NextVelocityState_def Let_def case_prod_beta fst_NextVelocityState_terms)

lemma nth_fst_NextVelocityState:
  assumes "k < LocNyr m * LocNxr m"
  shows "fst (NextVelocityState m st Ui Vi SELECT_U inc) ! k =
           (if SELECT_U then Ui else Vi) ! k
           + Dt m *
             (dVel_dx_2 (snd (NextVelocityState_terms m st Ui Vi SELECT_U inc)) ! k
              + dVel_dy_2 (snd (NextVelocityState_terms m st Ui Vi SELECT_U inc)) ! k
              - dVel_dx (snd (NextVelocityState_terms m st Ui Vi SELECT_U inc)) ! k
              - dVel_dy (snd (NextVelocityState_terms m st Ui Vi SELECT_U inc)) ! k
              - (Vel_Vel (snd (NextVelocityState_terms m st Ui Vi SELECT_U inc)) ! k
                 + Vel_Other (snd (NextVelocityState_terms m st Ui Vi SELECT_U inc)) ! k
                 - Vel_Vel_Minus_1 (snd (NextVelocityState_terms m st Ui Vi SELECT_U inc)) ! k
                 - Vel_Other_Minus_1 (snd (NextVelocityState_terms m st Ui Vi SELECT_U inc)) ! k))"
proof -
  have "length (replicate (LocNyr m * LocNxr m) (0::real)) = LocNyr m * LocNxr m"
    by simp
  from nth_combine_terms [OF assms this] show ?thesis
    by (simp only: fst_NextVelocityState) (simp add: mult.commute)
qed

lemma nth_combine_terms_root:
  assumes "k < n" "length buf = n"
  shows "combine_terms_root n dt Vel t buf ! k =
           (dVel_dx_2 t ! k + dVel_dy_2 t ! k + dVel_dx t ! k + dVel_dy t ! k
            - (Vel_Vel t ! k + Vel_Other t ! k - Vel_Vel_Minus_1 t ! k - Vel_Other_Minus_1 t ! k)) * dt
           + Vel ! k"
  using assms
  unfolding combine_terms_root_def
  by (simp only: combine_terms_body nth_fold_update) simp

lemma nth_dtrmm_R_U_N_N_minus:
  "k < N * M \<Longrightarrow>
   dtrmm_R_U_N_N M N (- 1) A lda X ! k = - (dtrmm_R_U_N_N M N 1 A lda X ! k)"
  by (simp add: dtrmm_R_U_N_N_def del: upt_Suc sum.lessThan_Suc)

lemma nth_dtrmm_L_L_N_N_minus:
  "k < N * M \<Longrightarrow>
   dtrmm_L_L_N_N M N (- 1) A lda X ! k = - (dtrmm_L_L_N_N M N 1 A lda X ! k)"
  by (simp add: dtrmm_L_L_N_N_def del: upt_Suc sum.lessThan_Suc)

lemma NextVelocityState_terms_root_square:
  assumes "GetNx model = GetNy model"
  shows "\<exists>t. NextVelocityState_terms_root model st Ui Vi U_OR_V = Inr t"
  using assms by (simp add: NextVelocityState_terms_root_def Let_def)

lemma NextVelocityState_root_value:
  assumes t: "NextVelocityState_terms_root model st Ui Vi U_OR_V = Inr t"
    and k: "k < nat (GetNy model - 2) * nat (GetNx model - 2)"
  shows "\<exists>NextVel.
     NextVelocityState_root model st Ui Vi U_OR_V = Inr NextVel
   \<and> NextVel ! k =
       (if U_OR_V then Ui else Vi) ! k
       + GetDt model *
         (dVel_dx_2 t ! k + dVel_dy_2 t ! k + dVel_dx t ! k + dVel_dy t ! k
          - (Vel_Vel t ! k + Vel_Other t ! k - Vel_Vel_Minus_1 t ! k - Vel_Other_Minus_1 t ! k))"
proof -
  have l: "length (replicate (nat (GetNy model - 2) * nat (GetNx model - 2)) (0::real))
           = nat (GetNy model - 2) * nat (GetNx model - 2)" by simp
  show ?thesis
    using nth_combine_terms_root [OF k l, of "GetDt model" "if U_OR_V then Ui else Vi" t]
    by (simp add: NextVelocityState_root_def Let_def t mult.commute)
qed

lemma NextVelocityState_terms_root_arrays:
  assumes sq: "GetNx model = GetNy model"
    and i: "i < nat (GetNx model - 2)" and j: "j < nat (GetNy model - 2)"
    and t: "NextVelocityState_terms_root model (SetMatrixCoefficients_root model) Ui Vi U_OR_V = Inr t"
  shows "dVel_dx_2 t ! (i * nat (GetNy model - 2) + j) =
           (- 2 * GetC model) / (GetDx model)\<^sup>2 * (if U_OR_V then Ui else Vi) ! (i * nat (GetNy model - 2) + j)
           + (if 0 < i then GetC model / (GetDx model)\<^sup>2
                * (if U_OR_V then Ui else Vi) ! ((i - 1) * nat (GetNy model - 2) + j) else 0)
           + (if i + 1 < nat (GetNx model - 2) then GetC model / (GetDx model)\<^sup>2
                * (if U_OR_V then Ui else Vi) ! ((i + 1) * nat (GetNy model - 2) + j) else 0)"
    and "dVel_dy_2 t ! (i * nat (GetNy model - 2) + j) =
           (- 2 * GetC model) / (GetDy model)\<^sup>2 * (if U_OR_V then Ui else Vi) ! (i * nat (GetNy model - 2) + j)
           + (if 0 < j then GetC model / (GetDy model)\<^sup>2
                * (if U_OR_V then Ui else Vi) ! (i * nat (GetNy model - 2) + (j - 1)) else 0)
           + (if j + 1 < nat (GetNy model - 2) then GetC model / (GetDy model)\<^sup>2
                * (if U_OR_V then Ui else Vi) ! (i * nat (GetNy model - 2) + (j + 1)) else 0)"
    and "dVel_dx t ! (i * nat (GetNy model - 2) + j) =
           - (GetAx model / GetDx model * (if U_OR_V then Ui else Vi) ! (i * nat (GetNy model - 2) + j)
              + (if 0 < i then (- GetAx model / GetDx model)
                   * (if U_OR_V then Ui else Vi) ! ((i - 1) * nat (GetNy model - 2) + j) else 0))"
    and "dVel_dy t ! (i * nat (GetNy model - 2) + j) =
           - (GetAy model / GetDy model * (if U_OR_V then Ui else Vi) ! (i * nat (GetNy model - 2) + j)
              + (if 0 < j then (- GetAy model / GetDy model)
                   * (if U_OR_V then Ui else Vi) ! (i * nat (GetNy model - 2) + (j - 1)) else 0))"
    and "Vel_Vel t ! (i * nat (GetNy model - 2) + j) =
           (if U_OR_V then GetB model / GetDx model else GetB model / GetDy model)
           * (if U_OR_V then Ui else Vi) ! (i * nat (GetNy model - 2) + j)
           * (if U_OR_V then Ui else Vi) ! (i * nat (GetNy model - 2) + j)"
    and "Vel_Other t ! (i * nat (GetNy model - 2) + j) =
           (if U_OR_V then GetB model / GetDy model else GetB model / GetDx model)
           * (if U_OR_V then Ui else Vi) ! (i * nat (GetNy model - 2) + j)
           * (if U_OR_V then Vi else Ui) ! (i * nat (GetNy model - 2) + j)"
    and "Vel_Vel_Minus_1 t ! (i * nat (GetNy model - 2) + j) =
           (if U_OR_V
            then (if i = 0 then 0 else GetB model / GetDx model
                    * Ui ! ((i - 1) * nat (GetNy model - 2) + j) * Ui ! (i * nat (GetNy model - 2) + j))
            else (if j = 0 then 0 else GetB model / GetDy model
                    * Vi ! (i * nat (GetNy model - 2) + (j - 1)) * Vi ! (i * nat (GetNy model - 2) + j)))"
    and "Vel_Other_Minus_1 t ! (i * nat (GetNy model - 2) + j) =
           (if U_OR_V
            then (if j = 0 then 0 else GetB model / GetDy model
                    * Ui ! (i * nat (GetNy model - 2) + (j - 1)) * Vi ! (i * nat (GetNy model - 2) + j))
            else (if i = 0 then 0 else GetB model / GetDx model
                    * Vi ! ((i - 1) * nat (GetNy model - 2) + j) * Ui ! (i * nat (GetNy model - 2) + j)))"
proof -
  define N where "N = nat (GetNy model - 2)"
  have nx: "nat (GetNx model - 2) = N" using sq by (simp add: N_def)
  have ny: "nat (GetNy model - 2) = N" by (simp add: N_def)
  have i': "i < N" using i nx by simp
  have j': "j < N" using j ny by simp
  have k: "i * N + j < N * N" using index_bound [OF i' j'] .
  let ?Vel = "if U_OR_V then Ui else Vi" and ?Other = "if U_OR_V then Vi else Ui"
  have t': "t = (if U_OR_V then
        \<lparr> dVel_dx_2 = dsymm_R_U N N 1 (GenSymm ((- 2 * GetC model) / (GetDx model)\<^sup>2) (GetC model / (GetDx model)\<^sup>2) N N) N ?Vel N,
          dVel_dy_2 = dsymm_L_U N N 1 (GenSymm ((- 2 * GetC model) / (GetDy model)\<^sup>2) (GetC model / (GetDy model)\<^sup>2) N N) N ?Vel N,
          dVel_dx = dtrmm_R_U_N_N N N (- 1) (GenTrmm (GetAx model / GetDx model) (- GetAx model / GetDx model) N N True) N (dcopy (N * N) ?Vel),
          dVel_dy = dtrmm_L_L_N_N N N (- 1) (GenTrmm (GetAy model / GetDy model) (- GetAy model / GetDy model) N N False) N (dcopy (N * N) ?Vel),
          Vel_Vel = MatMul ?Vel ?Vel N N False False (GetB model / GetDx model),
          Vel_Other = MatMul ?Vel ?Other N N False False (GetB model / GetDy model),
          Vel_Vel_Minus_1 = MatMul ?Vel ?Vel N N True False (GetB model / GetDx model),
          Vel_Other_Minus_1 = MatMul ?Vel ?Other N N False True (GetB model / GetDy model) \<rparr>
      else
        \<lparr> dVel_dx_2 = dsymm_R_U N N 1 (GenSymm ((- 2 * GetC model) / (GetDx model)\<^sup>2) (GetC model / (GetDx model)\<^sup>2) N N) N ?Vel N,
          dVel_dy_2 = dsymm_L_U N N 1 (GenSymm ((- 2 * GetC model) / (GetDy model)\<^sup>2) (GetC model / (GetDy model)\<^sup>2) N N) N ?Vel N,
          dVel_dx = dtrmm_R_U_N_N N N (- 1) (GenTrmm (GetAx model / GetDx model) (- GetAx model / GetDx model) N N True) N (dcopy (N * N) ?Vel),
          dVel_dy = dtrmm_L_L_N_N N N (- 1) (GenTrmm (GetAy model / GetDy model) (- GetAy model / GetDy model) N N False) N (dcopy (N * N) ?Vel),
          Vel_Vel = MatMul ?Vel ?Vel N N False False (GetB model / GetDy model),
          Vel_Other = MatMul ?Vel ?Other N N False False (GetB model / GetDx model),
          Vel_Vel_Minus_1 = MatMul ?Vel ?Vel N N False True (GetB model / GetDy model),
          Vel_Other_Minus_1 = MatMul ?Vel ?Other N N True False (GetB model / GetDx model) \<rparr>)"
    using t unfolding NextVelocityState_terms_root_def SetMatrixCoefficients_root_def Let_def nx ny
    by (simp split: if_splits)
  show "dVel_dx_2 t ! (i * nat (GetNy model - 2) + j) =
           (- 2 * GetC model) / (GetDx model)\<^sup>2 * (if U_OR_V then Ui else Vi) ! (i * nat (GetNy model - 2) + j)
           + (if 0 < i then GetC model / (GetDx model)\<^sup>2
                * (if U_OR_V then Ui else Vi) ! ((i - 1) * nat (GetNy model - 2) + j) else 0)
           + (if i + 1 < nat (GetNx model - 2) then GetC model / (GetDx model)\<^sup>2
                * (if U_OR_V then Ui else Vi) ! ((i + 1) * nat (GetNy model - 2) + j) else 0)"
    unfolding nx ny using nth_dsymm_R_U_GenSymm [OF i' j', of _ _ ?Vel]
    by (cases U_OR_V) (simp_all add: t')
  show "dVel_dy_2 t ! (i * nat (GetNy model - 2) + j) =
           (- 2 * GetC model) / (GetDy model)\<^sup>2 * (if U_OR_V then Ui else Vi) ! (i * nat (GetNy model - 2) + j)
           + (if 0 < j then GetC model / (GetDy model)\<^sup>2
                * (if U_OR_V then Ui else Vi) ! (i * nat (GetNy model - 2) + (j - 1)) else 0)
           + (if j + 1 < nat (GetNy model - 2) then GetC model / (GetDy model)\<^sup>2
                * (if U_OR_V then Ui else Vi) ! (i * nat (GetNy model - 2) + (j + 1)) else 0)"
    unfolding nx ny using nth_dsymm_L_U_GenSymm [OF i' j', of _ _ ?Vel]
    by (cases U_OR_V) (simp_all add: t')
  show "dVel_dx t ! (i * nat (GetNy model - 2) + j) =
           - (GetAx model / GetDx model * (if U_OR_V then Ui else Vi) ! (i * nat (GetNy model - 2) + j)
              + (if 0 < i then (- GetAx model / GetDx model)
                   * (if U_OR_V then Ui else Vi) ! ((i - 1) * nat (GetNy model - 2) + j) else 0))"
    unfolding nx ny using nth_dtrmm_R_U_GenTrmm [OF i' j', of _ _ ?Vel] k
    by (cases U_OR_V) (simp_all only: t' if_True if_False terms.simps nth_dtrmm_R_U_N_N_minus)
  show "dVel_dy t ! (i * nat (GetNy model - 2) + j) =
           - (GetAy model / GetDy model * (if U_OR_V then Ui else Vi) ! (i * nat (GetNy model - 2) + j)
              + (if 0 < j then (- GetAy model / GetDy model)
                   * (if U_OR_V then Ui else Vi) ! (i * nat (GetNy model - 2) + (j - 1)) else 0))"
    unfolding nx ny using nth_dtrmm_L_L_GenTrmm [OF i' j', of _ _ ?Vel] k
    by (cases U_OR_V) (simp_all only: t' if_True if_False terms.simps nth_dtrmm_L_L_N_N_minus)
  show "Vel_Vel t ! (i * nat (GetNy model - 2) + j) =
           (if U_OR_V then GetB model / GetDx model else GetB model / GetDy model)
           * (if U_OR_V then Ui else Vi) ! (i * nat (GetNy model - 2) + j)
           * (if U_OR_V then Ui else Vi) ! (i * nat (GetNy model - 2) + j)"
    unfolding nx ny using i' j' by (cases U_OR_V) (simp_all add: t' nth_MatMul)
  show "Vel_Other t ! (i * nat (GetNy model - 2) + j) =
           (if U_OR_V then GetB model / GetDy model else GetB model / GetDx model)
           * (if U_OR_V then Ui else Vi) ! (i * nat (GetNy model - 2) + j)
           * (if U_OR_V then Vi else Ui) ! (i * nat (GetNy model - 2) + j)"
    unfolding nx ny using i' j' by (cases U_OR_V) (simp_all add: t' nth_MatMul)
  show "Vel_Vel_Minus_1 t ! (i * nat (GetNy model - 2) + j) =
           (if U_OR_V
            then (if i = 0 then 0 else GetB model / GetDx model
                    * Ui ! ((i - 1) * nat (GetNy model - 2) + j) * Ui ! (i * nat (GetNy model - 2) + j))
            else (if j = 0 then 0 else GetB model / GetDy model
                    * Vi ! (i * nat (GetNy model - 2) + (j - 1)) * Vi ! (i * nat (GetNy model - 2) + j)))"
    unfolding nx ny using i' j' by (cases U_OR_V) (simp_all add: t' nth_MatMul)
  show "Vel_Other_Minus_1 t ! (i * nat (GetNy model - 2) + j) =
           (if U_OR_V
            then (if j = 0 then 0 else GetB model / GetDy model
                    * Ui ! (i * nat (GetNy model - 2) + (j - 1)) * Vi ! (i * nat (GetNy model - 2) + j))
            else (if i = 0 then 0 else GetB model / GetDx model
                    * Vi ! ((i - 1) * nat (GetNy model - 2) + j) * Ui ! (i * nat (GetNy model - 2) + j)))"
    unfolding nx ny using i' j' by (cases U_OR_V) (simp_all add: t' nth_MatMul)
qed


lemma NextVelocityState_terms_root_stencil:
  assumes sq: "GetNx model = GetNy model"
    and i: "i < nat (GetNx model - 2)" and j: "j < nat (GetNy model - 2)"
    and t: "NextVelocityState_terms_root model (SetMatrixCoefficients_root model) Ui Vi U_OR_V = Inr t"
  shows "dVel_dx_2 t ! (i * nat (GetNy model - 2) + j) =
           GetC model / (GetDx model)\<^sup>2 *
             ((if i = 0 then 0 else (if U_OR_V then Ui else Vi) ! ((i - 1) * nat (GetNy model - 2) + j))
              - 2 * (if U_OR_V then Ui else Vi) ! (i * nat (GetNy model - 2) + j)
              + (if i + 1 = nat (GetNx model - 2) then 0
                 else (if U_OR_V then Ui else Vi) ! ((i + 1) * nat (GetNy model - 2) + j)))"
    and "dVel_dy_2 t ! (i * nat (GetNy model - 2) + j) =
           GetC model / (GetDy model)\<^sup>2 *
             ((if j = 0 then 0 else (if U_OR_V then Ui else Vi) ! (i * nat (GetNy model - 2) + (j - 1)))
              - 2 * (if U_OR_V then Ui else Vi) ! (i * nat (GetNy model - 2) + j)
              + (if j + 1 = nat (GetNy model - 2) then 0
                 else (if U_OR_V then Ui else Vi) ! (i * nat (GetNy model - 2) + (j + 1))))"
    and "dVel_dx t ! (i * nat (GetNy model - 2) + j) =
           - (GetAx model / GetDx model *
             ((if U_OR_V then Ui else Vi) ! (i * nat (GetNy model - 2) + j)
              - (if i = 0 then 0 else (if U_OR_V then Ui else Vi) ! ((i - 1) * nat (GetNy model - 2) + j))))"
    and "dVel_dy t ! (i * nat (GetNy model - 2) + j) =
           - (GetAy model / GetDy model *
             ((if U_OR_V then Ui else Vi) ! (i * nat (GetNy model - 2) + j)
              - (if j = 0 then 0 else (if U_OR_V then Ui else Vi) ! (i * nat (GetNy model - 2) + (j - 1)))))"
    and "Vel_Vel_Minus_1 t ! (i * nat (GetNy model - 2) + j) =
           (if U_OR_V
            then GetB model / GetDx model
                 * (if i = 0 then 0 else (if U_OR_V then Ui else Vi) ! ((i - 1) * nat (GetNy model - 2) + j))
                 * (if U_OR_V then Ui else Vi) ! (i * nat (GetNy model - 2) + j)
            else GetB model / GetDy model
                 * (if j = 0 then 0 else (if U_OR_V then Ui else Vi) ! (i * nat (GetNy model - 2) + (j - 1)))
                 * (if U_OR_V then Ui else Vi) ! (i * nat (GetNy model - 2) + j))"
    and "Vel_Other_Minus_1 t ! (i * nat (GetNy model - 2) + j) =
           (if U_OR_V
            then GetB model / GetDy model
                 * (if j = 0 then 0 else (if U_OR_V then Ui else Vi) ! (i * nat (GetNy model - 2) + (j - 1)))
                 * (if U_OR_V then Vi else Ui) ! (i * nat (GetNy model - 2) + j)
            else GetB model / GetDx model
                 * (if i = 0 then 0 else (if U_OR_V then Ui else Vi) ! ((i - 1) * nat (GetNy model - 2) + j))
                 * (if U_OR_V then Vi else Ui) ! (i * nat (GetNy model - 2) + j))"
proof -
  note a = NextVelocityState_terms_root_arrays [OF assms]
  show "dVel_dx_2 t ! (i * nat (GetNy model - 2) + j) =
           GetC model / (GetDx model)\<^sup>2 *
             ((if i = 0 then 0 else (if U_OR_V then Ui else Vi) ! ((i - 1) * nat (GetNy model - 2) + j))
              - 2 * (if U_OR_V then Ui else Vi) ! (i * nat (GetNy model - 2) + j)
              + (if i + 1 = nat (GetNx model - 2) then 0
                 else (if U_OR_V then Ui else Vi) ! ((i + 1) * nat (GetNy model - 2) + j)))"
    using a(1) i by (auto simp add: algebra_simps)
  show "dVel_dy_2 t ! (i * nat (GetNy model - 2) + j) =
           GetC model / (GetDy model)\<^sup>2 *
             ((if j = 0 then 0 else (if U_OR_V then Ui else Vi) ! (i * nat (GetNy model - 2) + (j - 1)))
              - 2 * (if U_OR_V then Ui else Vi) ! (i * nat (GetNy model - 2) + j)
              + (if j + 1 = nat (GetNy model - 2) then 0
                 else (if U_OR_V then Ui else Vi) ! (i * nat (GetNy model - 2) + (j + 1))))"
    using a(2) j by (auto simp add: algebra_simps)
  show "dVel_dx t ! (i * nat (GetNy model - 2) + j) =
           - (GetAx model / GetDx model *
             ((if U_OR_V then Ui else Vi) ! (i * nat (GetNy model - 2) + j)
              - (if i = 0 then 0 else (if U_OR_V then Ui else Vi) ! ((i - 1) * nat (GetNy model - 2) + j))))"
    using a(3) by (auto simp add: algebra_simps)
  show "dVel_dy t ! (i * nat (GetNy model - 2) + j) =
           - (GetAy model / GetDy model *
             ((if U_OR_V then Ui else Vi) ! (i * nat (GetNy model - 2) + j)
              - (if j = 0 then 0 else (if U_OR_V then Ui else Vi) ! (i * nat (GetNy model - 2) + (j - 1)))))"
    using a(4) by (auto simp add: algebra_simps)
  show "Vel_Vel_Minus_1 t ! (i * nat (GetNy model - 2) + j) =
           (if U_OR_V
            then GetB model / GetDx model
                 * (if i = 0 then 0 else (if U_OR_V then Ui else Vi) ! ((i - 1) * nat (GetNy model - 2) + j))
                 * (if U_OR_V then Ui else Vi) ! (i * nat (GetNy model - 2) + j)
            else GetB model / GetDy model
                 * (if j = 0 then 0 else (if U_OR_V then Ui else Vi) ! (i * nat (GetNy model - 2) + (j - 1)))
                 * (if U_OR_V then Ui else Vi) ! (i * nat (GetNy model - 2) + j))"
    using a(7) by auto
  show "Vel_Other_Minus_1 t ! (i * nat (GetNy model - 2) + j) =
           (if U_OR_V
            then GetB model / GetDy model
                 * (if j = 0 then 0 else (if U_OR_V then Ui else Vi) ! (i * nat (GetNy model - 2) + (j - 1)))
                 * (if U_OR_V then Vi else Ui) ! (i * nat (GetNy model - 2) + j)
            else GetB model / GetDx model
                 * (if i = 0 then 0 else (if U_OR_V then Ui else Vi) ! ((i - 1) * nat (GetNy model - 2) + j))
                 * (if U_OR_V then Vi else Ui) ! (i * nat (GetNy model - 2) + j))"
    using a(8) by auto
qed

section \<open>The nonlinear terms\<close>

lemma SetLinearTerms_cell_update:
  "SetLinearTerms_cell model Vel Other SELECT_U i k buf =
     buf[i * nat (GetNy model - 2) + k := cell_value_ser model Vel Other SELECT_U i k]"
proof (cases "i * nat (GetNy model - 2) + k < length buf")
  case True
  define c where "c = i * nat (GetNy model - 2) + k"
  with True have c: "c < length buf" by simp
  show ?thesis
    unfolding SetLinearTerms_cell_def cell_value_ser_def linear_terms_ser_def Let_def
      c_def [symmetric]
    using c by (simp add: algebra_simps)
next
  case False
  then show ?thesis
    by (simp add: SetLinearTerms_cell_def Let_def list_update_beyond)
qed

lemma nth_fold_update_other:
  "c \<notin> set cs \<Longrightarrow> fold (\<lambda>c buf. buf[c := g c]) cs buf ! c = buf ! c"
  by (induction cs arbitrary: buf) auto

lemma length_fold_update_list [simp]:
  "length (fold (\<lambda>c buf. buf[c := g c]) cs buf) = length buf"
  by (induction cs arbitrary: buf) auto

lemma nth_fold_update_list:
  "c \<in> set cs \<Longrightarrow> c < length buf \<Longrightarrow> fold (\<lambda>c buf. buf[c := g c]) cs buf ! c = g c"
proof (induction cs arbitrary: buf)
  case Nil
  then show ?case by simp
next
  case (Cons a cs)
  show ?case
  proof (cases "c \<in> set cs")
    case True
    with Cons show ?thesis by simp
  next
    case False
    with Cons.prems have "c = a" by simp
    with False Cons.prems show ?thesis by (simp add: nth_fold_update_other)
  qed
qed


lemma fold_fold_concat: "fold (\<lambda>x. fold F (L x)) xs = fold F (concat (map L xs))"
  by (induction xs) simp_all

lemma in_concat_map: "x \<in> set xs \<Longrightarrow> y \<in> set (L x) \<Longrightarrow> y \<in> set (concat (map L xs))"
  by auto

lemma block_member:
  assumes "k < (N::nat)"
  shows "\<exists>q < (N + 8 - 1) div 8. q * 8 \<le> k \<and> k < min N (q * 8 + 8)"
proof (intro exI conjI)
  show "k div 8 < (N + 8 - 1) div 8" using assms by arith
  show "k div 8 * 8 \<le> k" by arith
  show "k < min N (k div 8 * 8 + 8)" using assms by arith
qed

lemma nth_SetLinearTerms:
  assumes i: "i < nat (GetNx model - 2)" and k: "k < nat (GetNy model - 2)"
    and l: "length NextVel = nat (GetNy model - 2) * nat (GetNx model - 2)"
  shows "SetLinearTerms model Vel Other NextVel SELECT_U ! (i * nat (GetNy model - 2) + k) =
           cell_value_ser model Vel Other SELECT_U i k"
proof -
  define Nyr where "Nyr = nat (GetNy model - 2)"
  define Nxr where "Nxr = nat (GetNx model - 2)"
  define G where "G c = cell_value_ser model Vel Other SELECT_U (c div Nyr) (c mod Nyr)" for c
  define F where "F = (\<lambda>c buf. buf[c := G c])"
  define cells where "cells =
    concat (map (\<lambda>i. concat (map (\<lambda>j. map (\<lambda>k. i * Nyr + k) [j..<min Nyr (j + 8)])
       (map (\<lambda>q. q * 8) [0..<(Nyr + 8 - 1) div 8]))) [0..<Nxr])"
  have inner: "fold (\<lambda>k. SetLinearTerms_cell model Vel Other SELECT_U i k) [j..<min Nyr (j + 8)]
             = fold F (map (\<lambda>k. i * Nyr + k) [j..<min Nyr (j + 8)])" for i j
  proof (rule ext)
    fix buf
    have "fold (\<lambda>k. SetLinearTerms_cell model Vel Other SELECT_U i k) [j..<min Nyr (j + 8)] buf
        = fold (F \<circ> (\<lambda>k. i * Nyr + k)) [j..<min Nyr (j + 8)] buf"
      by (rule fold_cong)
         (simp_all add: fun_eq_iff SetLinearTerms_cell_update F_def G_def Nyr_def [symmetric]
            div_mod_index)
    then show "fold (\<lambda>k. SetLinearTerms_cell model Vel Other SELECT_U i k) [j..<min Nyr (j + 8)] buf
        = fold F (map (\<lambda>k. i * Nyr + k) [j..<min Nyr (j + 8)]) buf"
      by (simp add: fold_map)
  qed
  have whole: "SetLinearTerms model Vel Other NextVel SELECT_U = fold F cells NextVel"
    unfolding SetLinearTerms_def Let_def Nyr_def [symmetric] Nxr_def [symmetric] inner cells_def
    by (simp only: fold_fold_concat)
  from block_member [OF k [folded Nyr_def]]
  obtain q where q: "q < (Nyr + 8 - 1) div 8" "q * 8 \<le> k" "k < min Nyr (q * 8 + 8)"
    by blast
  have "k \<in> set [q * 8..<min Nyr (q * 8 + 8)]"
    using q by simp
  then have "i * Nyr + k \<in> set (map (\<lambda>k. i * Nyr + k) [q * 8..<min Nyr (q * 8 + 8)])"
    by (simp only: set_map) (rule imageI)
  moreover have "q * 8 \<in> set (map (\<lambda>q. q * 8) [0..<(Nyr + 8 - 1) div 8])"
    using q(1) by simp
  ultimately have "i * Nyr + k \<in> set (concat (map (\<lambda>j. map (\<lambda>k. i * Nyr + k) [j..<min Nyr (j + 8)])
       (map (\<lambda>q. q * 8) [0..<(Nyr + 8 - 1) div 8])))"
    by (rule in_concat_map [rotated])
  moreover have "i \<in> set [0..<Nxr]"
    using i by (simp add: Nxr_def)
  ultimately have mem: "i * Nyr + k \<in> set cells"
    unfolding cells_def by (rule in_concat_map [rotated])
  have len: "i * Nyr + k < length NextVel"
    using index_bound [OF i k] l by (simp add: Nyr_def mult.commute)
  have "fold F cells NextVel ! (i * Nyr + k) = G (i * Nyr + k)"
    unfolding F_def using mem len by (rule nth_fold_update_list)
  also have "\<dots> = cell_value_ser model Vel Other SELECT_U i k"
    using k by (simp add: G_def Nyr_def div_mod_index)
  finally show ?thesis
    by (simp only: whole Nyr_def)
qed

text \<open>
  Claim C7. When \<^verbatim>\<open>NextVelocityState\<close> solves for \<open>u\<close>, the self term and the backward
  term of the own direction (the western neighbour) carry \<open>b/dx\<close>, the cross term and the
  backward term of the cross direction (the northern neighbour) carry \<open>b/dy\<close>; when it
  solves for \<open>v\<close> the two coefficients are swapped, the own direction of \<open>v\<close> being \<open>y\<close>.
  The inline loop of \<^verbatim>\<open>SetLinearTerms\<close> of serSrc/Burgers.cpp pairs \<^verbatim>\<open>GetBDx()\<close> and
  \<^verbatim>\<open>GetBDy()\<close> with the four terms in the same way.
\<close>

theorem nonlinear_term_coefficients:
  assumes "allocated m st" "halo_complete m inc"
    and "length Ui = LocNyr m * LocNxr m" "length Vi = LocNyr m * LocNxr m"
    and "i < LocNxr m" "j < LocNyr m"
    and "i' < nat (GetNx smodel - 2)" "k' < nat (GetNy smodel - 2)"
    and "length Vel = nat (GetNy smodel - 2) * nat (GetNx smodel - 2)"
    and "length Other = nat (GetNy smodel - 2) * nat (GetNx smodel - 2)"
    and "length NextVel = nat (GetNy smodel - 2) * nat (GetNx smodel - 2)"
  shows "Vel_Vel (snd (NextVelocityState_terms m st Ui Vi True inc)) ! (i * LocNyr m + j) =
           B m / Dx m * Ui ! (i * LocNyr m + j) * Ui ! (i * LocNyr m + j)
       \<and> Vel_Vel_Minus_1 (snd (NextVelocityState_terms m st Ui Vi True inc)) ! (i * LocNyr m + j) =
           B m / Dx m * west m (SetCaches m st Ui inc) Ui i j * Ui ! (i * LocNyr m + j)
       \<and> Vel_Other (snd (NextVelocityState_terms m st Ui Vi True inc)) ! (i * LocNyr m + j) =
           B m / Dy m * Ui ! (i * LocNyr m + j) * Vi ! (i * LocNyr m + j)
       \<and> Vel_Other_Minus_1 (snd (NextVelocityState_terms m st Ui Vi True inc)) ! (i * LocNyr m + j) =
           B m / Dy m * north m (SetCaches m st Ui inc) Ui i j * Vi ! (i * LocNyr m + j)
       \<and> Vel_Vel (snd (NextVelocityState_terms m st Ui Vi False inc)) ! (i * LocNyr m + j) =
           B m / Dy m * Vi ! (i * LocNyr m + j) * Vi ! (i * LocNyr m + j)
       \<and> Vel_Vel_Minus_1 (snd (NextVelocityState_terms m st Ui Vi False inc)) ! (i * LocNyr m + j) =
           B m / Dy m * north m (SetCaches m st Vi inc) Vi i j * Vi ! (i * LocNyr m + j)
       \<and> Vel_Other (snd (NextVelocityState_terms m st Ui Vi False inc)) ! (i * LocNyr m + j) =
           B m / Dx m * Vi ! (i * LocNyr m + j) * Ui ! (i * LocNyr m + j)
       \<and> Vel_Other_Minus_1 (snd (NextVelocityState_terms m st Ui Vi False inc)) ! (i * LocNyr m + j) =
           B m / Dx m * west m (SetCaches m st Vi inc) Vi i j * Ui ! (i * LocNyr m + j)
       \<and> SetLinearTerms smodel Vel Other NextVel True ! (i' * nat (GetNy smodel - 2) + k') =
           Vel ! (i' * nat (GetNy smodel - 2) + k')
           + GetDt smodel *
             (linear_terms_ser smodel Vel i' k'
              - (GetBDx smodel * Vel ! (i' * nat (GetNy smodel - 2) + k')
                   * Vel ! (i' * nat (GetNy smodel - 2) + k')
                 + GetBDy smodel * Vel ! (i' * nat (GetNy smodel - 2) + k')
                   * Other ! (i' * nat (GetNy smodel - 2) + k')
                 - (if i' = 0 then 0
                    else GetBDx smodel * Vel ! ((i' - 1) * nat (GetNy smodel - 2) + k')
                         * Vel ! (i' * nat (GetNy smodel - 2) + k'))
                 - (if k' = 0 then 0
                    else GetBDy smodel * Vel ! (i' * nat (GetNy smodel - 2) + k' - 1)
                         * Other ! (i' * nat (GetNy smodel - 2) + k'))))
       \<and> SetLinearTerms smodel Vel Other NextVel False ! (i' * nat (GetNy smodel - 2) + k') =
           Vel ! (i' * nat (GetNy smodel - 2) + k')
           + GetDt smodel *
             (linear_terms_ser smodel Vel i' k'
              - (GetBDy smodel * Vel ! (i' * nat (GetNy smodel - 2) + k')
                   * Vel ! (i' * nat (GetNy smodel - 2) + k')
                 + GetBDx smodel * Vel ! (i' * nat (GetNy smodel - 2) + k')
                   * Other ! (i' * nat (GetNy smodel - 2) + k')
                 - (if k' = 0 then 0
                    else GetBDy smodel * Vel ! (i' * nat (GetNy smodel - 2) + k' - 1)
                         * Vel ! (i' * nat (GetNy smodel - 2) + k'))
                 - (if i' = 0 then 0
                    else GetBDx smodel * Vel ! ((i' - 1) * nat (GetNy smodel - 2) + k')
                         * Other ! (i' * nat (GetNy smodel - 2) + k'))))"
  using terms_Vel_Vel [OF assms(5,6), of st Ui Vi True inc]
        terms_Vel_Vel [OF assms(5,6), of st Ui Vi False inc]
        terms_Vel_Other [OF assms(5,6), of st Ui Vi True inc]
        terms_Vel_Other [OF assms(5,6), of st Ui Vi False inc]
        terms_Minus_1_U [OF assms(5,6), of st Ui Vi inc]
        terms_Minus_1_V [OF assms(5,6), of st Ui Vi inc]
        nth_SetLinearTerms [OF assms(7,8,11), of Vel Other True]
        nth_SetLinearTerms [OF assms(7,8,11), of Vel Other False]
  by (simp add: cell_value_ser_def Let_def)

theorem nonlinear_term_coefficients_witness:
  "Vel_Vel (snd (NextVelocityState_terms model_2x2 state_2x2_ready [1, 2, 3, 4] [5, 6, 7, 8] True halo_2x2)) ! 3 = 32
   \<and> Vel_Vel_Minus_1 (snd (NextVelocityState_terms model_2x2 state_2x2_ready [1, 2, 3, 4] [5, 6, 7, 8] True halo_2x2)) ! 3 = 16
   \<and> Vel_Other (snd (NextVelocityState_terms model_2x2 state_2x2_ready [1, 2, 3, 4] [5, 6, 7, 8] True halo_2x2)) ! 3 = 32
   \<and> Vel_Other_Minus_1 (snd (NextVelocityState_terms model_2x2 state_2x2_ready [1, 2, 3, 4] [5, 6, 7, 8] True halo_2x2)) ! 3 = 24
   \<and> Vel_Vel (snd (NextVelocityState_terms model_2x2 state_2x2_ready [1, 2, 3, 4] [5, 6, 7, 8] False halo_2x2)) ! 3 = 64
   \<and> Vel_Vel_Minus_1 (snd (NextVelocityState_terms model_2x2 state_2x2_ready [1, 2, 3, 4] [5, 6, 7, 8] False halo_2x2)) ! 3 = 56
   \<and> Vel_Other (snd (NextVelocityState_terms model_2x2 state_2x2_ready [1, 2, 3, 4] [5, 6, 7, 8] False halo_2x2)) ! 3 = 64
   \<and> Vel_Other_Minus_1 (snd (NextVelocityState_terms model_2x2 state_2x2_ready [1, 2, 3, 4] [5, 6, 7, 8] False halo_2x2)) ! 3 = 48
   \<and> SetLinearTerms Model_ser_4x4 [1, 2, 3, 4] [5, 6, 7, 8] [0, 0, 0, 0] True ! 3 = - 40
   \<and> SetLinearTerms Model_ser_4x4 [1, 2, 3, 4] [5, 6, 7, 8] [0, 0, 0, 0] False ! 3 = - 38"
proof -
  have a: "allocated model_2x2 state_2x2_ready"
    unfolding state_2x2_ready_def
    by (simp add: allocated_def model_2x2_def state_2x2_def SetMatrixCoefficients_def
        Let_def GenSymm_def GenTrmm_def)
  have h: "halo_complete model_2x2 halo_2x2"
    by (simp add: halo_complete_def model_2x2_def)
  have l: "length [1, 2, 3, 4 :: real] = LocNyr model_2x2 * LocNxr model_2x2"
    "length [5, 6, 7, 8 :: real] = LocNyr model_2x2 * LocNxr model_2x2"
    "1 < LocNxr model_2x2" "1 < LocNyr model_2x2"
    by (simp_all add: model_2x2_def)
  have s: "1 < nat (GetNx Model_ser_4x4 - 2)" "1 < nat (GetNy Model_ser_4x4 - 2)"
    "length [1, 2, 3, 4 :: real] = nat (GetNy Model_ser_4x4 - 2) * nat (GetNx Model_ser_4x4 - 2)"
    "length [5, 6, 7, 8 :: real] = nat (GetNy Model_ser_4x4 - 2) * nat (GetNx Model_ser_4x4 - 2)"
    "length [0, 0, 0, 0 :: real] = nat (GetNy Model_ser_4x4 - 2) * nat (GetNx Model_ser_4x4 - 2)"
    by (simp_all add: Model_ser_4x4_def)
  from nonlinear_term_coefficients [OF a h l s] show ?thesis
    by (simp add: model_2x2_def west_def north_def Model_ser_4x4_def linear_terms_ser_def)
qed

section \<open>One update as a five-point stencil\<close>

lemma SetCaches_halos:
  assumes "allocated m st" "halo_complete m inc"
  shows "upVel (SetCaches m st Vel inc) = (if Up m < 0 then replicate (LocNxr m) 0 else from_up inc)"
    and "downVel (SetCaches m st Vel inc) = (if Down m < 0 then replicate (LocNxr m) 0 else from_down inc)"
    and "leftVel (SetCaches m st Vel inc) = (if Left m < 0 then replicate (LocNyr m) 0 else from_left inc)"
    and "rightVel (SetCaches m st Vel inc) = (if Right m < 0 then replicate (LocNyr m) 0 else from_right inc)"
  using assms
  by (auto simp add: SetCaches_def Let_def MPI_Sendrecv_recv_def SetZeroes_def allocated_def
      halo_complete_def)

lemma SetCaches_allocated:
  assumes "allocated m st" "halo_complete m inc"
  shows "allocated m (SetCaches m st Vel inc)"
  using assms SetCaches_halos [OF assms, of Vel]
  by (auto simp add: allocated_def halo_complete_def)

lemma SetCaches_SetCaches:
  assumes "allocated m st" "halo_complete m inc" "halo_complete m inc'"
  shows "SetCaches m (SetCaches m st Vel inc) Vel' inc' = SetCaches m st Vel' inc'"
proof -
  have a: "allocated m (SetCaches m st Vel inc)"
    by (rule SetCaches_allocated [OF assms(1,2)])
  show ?thesis
    by (rule burgers2p.equality)
       (simp_all add: SetCaches_halos [OF a assms(3)] SetCaches_halos [OF assms(1,3)]
          )
qed

lemma coefficients_set_SetMatrixCoefficients:
  "coefficients_set m (SetMatrixCoefficients m st)"
  by (simp add: coefficients_set_def SetMatrixCoefficients_def Let_def)

lemma allocated_SetMatrixCoefficients:
  "allocated m st \<Longrightarrow> allocated m (SetMatrixCoefficients m st)"
  by (simp add: allocated_def SetMatrixCoefficients_def Let_def)

lemma NextVelocityState_stencil:
  assumes "i < LocNxr m" "j < LocNyr m" "coefficients_set m st"
  shows "fst (NextVelocityState m st Ui Vi SELECT_U inc) ! (i * LocNyr m + j) =
           stencil m SELECT_U
             ((if SELECT_U then Ui else Vi) ! (i * LocNyr m + j))
             ((if SELECT_U then Vi else Ui) ! (i * LocNyr m + j))
             (west m (SetCaches m st (if SELECT_U then Ui else Vi) inc) (if SELECT_U then Ui else Vi) i j)
             (east m (SetCaches m st (if SELECT_U then Ui else Vi) inc) (if SELECT_U then Ui else Vi) i j)
             (north m (SetCaches m st (if SELECT_U then Ui else Vi) inc) (if SELECT_U then Ui else Vi) i j)
             (south m (SetCaches m st (if SELECT_U then Ui else Vi) inc) (if SELECT_U then Ui else Vi) i j)"
proof -
  have k: "i * LocNyr m + j < LocNyr m * LocNxr m"
    using index_bound [OF assms(1,2)] by (simp add: mult.commute)
  show ?thesis
  proof (cases SELECT_U)
    case True
    show ?thesis
      unfolding nth_fst_NextVelocityState [OF k]
        terms_dVel_dx_2 [OF assms] terms_dVel_dy_2 [OF assms]
        terms_dVel_dx [OF assms] terms_dVel_dy [OF assms]
        terms_Vel_Vel [OF assms(1,2)] terms_Vel_Other [OF assms(1,2)]
      using True terms_Minus_1_U [OF assms(1,2), of st Ui Vi inc]
      by (simp add: stencil_def)
  next
    case False
    show ?thesis
      unfolding nth_fst_NextVelocityState [OF k]
        terms_dVel_dx_2 [OF assms] terms_dVel_dy_2 [OF assms]
        terms_dVel_dx [OF assms] terms_dVel_dy [OF assms]
        terms_Vel_Vel [OF assms(1,2)] terms_Vel_Other [OF assms(1,2)]
      using False terms_Minus_1_V [OF assms(1,2), of st Ui Vi inc]
      by (simp add: stencil_def)
  qed
qed

lemma NextVelocityState_terms_cong:
  assumes "SetCaches m st' (if SELECT_U then Ui else Vi) inc =
           SetCaches m st (if SELECT_U then Ui else Vi) inc"
  shows "NextVelocityState_terms m st' Ui Vi SELECT_U inc =
         NextVelocityState_terms m st Ui Vi SELECT_U inc"
proof -
  have c: "dVel_dx_2_coeffs st' = dVel_dx_2_coeffs st" "dVel_dy_2_coeffs st' = dVel_dy_2_coeffs st"
          "dVel_dx_coeffs st' = dVel_dx_coeffs st" "dVel_dy_coeffs st' = dVel_dy_coeffs st"
    using arg_cong [OF assms, of dVel_dx_2_coeffs] arg_cong [OF assms, of dVel_dy_2_coeffs]
          arg_cong [OF assms, of dVel_dx_coeffs] arg_cong [OF assms, of dVel_dy_coeffs]
    by simp_all
  show ?thesis
    using assms by (simp add: NextVelocityState_terms_def Let_def c)
qed

lemma NextVelocityState_cong:
  assumes "SetCaches m st' (if SELECT_U then Ui else Vi) inc =
           SetCaches m st (if SELECT_U then Ui else Vi) inc"
  shows "NextVelocityState m st' Ui Vi SELECT_U inc = NextVelocityState m st Ui Vi SELECT_U inc"
  using NextVelocityState_terms_cong [OF assms]
  by (simp add: NextVelocityState_def Let_def)

lemma length_fst_NextVelocityState [simp]:
  "length (fst (NextVelocityState m st Ui Vi SELECT_U inc)) = LocNyr m * LocNxr m"
  by (simp add: fst_NextVelocityState)

lemma allocated_root_4x4:
  "allocated_root Model_4x4 (SetMatrixCoefficients_root Model_4x4) [1, 2, 3, 4] [5, 6, 7, 8]"
  by (simp add: allocated_root_def Model_4x4_def SetMatrixCoefficients_root_def Let_def
      GenSymm_def GenTrmm_def)

lemma halo_neighbours:
  assumes "allocated m st" "halo_complete m inc" "i < LocNxr m" "j < LocNyr m"
  shows "west m (SetCaches m st Vel inc) Vel i j =
           (if i = 0 then (if Left m < 0 then 0 else from_left inc ! j)
            else Vel ! ((i - 1) * LocNyr m + j))"
    and "east m (SetCaches m st Vel inc) Vel i j =
           (if i + 1 = LocNxr m then (if Right m < 0 then 0 else from_right inc ! j)
            else Vel ! ((i + 1) * LocNyr m + j))"
    and "north m (SetCaches m st Vel inc) Vel i j =
           (if j = 0 then (if Up m < 0 then 0 else from_up inc ! i)
            else Vel ! (i * LocNyr m + (j - 1)))"
    and "south m (SetCaches m st Vel inc) Vel i j =
           (if j + 1 = LocNyr m then (if Down m < 0 then 0 else from_down inc ! i)
            else Vel ! (i * LocNyr m + (j + 1)))"
  using assms(3,4)
  by (simp_all add: west_def east_def north_def south_def SetCaches_halos [OF assms(1,2)])

lemma allocated_model_2x2_inner: "allocated model_2x2_inner state_2x2_ready"
  unfolding state_2x2_ready_def
  by (simp add: allocated_def model_2x2_inner_def model_2x2_def state_2x2_def
      SetMatrixCoefficients_def Let_def GenSymm_def GenTrmm_def)

lemma coefficients_set_model_2x2_inner: "coefficients_set model_2x2_inner state_2x2_ready"
  unfolding state_2x2_ready_def
  by (simp add: coefficients_set_def model_2x2_inner_def SetMatrixCoefficients_def Let_def)

lemma halo_complete_inner: "halo_complete model_2x2_inner halo_inner"
  by (simp add: halo_complete_def model_2x2_inner_def model_2x2_def halo_inner_def)

text \<open>
  Claim C1. For every local field pair and every cell \<open>k = i * Nyr + j\<close> of the block, the
  buffer that \<^verbatim>\<open>NextVelocityState\<close> returns holds
  \<open>Vel[k] + dt * (dVel_dx_2[k] + dVel_dy_2[k] - dVel_dx[k] - dVel_dy[k]
   - (Vel_Vel[k] + Vel_Other[k] - Vel_Vel_Minus_1[k] - Vel_Other_Minus_1[k]))\<close>,
  and the eight arrays of that call hold, after \<^verbatim>\<open>UpdateBoundsLinear\<close> and
  \<^verbatim>\<open>UpdateBoundsNonLinear\<close>, what steps 2 to 6 of section 4.3 of the specification
  define: with \<open>w\<close>, \<open>e\<close>, \<open>n\<close>, \<open>s\<close> the samples of \<open>Vel\<close> one column or one row
  away, taken across an edge of the block from the message of that neighbour and zero
  where there is no neighbour,
  \<open>dVel_dx_2[k] = c/dx\<^sup>2 * (w - 2 Vel[k] + e)\<close>, \<open>dVel_dy_2[k] = c/dy\<^sup>2 * (n - 2 Vel[k] + s)\<close>,
  \<open>dVel_dx[k] = ax/dx * (Vel[k] - w)\<close>, \<open>dVel_dy[k] = ay/dy * (Vel[k] - n)\<close>,
  \<open>Vel_Vel[k] = \<beta>\<^sub>1 Vel[k] Vel[k]\<close>, \<open>Vel_Other[k] = \<beta>\<^sub>2 Vel[k] Other[k]\<close>, and the two
  backward products \<open>b/dx * w * Vel[k]\<close>, \<open>b/dy * n * Other[k]\<close> for \<open>u\<close> and
  \<open>b/dy * n * Vel[k]\<close>, \<open>b/dx * w * Other[k]\<close> for \<open>v\<close>. The operators are the ones
  \<^verbatim>\<open>SetMatrixCoefficients\<close> builds.

  \<^verbatim>\<open>Burgers::NextVelocityState\<close> of src/Burgers.cpp, on a square grid, returns; its
  arrays hold the same values with zero beyond every edge, except that it stores the two
  first-derivative arrays negated and its loop adds them, which gives the same sum.
\<close>

theorem NextVelocityState_combination:
  assumes "allocated m st" "coefficients_set m st" "halo_complete m inc"
    and "length Ui = LocNyr m * LocNxr m" "length Vi = LocNyr m * LocNxr m"
    and "i < LocNxr m" "j < LocNyr m"
    and "allocated_root model (SetMatrixCoefficients_root model) Ui' Vi'"
    and "i' < nat (GetNx model - 2)" "j' < nat (GetNy model - 2)"
  shows
    "(let Vel = (if SELECT_U then Ui else Vi); Other = (if SELECT_U then Vi else Ui);
          k = i * LocNyr m + j;
          t = snd (NextVelocityState_terms m st Ui Vi SELECT_U inc);
          w = (if i = 0 then (if Left m < 0 then 0 else from_left inc ! j)
               else Vel ! ((i - 1) * LocNyr m + j));
          e = (if i + 1 = LocNxr m then (if Right m < 0 then 0 else from_right inc ! j)
               else Vel ! ((i + 1) * LocNyr m + j));
          n = (if j = 0 then (if Up m < 0 then 0 else from_up inc ! i)
               else Vel ! (i * LocNyr m + (j - 1)));
          s = (if j + 1 = LocNyr m then (if Down m < 0 then 0 else from_down inc ! i)
               else Vel ! (i * LocNyr m + (j + 1)))
      in fst (NextVelocityState m st Ui Vi SELECT_U inc) ! k =
           Vel ! k
           + Dt m *
             (dVel_dx_2 t ! k + dVel_dy_2 t ! k - dVel_dx t ! k - dVel_dy t ! k
              - (Vel_Vel t ! k + Vel_Other t ! k - Vel_Vel_Minus_1 t ! k - Vel_Other_Minus_1 t ! k))
       \<and> dVel_dx_2 t ! k = C m / (Dx m)\<^sup>2 * (w - 2 * Vel ! k + e)
       \<and> dVel_dy_2 t ! k = C m / (Dy m)\<^sup>2 * (n - 2 * Vel ! k + s)
       \<and> dVel_dx t ! k = Ax m / Dx m * (Vel ! k - w)
       \<and> dVel_dy t ! k = Ay m / Dy m * (Vel ! k - n)
       \<and> Vel_Vel t ! k = (if SELECT_U then B m / Dx m else B m / Dy m) * Vel ! k * Vel ! k
       \<and> Vel_Other t ! k = (if SELECT_U then B m / Dy m else B m / Dx m) * Vel ! k * Other ! k
       \<and> Vel_Vel_Minus_1 t ! k =
           (if SELECT_U then B m / Dx m * w * Vel ! k else B m / Dy m * n * Vel ! k)
       \<and> Vel_Other_Minus_1 t ! k =
           (if SELECT_U then B m / Dy m * n * Other ! k else B m / Dx m * w * Other ! k))
   \<and> (let Nyr = nat (GetNy model - 2); Nxr = nat (GetNx model - 2);
          Vel = (if U_OR_V then Ui' else Vi'); Other = (if U_OR_V then Vi' else Ui');
          k = i' * Nyr + j';
          w = (if i' = 0 then 0 else Vel ! ((i' - 1) * Nyr + j'));
          e = (if i' + 1 = Nxr then 0 else Vel ! ((i' + 1) * Nyr + j'));
          n = (if j' = 0 then 0 else Vel ! (i' * Nyr + (j' - 1)));
          s = (if j' + 1 = Nyr then 0 else Vel ! (i' * Nyr + (j' + 1)))
      in \<exists>t NextVel.
           NextVelocityState_terms_root model (SetMatrixCoefficients_root model) Ui' Vi' U_OR_V = Inr t
         \<and> NextVelocityState_root model (SetMatrixCoefficients_root model) Ui' Vi' U_OR_V = Inr NextVel
         \<and> NextVel ! k =
             Vel ! k
             + GetDt model *
               (dVel_dx_2 t ! k + dVel_dy_2 t ! k + dVel_dx t ! k + dVel_dy t ! k
                - (Vel_Vel t ! k + Vel_Other t ! k - Vel_Vel_Minus_1 t ! k - Vel_Other_Minus_1 t ! k))
         \<and> dVel_dx_2 t ! k = GetC model / (GetDx model)\<^sup>2 * (w - 2 * Vel ! k + e)
         \<and> dVel_dy_2 t ! k = GetC model / (GetDy model)\<^sup>2 * (n - 2 * Vel ! k + s)
         \<and> dVel_dx t ! k = - (GetAx model / GetDx model * (Vel ! k - w))
         \<and> dVel_dy t ! k = - (GetAy model / GetDy model * (Vel ! k - n))
         \<and> Vel_Vel t ! k =
             (if U_OR_V then GetB model / GetDx model else GetB model / GetDy model) * Vel ! k * Vel ! k
         \<and> Vel_Other t ! k =
             (if U_OR_V then GetB model / GetDy model else GetB model / GetDx model) * Vel ! k * Other ! k
         \<and> Vel_Vel_Minus_1 t ! k =
             (if U_OR_V then GetB model / GetDx model * w * Vel ! k
              else GetB model / GetDy model * n * Vel ! k)
         \<and> Vel_Other_Minus_1 t ! k =
             (if U_OR_V then GetB model / GetDy model * n * Other ! k
              else GetB model / GetDx model * w * Other ! k))"
proof (rule conjI)
  let ?Vel = "if SELECT_U then Ui else Vi"
  have k: "i * LocNyr m + j < LocNyr m * LocNxr m"
    using index_bound [OF assms(6,7)] by (simp add: mult.commute)
  note h = halo_neighbours [OF assms(1,3,6,7), of ?Vel, symmetric]
  note c = assms(6,7,2)
  show "(let Vel = (if SELECT_U then Ui else Vi); Other = (if SELECT_U then Vi else Ui);
          k = i * LocNyr m + j;
          t = snd (NextVelocityState_terms m st Ui Vi SELECT_U inc);
          w = (if i = 0 then (if Left m < 0 then 0 else from_left inc ! j)
               else Vel ! ((i - 1) * LocNyr m + j));
          e = (if i + 1 = LocNxr m then (if Right m < 0 then 0 else from_right inc ! j)
               else Vel ! ((i + 1) * LocNyr m + j));
          n = (if j = 0 then (if Up m < 0 then 0 else from_up inc ! i)
               else Vel ! (i * LocNyr m + (j - 1)));
          s = (if j + 1 = LocNyr m then (if Down m < 0 then 0 else from_down inc ! i)
               else Vel ! (i * LocNyr m + (j + 1)))
      in fst (NextVelocityState m st Ui Vi SELECT_U inc) ! k =
           Vel ! k
           + Dt m *
             (dVel_dx_2 t ! k + dVel_dy_2 t ! k - dVel_dx t ! k - dVel_dy t ! k
              - (Vel_Vel t ! k + Vel_Other t ! k - Vel_Vel_Minus_1 t ! k - Vel_Other_Minus_1 t ! k))
       \<and> dVel_dx_2 t ! k = C m / (Dx m)\<^sup>2 * (w - 2 * Vel ! k + e)
       \<and> dVel_dy_2 t ! k = C m / (Dy m)\<^sup>2 * (n - 2 * Vel ! k + s)
       \<and> dVel_dx t ! k = Ax m / Dx m * (Vel ! k - w)
       \<and> dVel_dy t ! k = Ay m / Dy m * (Vel ! k - n)
       \<and> Vel_Vel t ! k = (if SELECT_U then B m / Dx m else B m / Dy m) * Vel ! k * Vel ! k
       \<and> Vel_Other t ! k = (if SELECT_U then B m / Dy m else B m / Dx m) * Vel ! k * Other ! k
       \<and> Vel_Vel_Minus_1 t ! k =
           (if SELECT_U then B m / Dx m * w * Vel ! k else B m / Dy m * n * Vel ! k)
       \<and> Vel_Other_Minus_1 t ! k =
           (if SELECT_U then B m / Dy m * n * Other ! k else B m / Dx m * w * Other ! k))"
    unfolding Let_def h
  proof (intro conjI)
    show "fst (NextVelocityState m st Ui Vi SELECT_U inc) ! (i * LocNyr m + j) =
           ?Vel ! (i * LocNyr m + j)
           + Dt m *
             (dVel_dx_2 (snd (NextVelocityState_terms m st Ui Vi SELECT_U inc)) ! (i * LocNyr m + j)
              + dVel_dy_2 (snd (NextVelocityState_terms m st Ui Vi SELECT_U inc)) ! (i * LocNyr m + j)
              - dVel_dx (snd (NextVelocityState_terms m st Ui Vi SELECT_U inc)) ! (i * LocNyr m + j)
              - dVel_dy (snd (NextVelocityState_terms m st Ui Vi SELECT_U inc)) ! (i * LocNyr m + j)
              - (Vel_Vel (snd (NextVelocityState_terms m st Ui Vi SELECT_U inc)) ! (i * LocNyr m + j)
                 + Vel_Other (snd (NextVelocityState_terms m st Ui Vi SELECT_U inc)) ! (i * LocNyr m + j)
                 - Vel_Vel_Minus_1 (snd (NextVelocityState_terms m st Ui Vi SELECT_U inc)) ! (i * LocNyr m + j)
                 - Vel_Other_Minus_1 (snd (NextVelocityState_terms m st Ui Vi SELECT_U inc)) ! (i * LocNyr m + j)))"
      by (rule nth_fst_NextVelocityState [OF k])
  qed (insert terms_Minus_1_U [OF assms(6,7), of st Ui Vi inc]
        terms_Minus_1_V [OF assms(6,7), of st Ui Vi inc],
       simp_all add: terms_dVel_dx_2 [OF c] terms_dVel_dy_2 [OF c] terms_dVel_dx [OF c]
         terms_dVel_dy [OF c] terms_Vel_Vel [OF assms(6,7)] terms_Vel_Other [OF assms(6,7)])
next
  let ?st = "SetMatrixCoefficients_root model"
  let ?Vel = "if U_OR_V then Ui' else Vi'"
  from assms(8) have sq: "GetNx model = GetNy model"
    by (simp add: allocated_root_def)
  have k: "i' * nat (GetNy model - 2) + j' < nat (GetNy model - 2) * nat (GetNx model - 2)"
    using index_bound [OF assms(9,10)] by (simp add: mult.commute)
  from NextVelocityState_terms_root_square [OF sq]
  obtain t where t: "NextVelocityState_terms_root model ?st Ui' Vi' U_OR_V = Inr t"
    by blast
  from NextVelocityState_root_value [OF t k]
  obtain NextVel where n: "NextVelocityState_root model ?st Ui' Vi' U_OR_V = Inr NextVel"
    "NextVel ! (i' * nat (GetNy model - 2) + j') =
       ?Vel ! (i' * nat (GetNy model - 2) + j')
       + GetDt model *
         (dVel_dx_2 t ! (i' * nat (GetNy model - 2) + j') + dVel_dy_2 t ! (i' * nat (GetNy model - 2) + j')
          + dVel_dx t ! (i' * nat (GetNy model - 2) + j') + dVel_dy t ! (i' * nat (GetNy model - 2) + j')
          - (Vel_Vel t ! (i' * nat (GetNy model - 2) + j') + Vel_Other t ! (i' * nat (GetNy model - 2) + j')
             - Vel_Vel_Minus_1 t ! (i' * nat (GetNy model - 2) + j')
             - Vel_Other_Minus_1 t ! (i' * nat (GetNy model - 2) + j')))"
    by blast
  note a = NextVelocityState_terms_root_arrays [OF sq assms(9,10) t]
  note b = NextVelocityState_terms_root_stencil [OF sq assms(9,10) t]
  show "(let Nyr = nat (GetNy model - 2); Nxr = nat (GetNx model - 2);
          Vel = (if U_OR_V then Ui' else Vi'); Other = (if U_OR_V then Vi' else Ui');
          k = i' * Nyr + j';
          w = (if i' = 0 then 0 else Vel ! ((i' - 1) * Nyr + j'));
          e = (if i' + 1 = Nxr then 0 else Vel ! ((i' + 1) * Nyr + j'));
          n = (if j' = 0 then 0 else Vel ! (i' * Nyr + (j' - 1)));
          s = (if j' + 1 = Nyr then 0 else Vel ! (i' * Nyr + (j' + 1)))
      in \<exists>t NextVel.
           NextVelocityState_terms_root model (SetMatrixCoefficients_root model) Ui' Vi' U_OR_V = Inr t
         \<and> NextVelocityState_root model (SetMatrixCoefficients_root model) Ui' Vi' U_OR_V = Inr NextVel
         \<and> NextVel ! k =
             Vel ! k
             + GetDt model *
               (dVel_dx_2 t ! k + dVel_dy_2 t ! k + dVel_dx t ! k + dVel_dy t ! k
                - (Vel_Vel t ! k + Vel_Other t ! k - Vel_Vel_Minus_1 t ! k - Vel_Other_Minus_1 t ! k))
         \<and> dVel_dx_2 t ! k = GetC model / (GetDx model)\<^sup>2 * (w - 2 * Vel ! k + e)
         \<and> dVel_dy_2 t ! k = GetC model / (GetDy model)\<^sup>2 * (n - 2 * Vel ! k + s)
         \<and> dVel_dx t ! k = - (GetAx model / GetDx model * (Vel ! k - w))
         \<and> dVel_dy t ! k = - (GetAy model / GetDy model * (Vel ! k - n))
         \<and> Vel_Vel t ! k =
             (if U_OR_V then GetB model / GetDx model else GetB model / GetDy model) * Vel ! k * Vel ! k
         \<and> Vel_Other t ! k =
             (if U_OR_V then GetB model / GetDy model else GetB model / GetDx model) * Vel ! k * Other ! k
         \<and> Vel_Vel_Minus_1 t ! k =
             (if U_OR_V then GetB model / GetDx model * w * Vel ! k
              else GetB model / GetDy model * n * Vel ! k)
         \<and> Vel_Other_Minus_1 t ! k =
             (if U_OR_V then GetB model / GetDy model * n * Other ! k
              else GetB model / GetDx model * w * Other ! k))"
    unfolding Let_def
  proof (intro exI [of _ t] exI [of _ NextVel] conjI)
    show "NextVelocityState_terms_root model ?st Ui' Vi' U_OR_V = Inr t" by (rule t)
    show "NextVelocityState_root model ?st Ui' Vi' U_OR_V = Inr NextVel" by (rule n(1))
    show "NextVel ! (i' * nat (GetNy model - 2) + j') =
       ?Vel ! (i' * nat (GetNy model - 2) + j')
       + GetDt model *
         (dVel_dx_2 t ! (i' * nat (GetNy model - 2) + j') + dVel_dy_2 t ! (i' * nat (GetNy model - 2) + j')
          + dVel_dx t ! (i' * nat (GetNy model - 2) + j') + dVel_dy t ! (i' * nat (GetNy model - 2) + j')
          - (Vel_Vel t ! (i' * nat (GetNy model - 2) + j') + Vel_Other t ! (i' * nat (GetNy model - 2) + j')
             - Vel_Vel_Minus_1 t ! (i' * nat (GetNy model - 2) + j')
             - Vel_Other_Minus_1 t ! (i' * nat (GetNy model - 2) + j')))"
      by (rule n(2))
  qed (rule b a(5,6))+
qed


text \<open>
  The update of claim C1 on a \<open>2 \<times> 2\<close> worker with four neighbours, at the cell that
  lies on the left and upper edge and at the cell that lies on the right and lower edge,
  where every boundary correction changes a term array; and on the \<open>4 \<times> 4\<close> grid of
  src/Burgers.cpp.
\<close>

theorem NextVelocityState_combination_witness:
  "fst (NextVelocityState model_2x2_inner state_2x2_ready [1, 2, 3, 4] [5, 6, 7, 8] True halo_inner) ! 0
     = 417 / 2
   \<and> fst (NextVelocityState model_2x2_inner state_2x2_ready [1, 2, 3, 4] [5, 6, 7, 8] True halo_inner) ! 3
     = 156
   \<and> fst (NextVelocityState model_2x2_inner state_2x2_ready [1, 2, 3, 4] [5, 6, 7, 8] False halo_inner) ! 0
     = 369 / 2
   \<and> fst (NextVelocityState model_2x2_inner state_2x2_ready [1, 2, 3, 4] [5, 6, 7, 8] False halo_inner) ! 3
     = 150
   \<and> dVel_dx_2 (snd (NextVelocityState_terms model_2x2_inner state_2x2_ready [1, 2, 3, 4] [5, 6, 7, 8] True halo_inner)) ! 0
     = 204
   \<and> dVel_dy_2 (snd (NextVelocityState_terms model_2x2_inner state_2x2_ready [1, 2, 3, 4] [5, 6, 7, 8] True halo_inner)) ! 0
     = 10
   \<and> dVel_dx (snd (NextVelocityState_terms model_2x2_inner state_2x2_ready [1, 2, 3, 4] [5, 6, 7, 8] True halo_inner)) ! 0
     = - 49
   \<and> dVel_dy (snd (NextVelocityState_terms model_2x2_inner state_2x2_ready [1, 2, 3, 4] [5, 6, 7, 8] True halo_inner)) ! 0
     = - 9
   \<and> Vel_Vel_Minus_1 (snd (NextVelocityState_terms model_2x2_inner state_2x2_ready [1, 2, 3, 4] [5, 6, 7, 8] True halo_inner)) ! 0
     = 100
   \<and> Vel_Other_Minus_1 (snd (NextVelocityState_terms model_2x2_inner state_2x2_ready [1, 2, 3, 4] [5, 6, 7, 8] True halo_inner)) ! 0
     = 50
   \<and> (\<exists>NextVel.
        NextVelocityState_root Model_4x4 (SetMatrixCoefficients_root Model_4x4) [1, 2, 3, 4] [5, 6, 7, 8] True
          = Inr NextVel
      \<and> NextVel ! 3 = - 11)"
proof -
  have l: "length [1, 2, 3, 4 :: real] = LocNyr model_2x2_inner * LocNxr model_2x2_inner"
    "length [5, 6, 7, 8 :: real] = LocNyr model_2x2_inner * LocNxr model_2x2_inner"
    by (simp_all add: model_2x2_inner_def model_2x2_def)
  have c0: "0 < LocNxr model_2x2_inner" "0 < LocNyr model_2x2_inner"
    by (simp_all add: model_2x2_inner_def model_2x2_def)
  have c3: "1 < LocNxr model_2x2_inner" "1 < LocNyr model_2x2_inner"
    by (simp_all add: model_2x2_inner_def model_2x2_def)
  have r: "1 < nat (GetNx Model_4x4 - 2)" "1 < nat (GetNy Model_4x4 - 2)"
    by (simp_all add: Model_4x4_def)
  note T = NextVelocityState_combination [OF allocated_model_2x2_inner coefficients_set_model_2x2_inner
      halo_complete_inner l _ _ allocated_root_4x4 r, where U_OR_V = True, unfolded Let_def]
  note U0 = T [OF c0, where SELECT_U = True]
  note U3 = T [OF c3, where SELECT_U = True]
  note V0 = T [OF c0, where SELECT_U = False]
  note V3 = T [OF c3, where SELECT_U = False]
  have p: "fst (NextVelocityState model_2x2_inner state_2x2_ready [1, 2, 3, 4] [5, 6, 7, 8] True halo_inner) ! 0
     = 417 / 2
   \<and> dVel_dx_2 (snd (NextVelocityState_terms model_2x2_inner state_2x2_ready [1, 2, 3, 4] [5, 6, 7, 8] True halo_inner)) ! 0
     = 204
   \<and> dVel_dy_2 (snd (NextVelocityState_terms model_2x2_inner state_2x2_ready [1, 2, 3, 4] [5, 6, 7, 8] True halo_inner)) ! 0
     = 10
   \<and> dVel_dx (snd (NextVelocityState_terms model_2x2_inner state_2x2_ready [1, 2, 3, 4] [5, 6, 7, 8] True halo_inner)) ! 0
     = - 49
   \<and> dVel_dy (snd (NextVelocityState_terms model_2x2_inner state_2x2_ready [1, 2, 3, 4] [5, 6, 7, 8] True halo_inner)) ! 0
     = - 9
   \<and> Vel_Vel_Minus_1 (snd (NextVelocityState_terms model_2x2_inner state_2x2_ready [1, 2, 3, 4] [5, 6, 7, 8] True halo_inner)) ! 0
     = 100
   \<and> Vel_Other_Minus_1 (snd (NextVelocityState_terms model_2x2_inner state_2x2_ready [1, 2, 3, 4] [5, 6, 7, 8] True halo_inner)) ! 0
     = 50"
    using U0 [THEN conjunct1]
    by (simp add: model_2x2_inner_def model_2x2_def halo_inner_def)
  have u3: "fst (NextVelocityState model_2x2_inner state_2x2_ready [1, 2, 3, 4] [5, 6, 7, 8] True halo_inner) ! 3
     = 156"
    using U3 [THEN conjunct1]
    by (simp add: model_2x2_inner_def model_2x2_def halo_inner_def)
  have v0: "fst (NextVelocityState model_2x2_inner state_2x2_ready [1, 2, 3, 4] [5, 6, 7, 8] False halo_inner) ! 0
     = 369 / 2"
    using V0 [THEN conjunct1]
    by (simp add: model_2x2_inner_def model_2x2_def halo_inner_def)
  have v3: "fst (NextVelocityState model_2x2_inner state_2x2_ready [1, 2, 3, 4] [5, 6, 7, 8] False halo_inner) ! 3
     = 150"
    using V3 [THEN conjunct1]
    by (simp add: model_2x2_inner_def model_2x2_def halo_inner_def)
  have root: "\<exists>NextVel.
        NextVelocityState_root Model_4x4 (SetMatrixCoefficients_root Model_4x4) [1, 2, 3, 4] [5, 6, 7, 8] True
          = Inr NextVel
      \<and> NextVel ! 3 = - 11"
    using U3 [THEN conjunct2]
    by (auto simp add: Model_4x4_def)
  from p u3 v0 v3 root show ?thesis by simp
qed

section \<open>One time step\<close>

lemma length_fold_update0:
  "length (fold (\<lambda>j xs. xs[j := g j]) [0..<n] xs) = length xs"
  using length_fold_update [of 0 g n xs] by simp

lemma nth_fold_update0:
  "k < length xs \<Longrightarrow>
   fold (\<lambda>j xs. xs[j := g j]) [0..<n] xs ! k = (if k < n then g k else xs ! k)"
  using nth_fold_update [of k xs 0 g n] by simp

lemma CopyAndDelete_U:
  "U (CopyAndDelete m st NextU NextV) =
     fold (\<lambda>i xs. xs[i := NextU ! i]) [0..<LocNyr m * LocNxr m] (U st)"
  unfolding CopyAndDelete_def Let_def
  by (rule fold_proj) simp

lemma CopyAndDelete_V:
  "V (CopyAndDelete m st NextU NextV) =
     fold (\<lambda>i xs. xs[i := NextV ! i]) [0..<LocNyr m * LocNxr m] (V st)"
  unfolding CopyAndDelete_def Let_def
  by (rule fold_proj) simp

lemma CopyAndDelete_copies:
  assumes "length (U st) = LocNyr m * LocNxr m" "length (V st) = LocNyr m * LocNxr m"
    and "length NextU = LocNyr m * LocNxr m" "length NextV = LocNyr m * LocNxr m"
  shows "U (CopyAndDelete m st NextU NextV) = NextU"
    and "V (CopyAndDelete m st NextU NextV) = NextV"
  using assms
  by (auto intro!: nth_equalityI
      simp add: CopyAndDelete_U CopyAndDelete_V length_fold_update0 nth_fold_update0)

lemma CopyAndDelete_others [simp]:
  "dVel_dx_2_coeffs (CopyAndDelete m st NextU NextV) = dVel_dx_2_coeffs st"
  "dVel_dy_2_coeffs (CopyAndDelete m st NextU NextV) = dVel_dy_2_coeffs st"
  "dVel_dx_coeffs (CopyAndDelete m st NextU NextV) = dVel_dx_coeffs st"
  "dVel_dy_coeffs (CopyAndDelete m st NextU NextV) = dVel_dy_coeffs st"
  "upVel (CopyAndDelete m st NextU NextV) = upVel st"
  "downVel (CopyAndDelete m st NextU NextV) = downVel st"
  "leftVel (CopyAndDelete m st NextU NextV) = leftVel st"
  "rightVel (CopyAndDelete m st NextU NextV) = rightVel st"
  unfolding CopyAndDelete_def Let_def
  by (rule fold_proj_id, simp)+

lemma velocity_step_eq:
  assumes "allocated m st" "halo_complete m incU" "halo_complete m incV"
  shows "U (velocity_step m incU incV st) = fst (NextVelocityState m st (U st) (V st) True incU)
       \<and> V (velocity_step m incU incV st) = fst (NextVelocityState m st (U st) (V st) False incV)"
proof -
  let ?st1 = "snd (NextVelocityState m st (U st) (V st) True incU)"
  let ?NextU = "fst (NextVelocityState m st (U st) (V st) True incU)"
  have st1: "?st1 = SetCaches m st (U st) incU"
    by (simp add: snd_NextVelocityState)
  have same: "U ?st1 = U st" "V ?st1 = V st"
    by (simp_all add: st1)
  have second: "NextVelocityState m ?st1 (U ?st1) (V ?st1) False incV =
                NextVelocityState m st (U st) (V st) False incV"
    unfolding same
    by (rule NextVelocityState_cong)
       (simp add: st1 SetCaches_SetCaches [OF assms])
  let ?NextV = "fst (NextVelocityState m st (U st) (V st) False incV)"
  let ?st2 = "snd (NextVelocityState m st (U st) (V st) False incV)"
  have step: "velocity_step m incU incV st = CopyAndDelete m ?st2 ?NextU ?NextV"
    by (simp add: velocity_step_def case_prod_beta second Let_def)
  have len: "length (U ?st2) = LocNyr m * LocNxr m" "length (V ?st2) = LocNyr m * LocNxr m"
    using assms(1) by (simp_all add: snd_NextVelocityState allocated_def)
  show ?thesis
    unfolding step
    using CopyAndDelete_copies [OF len, of ?NextU ?NextV] by simp
qed

text \<open>
  Claim C6. In a time step of \<^verbatim>\<open>SetIntegratedVelocity\<close> the committed \<open>U\<close> is what
  \<^verbatim>\<open>NextVelocityState\<close> computes for \<open>u\<close> from the pair \<open>(U, V)\<close> of the state before the
  step, and the committed \<open>V\<close> is what it computes for \<open>v\<close> from that same pair and that
  same state: neither the new \<open>U\<close> nor the halo buffers left by the computation of \<open>u\<close>
  reach the computation of \<open>v\<close>, and both are committed after both are computed.
\<close>

theorem velocity_step_same_time_level:
  assumes "allocated m st" "halo_complete m incU" "halo_complete m incV"
  shows "U (velocity_step m incU incV st) = fst (NextVelocityState m st (U st) (V st) True incU)
       \<and> V (velocity_step m incU incV st) = fst (NextVelocityState m st (U st) (V st) False incV)"
  using assms by (rule velocity_step_eq)

theorem velocity_step_same_time_level_witness:
  "U (velocity_step model_2x2 halo_2x2 halo_2x2 state_2x2_ready) =
     fst (NextVelocityState model_2x2 state_2x2_ready [1, 2, 3, 4] [5, 6, 7, 8] True halo_2x2)
   \<and> V (velocity_step model_2x2 halo_2x2 halo_2x2 state_2x2_ready) =
     fst (NextVelocityState model_2x2 state_2x2_ready [1, 2, 3, 4] [5, 6, 7, 8] False halo_2x2)"
proof -
  have a: "allocated model_2x2 state_2x2_ready"
    unfolding state_2x2_ready_def
    by (rule allocated_SetMatrixCoefficients)
       (simp add: allocated_def model_2x2_def state_2x2_def)
  have h: "halo_complete model_2x2 halo_2x2"
    by (simp add: halo_complete_def model_2x2_def)
  have uv: "U state_2x2_ready = [1, 2, 3, 4]" "V state_2x2_ready = [5, 6, 7, 8]"
    by (simp_all add: state_2x2_ready_def SetMatrixCoefficients_def Let_def state_2x2_def)
  from velocity_step_same_time_level [OF a h h] show ?thesis
    by (simp add: uv)
qed

section \<open>The energy\<close>

lemma CalculateEnergyState_own:
  assumes "rank < length others" "others ! rank = NextLocalEnergyState m Ui Vi"
  shows "CalculateEnergyState m Ui Vi rank others = sum_list others"
  using assms
  by (simp add: CalculateEnergyState_def MPI_Allreduce_SUM_def list_update_same_conv [THEN iffD2])

lemma SetEnergy_all_global_sum:
  assumes "r < length ws"
  shows "E (snd (SetEnergy_all ws ! r)) =
           (\<Sum>(m, st)\<leftarrow>ws. 0.5 * ((\<Sum>k<LocNyr m * LocNxr m. U st ! k * U st ! k)
                                   + (\<Sum>k<LocNyr m * LocNxr m. V st ! k * V st ! k))
                               * Dx m * Dy m)"
proof -
  define c where "c = map (\<lambda>(m, st). NextLocalEnergyState m (U st) (V st)) ws"
  have "c ! r = NextLocalEnergyState (fst (ws ! r)) (U (snd (ws ! r))) (V (snd (ws ! r)))"
    using assms by (simp add: c_def case_prod_beta)
  then have own: "CalculateEnergyState (fst (ws ! r)) (U (snd (ws ! r))) (V (snd (ws ! r))) r c
             = sum_list c"
    using assms by (intro CalculateEnergyState_own) (simp_all add: c_def)
  have c: "c = map (\<lambda>(m, st). 0.5 * ((\<Sum>k<LocNyr m * LocNxr m. U st ! k * U st ! k)
                                   + (\<Sum>k<LocNyr m * LocNxr m. V st ! k * V st ! k))
                               * Dx m * Dy m) ws"
    unfolding c_def by (simp add: NextLocalEnergyState_def ddot_def Let_def case_prod_beta)
  have "E (snd (SetEnergy_all ws ! r)) =
          CalculateEnergyState (fst (ws ! r)) (U (snd (ws ! r))) (V (snd (ws ! r))) r c"
    using assms by (simp add: SetEnergy_all_def SetEnergy_def Let_def c_def del: upt_Suc)
  also have "\<dots> = sum_list c" by (rule own)
  finally show ?thesis by (simp only: c)
qed

lemma SetEnergy_ser_value:
  "E_ser (SetEnergy_ser model st) =
     0.5 * ((\<Sum>k<nat (GetNy model - 2) * nat (GetNx model - 2). local_U st ! k * local_U st ! k)
            + (\<Sum>k<nat (GetNy model - 2) * nat (GetNx model - 2). local_V st ! k * local_V st ! k))
     * GetDx model * GetDy model"
  by (simp add: SetEnergy_ser_def ddot_def Let_def)

lemma SetEnergy_root_value:
  assumes "k < nat (GetNt model)"
  shows "SetEnergy_root model Us Vs ! k =
     0.5 * ((\<Sum>l<nat (GetNy model - 2) * nat (GetNx model - 2). Us ! k ! l * Us ! k ! l)
            + (\<Sum>l<nat (GetNy model - 2) * nat (GetNx model - 2). Vs ! k ! l * Vs ! k ! l))"
  using assms by (simp add: SetEnergy_root_def ddot_def Let_def del: upt_Suc)

lemma sum_ones: "(\<Sum>l<n. replicate n (1::real) ! l * replicate n 1 ! l) = real n"
  by simp

text \<open>
  Claim C4. The partitioned engine and serSrc/Burgers.cpp compute the energy the claim
  states: every worker ends with the sum over all workers of
  \<open>0.5 * (U\<cdot>U + V\<cdot>V) * dx * dy\<close> (\<open>SetEnergy_all_global_sum\<close>, \<open>SetEnergy_ser_value\<close>).
  \<^verbatim>\<open>Burgers::SetEnergy\<close> of src/Burgers.cpp leaves the cell area out
  (\<open>SetEnergy_root_value\<close>): on the \<open>10 \<times> 10\<close> grid of spacing \<open>2\<close> with both fields all
  ones it stores \<open>64\<close> where the claim's value is \<open>256\<close>.
\<close>

theorem SetEnergy_root_unscaled:
  "SetEnergy_root Model_20 (replicate 10 (replicate 64 1)) (replicate 10 (replicate 64 1)) ! 0 = 64
   \<and> 0.5 * (ddot 64 (replicate 64 1) (replicate 64 1) + ddot 64 (replicate 64 1) (replicate 64 1))
        * GetDx Model_20 * GetDy Model_20 = 256"
  using SetEnergy_root_value [of 0 Model_20 "replicate 10 (replicate 64 1)" "replicate 10 (replicate 64 1)"]
    sum_ones [of 64]
  by (simp add: Model_20_def ddot_def)

section \<open>The initial field of src/Burgers.cpp\<close>

lemma fold_Inl:
  "fold (\<lambda>j U0. case U0 of Inl f \<Rightarrow> Inl f | Inr U0 \<Rightarrow> g j U0) js (Inl f) = Inl f"
  by (induction js) simp_all

lemma fold_fold_Inl:
  "fold (\<lambda>i. fold (\<lambda>j U0. case U0 of Inl f \<Rightarrow> Inl f | Inr U0 \<Rightarrow> g i j U0) (js i)) is (Inl f) = Inl f"
  by (induction "is") (simp_all add: fold_Inl)

lemma SetInitialVelocity_root_first_write:
  assumes "0 < GetNx model" "2 \<le> GetNy model"
  shows "SetInitialVelocity_root model = Inl (OutOfBounds (- (GetNy model - 2) - 1))"
proof -
  obtain nx where nx: "nat (GetNx model) = Suc nx"
    using assms(1) by (cases "nat (GetNx model)") auto
  obtain ny where ny: "nat (GetNy model) = Suc ny"
    using assms(2) by (cases "nat (GetNy model)") auto
  have w: "write_at buf ((int 0 - 1) * (GetNy model - 2) + (int 0 - 1)) v
             = Inl (OutOfBounds (- (GetNy model - 2) - 1))" for buf v
    using assms(2) by (simp add: write_at_def)
  show ?thesis
    unfolding SetInitialVelocity_root_def Let_def nx ny upt_conv_Cons [OF zero_less_Suc]
    by (simp only: fold_simps o_apply sum.case w fold_Inl fold_fold_Inl)
qed

text \<open>
  Claim C10. The claim asks every write of \<^verbatim>\<open>SetInitialVelocity\<close> of src/Burgers.cpp
  to land inside \<open>U0\<close>. The first iteration \<open>(i, j) = (0, 0)\<close> already writes at index
  \<open>-(Ny - 2) - 1\<close>, in front of the buffer (\<open>SetInitialVelocity_root_first_write\<close>); on
  the \<open>10 \<times> 10\<close> grid that \<^verbatim>\<open>Model::SetNumerics\<close> always sets this is index \<open>-9\<close>.
\<close>

theorem SetInitialVelocity_root_out_of_bounds:
  "SetInitialVelocity_root Model_20 = Inl (OutOfBounds (- 9))"
  using SetInitialVelocity_root_first_write [of Model_20]
  by (simp add: Model_20_def)

section \<open>Construction of the Model\<close>

lemma atof_decimal_examples:
  "atof_decimal ''0'' = 0" "atof_decimal ''1'' = 1" "atof_decimal ''20'' = 20"
  "atof_decimal ''-1'' = - 1"
  by (simp_all add: atof_decimal_def is_digit_def digit_value_def)

lemma Model_ctor_Model_20:
  "Model_ctor atof_decimal ''Illegal argument'' Model_uninitialised
     [''burgers'', ''0'', ''0'', ''0'', ''0'', ''20'', ''20'', ''1''] =
   Inr ([''Parameters saved successfully.''], Model_20)"
  by (simp add: Model_ctor_def ParseParameters_def ValidateParameters_def IsValid_def
      SetNumerics_def Model_uninitialised_def Model_20_def atof_decimal_examples Let_def)

text \<open>
  Claim C3, as the code has it. The constructor always returns normally: no exception
  leaves it and nothing aborts. With a wrong argument count it writes the text of the
  exception to \<^verbatim>\<open>cout\<close>. With eight arguments of which a parsed parameter is negative
  it writes the warning and leaves the constructed object without its numerics
  (\<^verbatim>\<open>SetNumerics\<close> is not called).
\<close>

theorem Model_ctor_reports:
  "(\<exists>out model. Model_ctor atof what uninitialised argv = Inr (out, model))
   \<and> (length argv \<noteq> 8 \<longrightarrow>
      (\<exists>out model. Model_ctor atof what uninitialised argv = Inr (what # out, model)))
   \<and> (length argv = 8 \<and>
        (atof (argv ! 1) < 0 \<or> atof (argv ! 2) < 0 \<or> atof (argv ! 3) < 0 \<or> atof (argv ! 4) < 0
         \<or> atof (argv ! 5) < 0 \<or> atof (argv ! 6) < 0 \<or> atof (argv ! 7) < 0) \<longrightarrow>
      Model_ctor atof what uninitialised argv =
        Inr ([''Parameters saved successfully.'', ''WARN: Parameter values have to be (>=0)''],
             uninitialised\<lparr> GetAx := atof (argv ! 1), GetAy := atof (argv ! 2),
               GetB := atof (argv ! 3), GetC := atof (argv ! 4), GetLx := atof (argv ! 5),
               GetLy := atof (argv ! 6), GetT := atof (argv ! 7) \<rparr>))"
  by (auto simp add: Model_ctor_def ParseParameters_def ValidateParameters_def IsValid_def
      Let_def case_prod_beta)

theorem Model_ctor_reports_witness:
  "(\<exists>out model. Model_ctor atof_decimal ''Illegal argument'' Model_uninitialised [''burgers'']
       = Inr (''Illegal argument'' # out, model))
   \<and> Model_ctor atof_decimal ''Illegal argument'' Model_uninitialised
     [''burgers'', ''-1'', ''0'', ''0'', ''0'', ''20'', ''20'', ''1''] =
   Inr ([''Parameters saved successfully.'', ''WARN: Parameter values have to be (>=0)''],
        Model_uninitialised\<lparr> GetAx := - 1, GetLx := 20, GetLy := 20, GetT := 1 \<rparr>)"
  using Model_ctor_reports [where argv = "[''burgers'']" and atof = atof_decimal
      and what = "''Illegal argument''" and uninitialised = Model_uninitialised]
    Model_ctor_reports
      [where argv = "[''burgers'', ''-1'', ''0'', ''0'', ''0'', ''20'', ''20'', ''1'']"
      and atof = atof_decimal and what = "''Illegal argument''"
      and uninitialised = Model_uninitialised]
  by (simp add: atof_decimal_examples Model_uninitialised_def)

text \<open>
  The claim as stated fails: a negative \<open>ax\<close> is reported and the constructor returns
  an object all the same; with no argument at all the message of the exception is
  written and, the members holding zeros, \<^verbatim>\<open>SetNumerics\<close> runs on them.
\<close>

theorem Model_ctor_no_abort_counterexample:
  "Model_ctor atof_decimal ''Illegal argument'' Model_uninitialised
     [''burgers'', ''-1'', ''0'', ''0'', ''0'', ''20'', ''20'', ''1''] =
   Inr ([''Parameters saved successfully.'', ''WARN: Parameter values have to be (>=0)''],
        Model_uninitialised\<lparr> GetAx := - 1, GetLx := 20, GetLy := 20, GetT := 1 \<rparr>)
   \<and> Model_ctor atof_decimal ''Illegal argument'' Model_uninitialised [''burgers''] =
   Inr ([''Illegal argument''], SetNumerics Model_uninitialised)"
  by (simp add: Model_ctor_def ParseParameters_def ValidateParameters_def IsValid_def
      Model_uninitialised_def atof_decimal_examples Let_def)

section \<open>The mesh of workers against the single worker\<close>

lemma worker_model_fields [simp]:
  "LocNxr (worker_model g Px Py p q) = LocNxr g"
  "LocNyr (worker_model g Px Py p q) = LocNyr g"
  "Dx (worker_model g Px Py p q) = Dx g"
  "Dy (worker_model g Px Py p q) = Dy g"
  "Dt (worker_model g Px Py p q) = Dt g"
  "Ax (worker_model g Px Py p q) = Ax g"
  "Ay (worker_model g Px Py p q) = Ay g"
  "B (worker_model g Px Py p q) = B g"
  "C (worker_model g Px Py p q) = C g"
  by (simp_all add: worker_model_def)

lemma rank_of_nonneg [simp]: "\<not> rank_of Py p q < 0"
  unfolding rank_of_def by (simp only: of_nat_less_0_iff not_False_eq_True)

lemma worker_model_neighbours:
  "(Up (worker_model g Px Py p q) < 0) = (q = 0)"
  "(Down (worker_model g Px Py p q) < 0) = (q + 1 = Py)"
  "(Left (worker_model g Px Py p q) < 0) = (p = 0)"
  "(Right (worker_model g Px Py p q) < 0) = (p + 1 = Px)"
  by (simp_all add: worker_model_def)

lemma stencil_worker_model [simp]:
  "stencil (worker_model g Px Py p q) = stencil g"
  by (intro ext) (simp add: stencil_def)

lemma halo_exchange_complete:
  "halo_complete (worker_model g Px Py p q) (halo_exchange g Px Py F p q)"
  by (simp add: halo_complete_def halo_exchange_def worker_model_neighbours
      myUpVel_def myDownVel_def myLeftVel_def myRightVel_def)

lemma tilesD:
  assumes "tiles g Px Py F G" "p < Px" "q < Py" "i < LocNxr g" "j < LocNyr g"
  shows "F p q ! (i * LocNyr g + j) =
         G ! ((p * LocNxr g + i) * (Py * LocNyr g) + (q * LocNyr g + j))"
  using assms by (simp add: tiles_def)

lemma west_global:
  assumes t: "tiles g Px Py F G" and p: "p < Px" and q: "q < Py"
    and i: "i < LocNxr g" and j: "j < LocNyr g"
    and l: "leftVel st = (if p = 0 then replicate (LocNyr g) 0
                          else myRightVel (worker_model g Px Py (p - 1) q) (F (p - 1) q))"
  shows "west (worker_model g Px Py p q) st (F p q) i j =
           (if p * LocNxr g + i = 0 then 0
            else G ! ((p * LocNxr g + i - 1) * (Py * LocNyr g) + (q * LocNyr g + j)))"
proof (cases "i = 0")
  case False
  then have "i - 1 < LocNxr g" "p * LocNxr g + i - 1 = p * LocNxr g + (i - 1)"
    using i by simp_all
  then show ?thesis
    using False tilesD [OF t p q _ j, of "i - 1"] by (simp add: west_def)
next
  case True
  show ?thesis
  proof (cases "p = 0")
    case True
    with \<open>i = 0\<close> j l show ?thesis by (simp add: west_def)
  next
    case False
    then obtain p' where p': "p = Suc p'" by (cases p) auto
    have lx: "LocNxr g - 1 < LocNxr g" using i by simp
    have "p' < Px" using p p' by simp
    from tilesD [OF t this q lx j]
    have "F p' q ! ((LocNxr g - 1) * LocNyr g + j) =
          G ! ((p' * LocNxr g + (LocNxr g - 1)) * (Py * LocNyr g) + (q * LocNyr g + j))" .
    moreover have "p' * LocNxr g + (LocNxr g - 1) = p * LocNxr g + i - 1"
      using p' True i by simp
    ultimately show ?thesis
      using True False p' j l i
      by (simp add: west_def myRightVel_def del: upt_Suc)
  qed
qed

lemma east_global:
  assumes t: "tiles g Px Py F G" and p: "p < Px" and q: "q < Py"
    and i: "i < LocNxr g" and j: "j < LocNyr g"
    and r: "rightVel st = (if p + 1 = Px then replicate (LocNyr g) 0
                           else myLeftVel (worker_model g Px Py (p + 1) q) (F (p + 1) q))"
  shows "east (worker_model g Px Py p q) st (F p q) i j =
           (if p * LocNxr g + i + 1 = Px * LocNxr g then 0
            else G ! ((p * LocNxr g + i + 1) * (Py * LocNyr g) + (q * LocNyr g + j)))"
proof (cases "i + 1 = LocNxr g")
  case False
  then have i': "i + 1 < LocNxr g" using i by simp
  have "p * LocNxr g + i + 1 < Px * LocNxr g"
    using index_bound [OF p i'] by simp
  then show ?thesis
    using False tilesD [OF t p q i' j] by (simp add: east_def add.assoc)
next
  case True
  show ?thesis
  proof (cases "p + 1 = Px")
    case True
    have "p * LocNxr g + i + 1 = Px * LocNxr g"
      using True \<open>i + 1 = LocNxr g\<close> by (metis add.assoc add_mult_distrib mult_1)
    with True \<open>i + 1 = LocNxr g\<close> j r show ?thesis by (simp add: east_def)
  next
    case False
    then have p': "p + 1 < Px" using p by simp
    have lx: "0 < LocNxr g" using i by simp
    note b = tilesD [OF t p' q lx j]
    have c: "(p + 1) * LocNxr g + 0 = p * LocNxr g + i + 1"
      using True by simp
    have d: "p * LocNxr g + i + 1 \<noteq> Px * LocNxr g"
    proof
      assume "p * LocNxr g + i + 1 = Px * LocNxr g"
      then have "(p + 1) * LocNxr g = Px * LocNxr g" using True by (simp add: algebra_simps)
      then have "p + 1 = Px \<or> LocNxr g = 0" by (simp only: mult_cancel2)
      then show False using lx False by simp
    qed
    have "east (worker_model g Px Py p q) st (F p q) i j = rightVel st ! j"
      using True by (simp add: east_def)
    also have "\<dots> = F (p + 1) q ! (0 * LocNyr g + j)"
      using r False j by (simp add: myLeftVel_def del: upt_Suc)
    also have "\<dots> = G ! (((p + 1) * LocNxr g + 0) * (Py * LocNyr g) + (q * LocNyr g + j))"
      by (rule b)
    also have "\<dots> = G ! ((p * LocNxr g + i + 1) * (Py * LocNyr g) + (q * LocNyr g + j))"
      by (simp only: c)
    finally show ?thesis by (simp only: d if_False)
  qed
qed

lemma north_global:
  assumes t: "tiles g Px Py F G" and p: "p < Px" and q: "q < Py"
    and i: "i < LocNxr g" and j: "j < LocNyr g"
    and u: "upVel st = (if q = 0 then replicate (LocNxr g) 0
                        else myDownVel (worker_model g Px Py p (q - 1)) (F p (q - 1)))"
  shows "north (worker_model g Px Py p q) st (F p q) i j =
           (if q * LocNyr g + j = 0 then 0
            else G ! ((p * LocNxr g + i) * (Py * LocNyr g) + (q * LocNyr g + j - 1)))"
proof (cases "j = 0")
  case False
  then have "j - 1 < LocNyr g" "q * LocNyr g + j - 1 = q * LocNyr g + (j - 1)"
    using j by simp_all
  then show ?thesis
    using False tilesD [OF t p q i, of "j - 1"] by (simp add: north_def)
next
  case True
  show ?thesis
  proof (cases "q = 0")
    case True
    with \<open>j = 0\<close> i u show ?thesis by (simp add: north_def)
  next
    case False
    then obtain q' where q': "q = Suc q'" by (cases q) auto
    have ly: "LocNyr g - 1 < LocNyr g" using j by simp
    have "q' < Py" using q q' by simp
    note b = tilesD [OF t p this i ly]
    have c: "q' * LocNyr g + (LocNyr g - 1) = q * LocNyr g + j - 1"
      using q' True j by simp
    have d: "q * LocNyr g + j \<noteq> 0" using q' j by simp
    have "north (worker_model g Px Py p q) st (F p q) i j = upVel st ! i"
      using True by (simp add: north_def)
    also have "\<dots> = F p q' ! (i * LocNyr g + (LocNyr g - 1))"
      using u q' i by (simp add: myDownVel_def del: upt_Suc)
    also have "\<dots> = G ! ((p * LocNxr g + i) * (Py * LocNyr g) + (q' * LocNyr g + (LocNyr g - 1)))"
      by (rule b)
    also have "\<dots> = G ! ((p * LocNxr g + i) * (Py * LocNyr g) + (q * LocNyr g + j - 1))"
      by (simp only: c)
    finally show ?thesis by (simp only: d if_False)
  qed
qed

lemma south_global:
  assumes t: "tiles g Px Py F G" and p: "p < Px" and q: "q < Py"
    and i: "i < LocNxr g" and j: "j < LocNyr g"
    and d: "downVel st = (if q + 1 = Py then replicate (LocNxr g) 0
                          else myUpVel (worker_model g Px Py p (q + 1)) (F p (q + 1)))"
  shows "south (worker_model g Px Py p q) st (F p q) i j =
           (if q * LocNyr g + j + 1 = Py * LocNyr g then 0
            else G ! ((p * LocNxr g + i) * (Py * LocNyr g) + (q * LocNyr g + j + 1)))"
proof (cases "j + 1 = LocNyr g")
  case False
  then have j': "j + 1 < LocNyr g" using j by simp
  have "q * LocNyr g + j + 1 < Py * LocNyr g"
    using index_bound [OF q j'] by simp
  then show ?thesis
    using False tilesD [OF t p q i j'] by (simp add: south_def add.assoc)
next
  case True
  show ?thesis
  proof (cases "q + 1 = Py")
    case True
    have "q * LocNyr g + j + 1 = Py * LocNyr g"
      using True \<open>j + 1 = LocNyr g\<close> by (metis add.assoc add_mult_distrib mult_1)
    with True \<open>j + 1 = LocNyr g\<close> i d show ?thesis by (simp add: south_def)
  next
    case False
    then have q': "q + 1 < Py" using q by simp
    have ly: "0 < LocNyr g" using j by simp
    note b = tilesD [OF t p q' i ly]
    have c: "(q + 1) * LocNyr g + 0 = q * LocNyr g + j + 1"
      using True by simp
    have ne: "q * LocNyr g + j + 1 \<noteq> Py * LocNyr g"
    proof
      assume "q * LocNyr g + j + 1 = Py * LocNyr g"
      then have "(q + 1) * LocNyr g = Py * LocNyr g" using True by (simp add: algebra_simps)
      then have "q + 1 = Py \<or> LocNyr g = 0" by (simp only: mult_cancel2)
      then show False using ly False by simp
    qed
    have "south (worker_model g Px Py p q) st (F p q) i j = downVel st ! i"
      using True by (simp add: south_def)
    also have "\<dots> = F p (q + 1) ! (i * LocNyr g + 0)"
      using d False i by (simp add: myUpVel_def del: upt_Suc)
    also have "\<dots> = G ! ((p * LocNxr g + i) * (Py * LocNyr g) + ((q + 1) * LocNyr g + 0))"
      by (rule b)
    also have "\<dots> = G ! ((p * LocNxr g + i) * (Py * LocNyr g) + (q * LocNyr g + j + 1))"
      by (simp only: c)
    finally show ?thesis by (simp only: ne if_False)
  qed
qed

lemma nth_map_index:
  assumes "s < m" "r < (n::nat)"
  shows "map f [0..<m * n] ! (s * n + r) = f (s * n + r)"
  using index_bound [OF assms] by (simp del: upt_Suc)

lemma nth_global_update:
  assumes "x < GX" "y < GY"
  shows "global_update g GX GY SELECT_U Vel Other ! (x * GY + y) =
           stencil g SELECT_U (Vel ! (x * GY + y)) (Other ! (x * GY + y))
              (if x = 0 then 0 else Vel ! ((x - 1) * GY + y))
              (if x + 1 = GX then 0 else Vel ! ((x + 1) * GY + y))
              (if y = 0 then 0 else Vel ! (x * GY + (y - 1)))
              (if y + 1 = GY then 0 else Vel ! (x * GY + (y + 1)))"
proof -
  have dm: "(x * GY + y) div GY = x" "(x * GY + y) mod GY = y"
    using assms(2) by simp_all
  show ?thesis
    unfolding global_update_def
    by (simp only: nth_map_index [OF assms] Let_def dm)
qed

lemma length_global_update [simp]:
  "length (global_update g GX GY SELECT_U Vel Other) = GX * GY"
  by (simp add: global_update_def)

lemma SetCaches_halos_mesh:
  assumes "allocated (worker_model g Px Py p q) st"
  shows "leftVel (SetCaches (worker_model g Px Py p q) st Vel (halo_exchange g Px Py F p q)) =
           (if p = 0 then replicate (LocNyr g) 0
            else myRightVel (worker_model g Px Py (p - 1) q) (F (p - 1) q))"
    and "rightVel (SetCaches (worker_model g Px Py p q) st Vel (halo_exchange g Px Py F p q)) =
           (if p + 1 = Px then replicate (LocNyr g) 0
            else myLeftVel (worker_model g Px Py (p + 1) q) (F (p + 1) q))"
    and "upVel (SetCaches (worker_model g Px Py p q) st Vel (halo_exchange g Px Py F p q)) =
           (if q = 0 then replicate (LocNxr g) 0
            else myDownVel (worker_model g Px Py p (q - 1)) (F p (q - 1)))"
    and "downVel (SetCaches (worker_model g Px Py p q) st Vel (halo_exchange g Px Py F p q)) =
           (if q + 1 = Py then replicate (LocNxr g) 0
            else myUpVel (worker_model g Px Py p (q + 1)) (F p (q + 1)))"
  using SetCaches_halos [OF assms halo_exchange_complete, of Vel F]
  by (simp_all add: worker_model_neighbours halo_exchange_def)

lemma NextVelocityState_mesh:
  assumes a: "allocated (worker_model g Px Py p q) st"
    and c: "coefficients_set (worker_model g Px Py p q) st"
    and tF: "tiles g Px Py F G" and tH: "tiles g Px Py H G'"
    and p: "p < Px" and q: "q < Py" and i: "i < LocNxr g" and j: "j < LocNyr g"
    and sel: "F p q = (if SELECT_U then Ui else Vi)" "H p q = (if SELECT_U then Vi else Ui)"
  shows "fst (NextVelocityState (worker_model g Px Py p q) st Ui Vi SELECT_U
                (halo_exchange g Px Py F p q)) ! (i * LocNyr g + j) =
         global_update g (Px * LocNxr g) (Py * LocNyr g) SELECT_U G G'
           ! ((p * LocNxr g + i) * (Py * LocNyr g) + (q * LocNyr g + j))"
proof -
  let ?wm = "worker_model g Px Py p q"
  let ?inc = "halo_exchange g Px Py F p q"
  let ?st = "SetCaches ?wm st (F p q) ?inc"
  have x: "p * LocNxr g + i < Px * LocNxr g" using index_bound [OF p i] .
  have y: "q * LocNyr g + j < Py * LocNyr g" using index_bound [OF q j] .
  have i': "i < LocNxr ?wm" and j': "j < LocNyr ?wm" using i j by simp_all
  note h = SetCaches_halos_mesh [OF a, of "F p q" F]
  have "fst (NextVelocityState ?wm st Ui Vi SELECT_U ?inc) ! (i * LocNyr ?wm + j) =
          stencil ?wm SELECT_U (F p q ! (i * LocNyr ?wm + j)) (H p q ! (i * LocNyr ?wm + j))
            (west ?wm ?st (F p q) i j) (east ?wm ?st (F p q) i j)
            (north ?wm ?st (F p q) i j) (south ?wm ?st (F p q) i j)"
    unfolding sel by (rule NextVelocityState_stencil [OF i' j' c])
  also have "\<dots> =
          stencil g SELECT_U
            (G ! ((p * LocNxr g + i) * (Py * LocNyr g) + (q * LocNyr g + j)))
            (G' ! ((p * LocNxr g + i) * (Py * LocNyr g) + (q * LocNyr g + j)))
            (if p * LocNxr g + i = 0 then 0
             else G ! ((p * LocNxr g + i - 1) * (Py * LocNyr g) + (q * LocNyr g + j)))
            (if p * LocNxr g + i + 1 = Px * LocNxr g then 0
             else G ! ((p * LocNxr g + i + 1) * (Py * LocNyr g) + (q * LocNyr g + j)))
            (if q * LocNyr g + j = 0 then 0
             else G ! ((p * LocNxr g + i) * (Py * LocNyr g) + (q * LocNyr g + j - 1)))
            (if q * LocNyr g + j + 1 = Py * LocNyr g then 0
             else G ! ((p * LocNxr g + i) * (Py * LocNyr g) + (q * LocNyr g + j + 1)))"
    by (simp only: stencil_worker_model worker_model_fields
        tilesD [OF tF p q i j] tilesD [OF tH p q i j]
        west_global [OF tF p q i j h(1)] east_global [OF tF p q i j h(2)]
        north_global [OF tF p q i j h(3)] south_global [OF tF p q i j h(4)])
  also have "\<dots> = global_update g (Px * LocNxr g) (Py * LocNyr g) SELECT_U G G'
           ! ((p * LocNxr g + i) * (Py * LocNyr g) + (q * LocNyr g + j))"
    by (simp only: nth_global_update [OF x y] add.assoc)
  finally show ?thesis by (simp only: worker_model_fields)
qed

lemma velocity_step_CopyAndDelete:
  assumes "allocated m st" "halo_complete m incU" "halo_complete m incV"
  shows "velocity_step m incU incV st =
           CopyAndDelete m (SetCaches m st (V st) incV)
             (fst (NextVelocityState m st (U st) (V st) True incU))
             (fst (NextVelocityState m st (U st) (V st) False incV))"
proof -
  let ?st1 = "snd (NextVelocityState m st (U st) (V st) True incU)"
  have st1: "?st1 = SetCaches m st (U st) incU"
    by (simp add: snd_NextVelocityState)
  have same: "U ?st1 = U st" "V ?st1 = V st"
    by (simp_all add: st1)
  have second: "NextVelocityState m (SetCaches m st (U st) incU) (U st) (V st) False incV =
                NextVelocityState m st (U st) (V st) False incV"
    by (rule NextVelocityState_cong)
       (simp add: SetCaches_SetCaches [OF assms])
  show ?thesis
    by (simp add: velocity_step_def case_prod_beta Let_def snd_NextVelocityState second
        SetCaches_SetCaches [OF assms])
qed

lemma velocity_step_ready:
  assumes "allocated m st" "halo_complete m incU" "halo_complete m incV"
  shows "allocated m (velocity_step m incU incV st)"
    and "coefficients_set m st \<Longrightarrow> coefficients_set m (velocity_step m incU incV st)"
proof -
  note s = velocity_step_CopyAndDelete [OF assms]
  have a: "allocated m (SetCaches m st (V st) incV)"
    by (rule SetCaches_allocated [OF assms(1,3)])
  then have len: "length (U (SetCaches m st (V st) incV)) = LocNyr m * LocNxr m"
                 "length (V (SetCaches m st (V st) incV)) = LocNyr m * LocNxr m"
    by (simp_all add: allocated_def)
  show "allocated m (velocity_step m incU incV st)"
    using a CopyAndDelete_copies [OF len, of "fst (NextVelocityState m st (U st) (V st) True incU)"
        "fst (NextVelocityState m st (U st) (V st) False incV)"]
    unfolding s by (simp add: allocated_def)
  show "coefficients_set m st \<Longrightarrow> coefficients_set m (velocity_step m incU incV st)"
    unfolding s by (simp add: coefficients_set_def)
qed

lemma mesh_step_invariant:
  assumes r: "ready g Px Py ws"
    and tU: "tiles g Px Py (\<lambda>p q. U (ws p q)) GU"
    and tV: "tiles g Px Py (\<lambda>p q. V (ws p q)) GV"
  shows "ready g Px Py (mesh_step g Px Py ws)"
    and "tiles g Px Py (\<lambda>p q. U (mesh_step g Px Py ws p q))
           (fst (global_step g (Px * LocNxr g) (Py * LocNyr g) (GU, GV)))"
    and "tiles g Px Py (\<lambda>p q. V (mesh_step g Px Py ws p q))
           (snd (global_step g (Px * LocNxr g) (Py * LocNyr g) (GU, GV)))"
proof -
  have a: "allocated (worker_model g Px Py p q) (ws p q)"
    and c: "coefficients_set (worker_model g Px Py p q) (ws p q)"
    if "p < Px" "q < Py" for p q
    using r that by (simp_all add: ready_def)
  note hc = halo_exchange_complete
  show "ready g Px Py (mesh_step g Px Py ws)"
    unfolding ready_def mesh_step_def
    using velocity_step_ready [OF a hc hc] c by blast
  show "tiles g Px Py (\<lambda>p q. U (mesh_step g Px Py ws p q))
           (fst (global_step g (Px * LocNxr g) (Py * LocNyr g) (GU, GV)))"
    unfolding tiles_def
  proof (intro allI impI)
    fix p q i j
    assume p: "p < Px" and q: "q < Py" and i: "i < LocNxr g" and j: "j < LocNyr g"
    have "U (mesh_step g Px Py ws p q) =
          fst (NextVelocityState (worker_model g Px Py p q) (ws p q) (U (ws p q)) (V (ws p q)) True
                 (halo_exchange g Px Py (\<lambda>p q. U (ws p q)) p q))"
      unfolding mesh_step_def
      using velocity_step_eq [OF a [OF p q] hc hc] by simp
    then show "U (mesh_step g Px Py ws p q) ! (i * LocNyr g + j) =
          fst (global_step g (Px * LocNxr g) (Py * LocNyr g) (GU, GV))
            ! ((p * LocNxr g + i) * (Py * LocNyr g) + (q * LocNyr g + j))"
      using NextVelocityState_mesh [where F = "\<lambda>p q. U (ws p q)" and H = "\<lambda>p q. V (ws p q)"
          and SELECT_U = True and Ui = "U (ws p q)" and Vi = "V (ws p q)",
          OF a [OF p q] c [OF p q] tU tV p q i j]
      by (simp add: global_step_def)
  qed
  show "tiles g Px Py (\<lambda>p q. V (mesh_step g Px Py ws p q))
           (snd (global_step g (Px * LocNxr g) (Py * LocNyr g) (GU, GV)))"
    unfolding tiles_def
  proof (intro allI impI)
    fix p q i j
    assume p: "p < Px" and q: "q < Py" and i: "i < LocNxr g" and j: "j < LocNyr g"
    have "V (mesh_step g Px Py ws p q) =
          fst (NextVelocityState (worker_model g Px Py p q) (ws p q) (U (ws p q)) (V (ws p q)) False
                 (halo_exchange g Px Py (\<lambda>p q. V (ws p q)) p q))"
      unfolding mesh_step_def
      using velocity_step_eq [OF a [OF p q] hc hc] by simp
    then show "V (mesh_step g Px Py ws p q) ! (i * LocNyr g + j) =
          snd (global_step g (Px * LocNxr g) (Py * LocNyr g) (GU, GV))
            ! ((p * LocNxr g + i) * (Py * LocNyr g) + (q * LocNyr g + j))"
      using NextVelocityState_mesh [where F = "\<lambda>p q. V (ws p q)" and H = "\<lambda>p q. U (ws p q)"
          and SELECT_U = False and Ui = "U (ws p q)" and Vi = "V (ws p q)",
          OF a [OF p q] c [OF p q] tV tU p q i j]
      by (simp add: global_step_def)
  qed
qed

lemma mesh_run_invariant:
  assumes "ready g Px Py ws"
    and "tiles g Px Py (\<lambda>p q. U (ws p q)) GU"
    and "tiles g Px Py (\<lambda>p q. V (ws p q)) GV"
  shows "ready g Px Py (mesh_run g Px Py n ws)
       \<and> tiles g Px Py (\<lambda>p q. U (mesh_run g Px Py n ws p q))
           (fst ((global_step g (Px * LocNxr g) (Py * LocNyr g) ^^ n) (GU, GV)))
       \<and> tiles g Px Py (\<lambda>p q. V (mesh_run g Px Py n ws p q))
           (snd ((global_step g (Px * LocNxr g) (Py * LocNyr g) ^^ n) (GU, GV)))"
proof (induction n)
  case 0
  show ?case using assms by (simp add: mesh_run_def)
next
  case (Suc n)
  let ?G = "(global_step g (Px * LocNxr g) (Py * LocNyr g) ^^ n) (GU, GV)"
  have G: "?G = (fst ?G, snd ?G)" by simp
  from Suc have r: "ready g Px Py (mesh_run g Px Py n ws)"
    and tU: "tiles g Px Py (\<lambda>p q. U (mesh_run g Px Py n ws p q)) (fst ?G)"
    and tV: "tiles g Px Py (\<lambda>p q. V (mesh_run g Px Py n ws p q)) (snd ?G)"
    by simp_all
  from mesh_step_invariant [OF r tU tV]
  show ?case by (simp add: mesh_run_def)
qed

lemma single_worker_fields [simp]:
  "LocNxr (single_worker g Px Py) = Px * LocNxr g"
  "LocNyr (single_worker g Px Py) = Py * LocNyr g"
  by (simp_all add: single_worker_def)

lemma global_step_single_worker [simp]:
  "global_step (single_worker g Px Py) GX GY = global_step g GX GY"
proof -
  have "stencil (single_worker g Px Py) = stencil g"
    by (intro ext) (simp add: stencil_def single_worker_def)
  then show ?thesis
    by (simp add: global_step_def global_update_def)
qed

lemma tiles_single:
  "tiles g' 1 1 F (F 0 0)"
  by (simp add: tiles_def)

lemma decomposition_agrees:
  assumes r: "ready g Px Py ws" and r1: "ready (single_worker g Px Py) 1 1 ws1"
    and tU: "tiles g Px Py (\<lambda>p q. U (ws p q)) (U (ws1 0 0))"
    and tV: "tiles g Px Py (\<lambda>p q. V (ws p q)) (V (ws1 0 0))"
    and p: "p < Px" and q: "q < Py" and i: "i < LocNxr g" and j: "j < LocNyr g"
  shows "U (mesh_run g Px Py n ws p q) ! (i * LocNyr g + j) =
           U (mesh_run (single_worker g Px Py) 1 1 n ws1 0 0)
             ! ((p * LocNxr g + i) * (Py * LocNyr g) + (q * LocNyr g + j))"
    and "V (mesh_run g Px Py n ws p q) ! (i * LocNyr g + j) =
           V (mesh_run (single_worker g Px Py) 1 1 n ws1 0 0)
             ! ((p * LocNxr g + i) * (Py * LocNyr g) + (q * LocNyr g + j))"
proof -
  let ?g1 = "single_worker g Px Py"
  let ?G = "(global_step g (Px * LocNxr g) (Py * LocNyr g) ^^ n) (U (ws1 0 0), V (ws1 0 0))"
  have x: "p * LocNxr g + i < LocNxr ?g1" using index_bound [OF p i] by simp
  have y: "q * LocNyr g + j < LocNyr ?g1" using index_bound [OF q j] by simp
  note m = mesh_run_invariant [OF r tU tV, of n]
  have s: "tiles ?g1 1 1 (\<lambda>p q. U (mesh_run ?g1 1 1 n ws1 p q)) (fst ?G)"
          "tiles ?g1 1 1 (\<lambda>p q. V (mesh_run ?g1 1 1 n ws1 p q)) (snd ?G)"
    using mesh_run_invariant [OF r1 tiles_single tiles_single, of n] by simp_all
  have "U (mesh_run g Px Py n ws p q) ! (i * LocNyr g + j) =
        fst ?G ! ((p * LocNxr g + i) * (Py * LocNyr g) + (q * LocNyr g + j))"
    using m p q i j by (simp add: tiles_def)
  also have "\<dots> = U (mesh_run ?g1 1 1 n ws1 0 0)
             ! ((p * LocNxr g + i) * (Py * LocNyr g) + (q * LocNyr g + j))"
    using tilesD [OF s(1) _ _ x y, of 0 0] by simp
  finally show "U (mesh_run g Px Py n ws p q) ! (i * LocNyr g + j) =
           U (mesh_run ?g1 1 1 n ws1 0 0)
             ! ((p * LocNxr g + i) * (Py * LocNyr g) + (q * LocNyr g + j))" .
  have "V (mesh_run g Px Py n ws p q) ! (i * LocNyr g + j) =
        snd ?G ! ((p * LocNxr g + i) * (Py * LocNyr g) + (q * LocNyr g + j))"
    using m p q i j by (simp add: tiles_def)
  also have "\<dots> = V (mesh_run ?g1 1 1 n ws1 0 0)
             ! ((p * LocNxr g + i) * (Py * LocNyr g) + (q * LocNyr g + j))"
    using tilesD [OF s(2) _ _ x y, of 0 0] by simp
  finally show "V (mesh_run g Px Py n ws p q) ! (i * LocNyr g + j) =
           V (mesh_run ?g1 1 1 n ws1 0 0)
             ! ((p * LocNxr g + i) * (Py * LocNyr g) + (q * LocNyr g + j))" .
qed

lemma ready_mesh_2x1: "ready model_1x2 2 1 mesh_2x1"
  by (simp add: ready_def mesh_2x1_def allocated_def coefficients_set_def
      SetMatrixCoefficients_def Let_def model_1x2_def model_2x2_def)

lemma ready_single_2x2: "ready (single_worker model_1x2 2 1) 1 1 (\<lambda>p q. state_2x2_ready)"
  by (simp add: ready_def state_2x2_ready_def state_2x2_def allocated_def coefficients_set_def
      SetMatrixCoefficients_def Let_def model_1x2_def model_2x2_def single_worker_def
      worker_model_def)

lemma tiles_mesh_2x1:
  "tiles model_1x2 2 1 (\<lambda>p q. U (mesh_2x1 p q)) (U state_2x2_ready)"
  "tiles model_1x2 2 1 (\<lambda>p q. V (mesh_2x1 p q)) (V state_2x2_ready)"
  by (auto simp add: tiles_def mesh_2x1_def state_2x2_ready_def state_2x2_def
      SetMatrixCoefficients_def Let_def model_1x2_def model_2x2_def less_Suc_eq numeral_2_eq_2)

lemma mesh_run_fold:
  "fold (\<lambda>k st. velocity_step (worker_model g Px Py p q)
                  (halo_exchange g Px Py (\<lambda>p q. U (mesh_run g Px Py k ws p q)) p q)
                  (halo_exchange g Px Py (\<lambda>p q. V (mesh_run g Px Py k ws p q)) p q) st)
      [0..<n] (ws p q) = mesh_run g Px Py n ws p q"
  by (induction n) (simp_all add: mesh_run_def mesh_step_def)

lemma SetIntegratedVelocity_mesh_run:
  "SetIntegratedVelocity (worker_model g Px Py p q)
     (\<lambda>k. (halo_exchange g Px Py (\<lambda>p q. U (mesh_run g Px Py k
                (\<lambda>p q. SetMatrixCoefficients (worker_model g Px Py p q) (ws p q)) p q)) p q,
           halo_exchange g Px Py (\<lambda>p q. V (mesh_run g Px Py k
                (\<lambda>p q. SetMatrixCoefficients (worker_model g Px Py p q) (ws p q)) p q)) p q))
     (ws p q) =
   mesh_run g Px Py (Nt g - 1)
     (\<lambda>p q. SetMatrixCoefficients (worker_model g Px Py p q) (ws p q)) p q"
proof -
  have "Nt (worker_model g Px Py p q) = Nt g" by (simp add: worker_model_def)
  then show ?thesis
    using mesh_run_fold [of g Px Py p q
        "\<lambda>p q. SetMatrixCoefficients (worker_model g Px Py p q) (ws p q)" "Nt g - 1"]
    by (simp add: SetIntegratedVelocity_def Let_def)
qed

lemma global_step_2x2:
  "fst (global_step model_1x2 2 2 ([1, 2, 3, 4], [5, 6, 7, 8])) ! 3 = - 24"
  using nth_global_update [of 1 2 1 2 model_1x2 True "[1, 2, 3, 4]" "[5, 6, 7, 8]"]
  by (simp add: global_step_def stencil_def model_1x2_def model_2x2_def)

lemma mesh_2x1_value:
  "U (mesh_run model_1x2 2 1 1 mesh_2x1 1 0) ! 1 = - 24"
proof -
  have uv: "U state_2x2_ready = [1, 2, 3, 4]" "V state_2x2_ready = [5, 6, 7, 8]"
    by (simp_all add: state_2x2_ready_def SetMatrixCoefficients_def Let_def state_2x2_def)
  have l: "LocNxr model_1x2 = 1" "LocNyr model_1x2 = 2"
    by (simp_all add: model_1x2_def model_2x2_def)
  from mesh_run_invariant [OF ready_mesh_2x1 tiles_mesh_2x1, of 1]
  have "tiles model_1x2 2 1 (\<lambda>p q. U (mesh_run model_1x2 2 1 1 mesh_2x1 p q))
          (fst (global_step model_1x2 2 2 ([1, 2, 3, 4], [5, 6, 7, 8])))"
    by (simp add: uv l)
  from tilesD [OF this, of 1 0 0 1] show ?thesis
    by (simp add: l global_step_2x2)
qed

text \<open>
  Claim C2. Take any mesh \<open>Px \<times> Py\<close> of workers with local extents \<open>Nxr \<times> Nyr\<close>, any
  coefficients, and a single worker that owns the same \<open>Px * Nxr\<close> by \<open>Py * Nyr\<close> grid
  with the same coefficients; let the workers' initial fields tile the single worker's
  initial fields. After any number \<open>n\<close> of time steps, with the halo exchange a copy of
  the neighbour's boundary row or column, every cell of every worker holds the value the
  single worker holds at the corresponding global cell, for \<open>U\<close> and for \<open>V\<close> (exact real
  arithmetic).
\<close>

theorem single_worker_equals_decomposition:
  assumes "ready g Px Py ws" and "ready (single_worker g Px Py) 1 1 ws1"
    and "tiles g Px Py (\<lambda>p q. U (ws p q)) (U (ws1 0 0))"
    and "tiles g Px Py (\<lambda>p q. V (ws p q)) (V (ws1 0 0))"
    and "p < Px" and "q < Py" and "i < LocNxr g" and "j < LocNyr g"
  shows "U (mesh_run g Px Py n ws p q) ! (i * LocNyr g + j) =
           U (mesh_run (single_worker g Px Py) 1 1 n ws1 0 0)
             ! ((p * LocNxr g + i) * (Py * LocNyr g) + (q * LocNyr g + j))
       \<and> V (mesh_run g Px Py n ws p q) ! (i * LocNyr g + j) =
           V (mesh_run (single_worker g Px Py) 1 1 n ws1 0 0)
             ! ((p * LocNxr g + i) * (Py * LocNyr g) + (q * LocNyr g + j))"
  using decomposition_agrees [OF assms] by simp

theorem single_worker_equals_decomposition_witness:
  "U (mesh_run model_1x2 2 1 1 mesh_2x1 1 0) ! 1 =
     U (mesh_run (single_worker model_1x2 2 1) 1 1 1 (\<lambda>p q. state_2x2_ready) 0 0) ! 3
   \<and> V (mesh_run model_1x2 2 1 1 mesh_2x1 1 0) ! 1 =
     V (mesh_run (single_worker model_1x2 2 1) 1 1 1 (\<lambda>p q. state_2x2_ready) 0 0) ! 3
   \<and> U (mesh_run (single_worker model_1x2 2 1) 1 1 1 (\<lambda>p q. state_2x2_ready) 0 0) ! 3 = - 24"
  using single_worker_equals_decomposition
    [OF ready_mesh_2x1 ready_single_2x2 tiles_mesh_2x1, of 1 0 0 1 1]
    mesh_2x1_value
  by (simp add: model_1x2_def model_2x2_def)

end
